theory Spec2Isabelle
  imports Main "HOL-Library.Word"
begin

unbundle bit_operations_syntax

section \<open>Machine types and memory access\<close>

text \<open>
  The library \<^verbatim>\<open>libverushash\<close> works on bytes (\<^verbatim>\<open>uint8_t\<close>), 32-bit and 64-bit
  unsigned integers and on 128-bit SSE registers (\<^verbatim>\<open>__m128i\<close>). The target is x86, so
  every reinterpretation of a byte buffer as a wider integer is little-endian.
\<close>

type_synonym u8 = "8 word"
type_synonym u32 = "32 word"
type_synonym u64 = "64 word"
type_synonym m128i = "128 word"

abbreviation (input) VERUS_BLOCKSIZE :: nat where "VERUS_BLOCKSIZE \<equiv> 64"
abbreviation (input) VERUS_ROUNDS :: nat where "VERUS_ROUNDS \<equiv> 8"

text \<open>Reading a little-endian integer from consecutive bytes, and writing one.\<close>

fun word_of_le :: "u8 list \<Rightarrow> 'a::len word" where
  "word_of_le [] = 0"
| "word_of_le (b # bs) = ucast b OR push_bit 8 (word_of_le bs)"

fun le_of_word :: "nat \<Rightarrow> 'a::len word \<Rightarrow> u8 list" where
  "le_of_word 0 w = []"
| "le_of_word (Suc n) w = ucast w # le_of_word n (drop_bit 8 w)"

text \<open>\<^verbatim>\<open>((uint32_t*)p)[i]\<close>, \<^verbatim>\<open>_mm_load_si128((__m128i*)(p + off))\<close> and
  \<^verbatim>\<open>_mm_store_si128\<close>.\<close>

definition load_u32 :: "u8 list \<Rightarrow> nat \<Rightarrow> u32" where
  "load_u32 p i = word_of_le (take 4 (drop (4 * i) p))"

definition store_u32 :: "u32 \<Rightarrow> u8 list" where
  "store_u32 w = le_of_word 4 w"

definition load_si128 :: "u8 list \<Rightarrow> nat \<Rightarrow> m128i" where
  "load_si128 p off = word_of_le (take 16 (drop off p))"

definition store_si128 :: "m128i \<Rightarrow> u8 list" where
  "store_si128 w = le_of_word 16 w"

definition store_u64 :: "u64 \<Rightarrow> u8 list" where
  "store_u64 w = le_of_word 8 w"

text \<open>\<^verbatim>\<open>memcpy(dst + off, src, length src)\<close> and \<^verbatim>\<open>memset(dst + off, v, n)\<close> on a
  byte array held as a list. All calls of the library stay inside the array.\<close>

definition memcpy :: "u8 list \<Rightarrow> nat \<Rightarrow> u8 list \<Rightarrow> u8 list" where
  "memcpy dst off src = take off dst @ src @ drop (off + length src) dst"

definition memset :: "u8 list \<Rightarrow> nat \<Rightarrow> u8 \<Rightarrow> nat \<Rightarrow> u8 list" where
  "memset dst off v n = memcpy dst off (replicate n v)"

definition mm_set_epi32 :: "u32 \<Rightarrow> u32 \<Rightarrow> u32 \<Rightarrow> u32 \<Rightarrow> m128i" where
  "mm_set_epi32 e3 e2 e1 e0 =
     push_bit 96 (ucast e3) OR push_bit 64 (ucast e2) OR push_bit 32 (ucast e1) OR ucast e0"

definition mm_set_epi64x :: "u64 \<Rightarrow> u64 \<Rightarrow> m128i" where
  "mm_set_epi64x e1 e0 = push_bit 64 (ucast e1) OR ucast e0"

section \<open>The permutation core\<close>

definition HARAKA_RC :: "m128i list" where
  "HARAKA_RC =
    [mm_set_epi32 0x0e05ae8c 0x2d345e69 0x417f1b07 0xb6707e78,
     mm_set_epi32 0xc6f7e2f3 0x5c12a4a8 0xfd7c8b85 0x78a93ab4,
     mm_set_epi32 0x8c5f87ad 0x4c9a4f5e 0x924fddb2 0xe1a7c3d1,
     mm_set_epi32 0xf43b8f5b 0x7a94c28e 0x85f2a641 0x23a8c9be,
     mm_set_epi32 0x5c18b2d4 0x9a7de8f1 0xf83c6e2b 0x41c8d956,
     mm_set_epi32 0x2f9db3ac 0x8e4a7c5f 0xb5f8d629 0x73e1a4c2,
     mm_set_epi32 0x6b2c8f94 0xe7d15a3b 0x1f8c4d26 0xa5b9e1c7,
     mm_set_epi32 0x9c5f2b84 0x3d7a61e8 0xf2b4c9a5 0x8e1d756c]"

text \<open>\<^verbatim>\<open>((uint32_t*)HARAKA_RC)[j]\<close>: the constant table read as an array of 32-bit
  words.\<close>

definition HARAKA_RC_u32 :: "nat \<Rightarrow> u32" where
  "HARAKA_RC_u32 j = load_u32 (concat (map store_si128 HARAKA_RC)) j"

subsection \<open>Software path\<close>

text \<open>The body of the inner loop of \<^verbatim>\<open>haraka512_software\<close> for the word at index \<open>i\<close>.\<close>

definition sw_word :: "nat \<Rightarrow> u32 \<Rightarrow> u32" where
  "sw_word i x0 =
     (let x1 = x0 XOR (push_bit 13 x0 OR drop_bit 19 x0);
          x2 = x1 XOR (drop_bit 17 x1 OR push_bit 15 x1)
      in x2 + HARAKA_RC_u32 (i mod 8))"

text \<open>One iteration of the round loop: all sixteen words, then on rounds with
  \<^verbatim>\<open>round & 1\<close> set the shift of the array by one element.\<close>

definition sw_round :: "nat \<Rightarrow> u32 list \<Rightarrow> u32 list" where
  "sw_round round state =
     (let state1 = map (\<lambda>i. sw_word i (state ! i)) [0..<16]
      in if odd round
         then map (\<lambda>i. state1 ! (i + 1)) [0..<15] @ [state1 ! 0]
         else state1)"

definition haraka512_software :: "u8 list \<Rightarrow> u8 list" where
  "haraka512_software input =
     (let state0 = map (\<lambda>i. load_u32 input i) [0..<16];
          state1 = fold sw_round [0..<VERUS_ROUNDS] state0;
          state2 = map (\<lambda>i. state1 ! i XOR load_u32 input i) [0..<16]
      in concat (map (\<lambda>i. store_u32 (state2 ! i XOR state2 ! (i + 8))) [0..<8]))"

subsection \<open>Hardware path\<close>

text \<open>
  \<^verbatim>\<open>_mm_aesenc_si128\<close> is the x86 instruction AESENC: one round of the AES cipher
  (ShiftRows, SubBytes, MixColumns, then XOR with the round key) on the register seen as a
  column-major 4x4 byte matrix, byte 0 being the least significant byte of the register.
\<close>

definition aes_sbox :: "u8 list list" where
  "aes_sbox =
    [[0x63, 0x7c, 0x77, 0x7b, 0xf2, 0x6b, 0x6f, 0xc5, 0x30, 0x01, 0x67, 0x2b, 0xfe, 0xd7, 0xab, 0x76],
     [0xca, 0x82, 0xc9, 0x7d, 0xfa, 0x59, 0x47, 0xf0, 0xad, 0xd4, 0xa2, 0xaf, 0x9c, 0xa4, 0x72, 0xc0],
     [0xb7, 0xfd, 0x93, 0x26, 0x36, 0x3f, 0xf7, 0xcc, 0x34, 0xa5, 0xe5, 0xf1, 0x71, 0xd8, 0x31, 0x15],
     [0x04, 0xc7, 0x23, 0xc3, 0x18, 0x96, 0x05, 0x9a, 0x07, 0x12, 0x80, 0xe2, 0xeb, 0x27, 0xb2, 0x75],
     [0x09, 0x83, 0x2c, 0x1a, 0x1b, 0x6e, 0x5a, 0xa0, 0x52, 0x3b, 0xd6, 0xb3, 0x29, 0xe3, 0x2f, 0x84],
     [0x53, 0xd1, 0x00, 0xed, 0x20, 0xfc, 0xb1, 0x5b, 0x6a, 0xcb, 0xbe, 0x39, 0x4a, 0x4c, 0x58, 0xcf],
     [0xd0, 0xef, 0xaa, 0xfb, 0x43, 0x4d, 0x33, 0x85, 0x45, 0xf9, 0x02, 0x7f, 0x50, 0x3c, 0x9f, 0xa8],
     [0x51, 0xa3, 0x40, 0x8f, 0x92, 0x9d, 0x38, 0xf5, 0xbc, 0xb6, 0xda, 0x21, 0x10, 0xff, 0xf3, 0xd2],
     [0xcd, 0x0c, 0x13, 0xec, 0x5f, 0x97, 0x44, 0x17, 0xc4, 0xa7, 0x7e, 0x3d, 0x64, 0x5d, 0x19, 0x73],
     [0x60, 0x81, 0x4f, 0xdc, 0x22, 0x2a, 0x90, 0x88, 0x46, 0xee, 0xb8, 0x14, 0xde, 0x5e, 0x0b, 0xdb],
     [0xe0, 0x32, 0x3a, 0x0a, 0x49, 0x06, 0x24, 0x5c, 0xc2, 0xd3, 0xac, 0x62, 0x91, 0x95, 0xe4, 0x79],
     [0xe7, 0xc8, 0x37, 0x6d, 0x8d, 0xd5, 0x4e, 0xa9, 0x6c, 0x56, 0xf4, 0xea, 0x65, 0x7a, 0xae, 0x08],
     [0xba, 0x78, 0x25, 0x2e, 0x1c, 0xa6, 0xb4, 0xc6, 0xe8, 0xdd, 0x74, 0x1f, 0x4b, 0xbd, 0x8b, 0x8a],
     [0x70, 0x3e, 0xb5, 0x66, 0x48, 0x03, 0xf6, 0x0e, 0x61, 0x35, 0x57, 0xb9, 0x86, 0xc1, 0x1d, 0x9e],
     [0xe1, 0xf8, 0x98, 0x11, 0x69, 0xd9, 0x8e, 0x94, 0x9b, 0x1e, 0x87, 0xe9, 0xce, 0x55, 0x28, 0xdf],
     [0x8c, 0xa1, 0x89, 0x0d, 0xbf, 0xe6, 0x42, 0x68, 0x41, 0x99, 0x2d, 0x0f, 0xb0, 0x54, 0xbb, 0x16]]"

text \<open>The S-box is indexed by the high and the low nibble of the byte.\<close>

definition SubBytes :: "u8 list \<Rightarrow> u8 list" where
  "SubBytes s = map (\<lambda>b. aes_sbox ! unat (drop_bit 4 b) ! unat (b AND 0x0f)) s"

definition ShiftRows :: "u8 list \<Rightarrow> u8 list" where
  "ShiftRows s = map (\<lambda>j. s ! (j mod 4 + 4 * ((j div 4 + j mod 4) mod 4))) [0..<16]"

definition xtime :: "u8 \<Rightarrow> u8" where
  "xtime a = (if a AND 0x80 = 0 then push_bit 1 a else push_bit 1 a XOR 0x1b)"

definition mix_column :: "u8 \<Rightarrow> u8 \<Rightarrow> u8 \<Rightarrow> u8 \<Rightarrow> u8 list" where
  "mix_column a0 a1 a2 a3 =
     [xtime a0 XOR (xtime a1 XOR a1) XOR a2 XOR a3,
      a0 XOR xtime a1 XOR (xtime a2 XOR a2) XOR a3,
      a0 XOR a1 XOR xtime a2 XOR (xtime a3 XOR a3),
      (xtime a0 XOR a0) XOR a1 XOR a2 XOR xtime a3]"

definition MixColumns :: "u8 list \<Rightarrow> u8 list" where
  "MixColumns s =
     concat (map (\<lambda>c. mix_column (s ! (4 * c)) (s ! (4 * c + 1)) (s ! (4 * c + 2)) (s ! (4 * c + 3)))
       [0..<4])"

text \<open>The round on the sixteen bytes of the register and of the round key.\<close>

definition aesenc_bytes :: "u8 list \<Rightarrow> u8 list \<Rightarrow> u8 list" where
  "aesenc_bytes s k = map2 (XOR) (MixColumns (SubBytes (ShiftRows s))) k"

definition mm_aesenc_si128 :: "m128i \<Rightarrow> m128i \<Rightarrow> m128i" where
  "mm_aesenc_si128 a round_key =
     load_si128 (aesenc_bytes (store_si128 a) (store_si128 round_key)) 0"

text \<open>The four lanes \<^verbatim>\<open>s0..s3\<close> of the hardware path, and the \<^verbatim>\<open>state[4]\<close> array of
  the sponge.\<close>

datatype hash_state = HashState (lane0: m128i) (lane1: m128i) (lane2: m128i) (lane3: m128i)

fun aes_round :: "nat \<Rightarrow> hash_state \<Rightarrow> hash_state" where
  "aes_round i (HashState s0 s1 s2 s3) =
     (let t0 = mm_aesenc_si128 s0 (HARAKA_RC ! (i mod 8));
          t1 = mm_aesenc_si128 s1 (HARAKA_RC ! ((i + 1) mod 8));
          t2 = mm_aesenc_si128 s2 (HARAKA_RC ! ((i + 2) mod 8));
          t3 = mm_aesenc_si128 s3 (HARAKA_RC ! ((i + 3) mod 8))
      in if odd i then HashState t1 t2 t3 t0 else HashState t0 t1 t2 t3)"

fun aes_ni_output :: "u8 list \<Rightarrow> hash_state \<Rightarrow> u8 list" where
  "aes_ni_output input (HashState s0 s1 s2 s3) =
     (let f0 = s0 XOR load_si128 input 0;
          f1 = s1 XOR load_si128 input 16;
          f2 = s2 XOR load_si128 input 32;
          f3 = s3 XOR load_si128 input 48
      in store_si128 (f0 XOR f2) @ store_si128 (f1 XOR f3))"

definition haraka512_aes_ni :: "u8 list \<Rightarrow> u8 list" where
  "haraka512_aes_ni input =
     aes_ni_output input
       (fold aes_round [0..<VERUS_ROUNDS]
          (HashState (load_si128 input 0) (load_si128 input 16)
                     (load_si128 input 32) (load_si128 input 48)))"

text \<open>The dispatcher. \<open>hw\<close> stands for: the library was built with \<^verbatim>\<open>HAVE_AES_NI\<close> and
  \<^verbatim>\<open>verushash_has_aes_ni()\<close> reports the instruction set.\<close>

definition haraka512 :: "bool \<Rightarrow> u8 list \<Rightarrow> u8 list" where
  "haraka512 hw input = (if hw then haraka512_aes_ni input else haraka512_software input)"

section \<open>The sponge engine\<close>

definition initial_state :: hash_state where
  "initial_state =
     HashState (mm_set_epi64x 0x6a09e667f3bcc908 0xbb67ae8584caa73b)
               (mm_set_epi64x 0x3c6ef372fe94f82b 0xa54ff53a5f1d36f1)
               (mm_set_epi64x 0x510e527fade682d1 0x9b05688c2b3e6c1f)
               (mm_set_epi64x 0x1f83d9abfb41bd6b 0x5be0cd19137e2179)"

text \<open>\<^verbatim>\<open>for i < 4: state[i] = _mm_xor_si128(state[i], _mm_load_si128(block + i * 16))\<close>\<close>

fun xor_block :: "hash_state \<Rightarrow> u8 list \<Rightarrow> hash_state" where
  "xor_block (HashState s0 s1 s2 s3) block =
     HashState (s0 XOR load_si128 block 0) (s1 XOR load_si128 block 16)
               (s2 XOR load_si128 block 32) (s3 XOR load_si128 block 48)"

text \<open>\<^verbatim>\<open>for i < 4: _mm_store_si128(temp_input + i * 16, state[i])\<close>\<close>

fun store_state :: "hash_state \<Rightarrow> u8 list" where
  "store_state (HashState s0 s1 s2 s3) =
     store_si128 s0 @ store_si128 s1 @ store_si128 s2 @ store_si128 s3"

text \<open>
  The block step that the source repeats in the loop of \<^verbatim>\<open>verushash_hash\<close>, twice in
  \<^verbatim>\<open>verushash_update\<close> and in the overflow branch of \<^verbatim>\<open>verushash_finalize\<close>: XOR the
  block into the state, store the state to \<^verbatim>\<open>temp_input\<close>, call \<^verbatim>\<open>haraka512\<close>, and load
  \<^verbatim>\<open>state[0]\<close> and \<^verbatim>\<open>state[1]\<close> from \<^verbatim>\<open>temp_output\<close>.
\<close>

definition absorb_block :: "bool \<Rightarrow> hash_state \<Rightarrow> u8 list \<Rightarrow> hash_state" where
  "absorb_block hw st block =
     (let st1 = xor_block st block;
          temp_output = haraka512 hw (store_state st1)
      in HashState (load_si128 temp_output 0) (load_si128 temp_output 16) (lane2 st1) (lane3 st1))"

subsection \<open>Single-shot entry point\<close>

text \<open>
  The \<^verbatim>\<open>while (remaining >= VERUS_BLOCKSIZE)\<close> loop. The list \<open>data\<close> is the input from
  the pointer \<^verbatim>\<open>data\<close> to its end, so \<^verbatim>\<open>remaining\<close> is its length; the result is the
  state and the unconsumed tail.
\<close>

function hash_loop :: "bool \<Rightarrow> hash_state \<Rightarrow> u8 list \<Rightarrow> hash_state \<times> u8 list" where
  "hash_loop hw st data =
     (if length data \<ge> VERUS_BLOCKSIZE
      then hash_loop hw (absorb_block hw st (take VERUS_BLOCKSIZE data)) (drop VERUS_BLOCKSIZE data)
      else (st, data))"
  by pat_completeness auto
termination
  by (relation "measure (\<lambda>(hw, st, data). length data)") auto

declare hash_loop.simps [simp del]

text \<open>The block built in the \<^verbatim>\<open>remaining > 0\<close> branch; \<open>data\<close> holds the
  \<^verbatim>\<open>remaining\<close> trailing bytes. The product \<^verbatim>\<open>input_len * 8\<close> is formed in 32 bits
  (\<^verbatim>\<open>uint32_t\<close> times \<^verbatim>\<open>int\<close>) and then widened for the 64-bit store.\<close>

definition padded_block :: "u8 list \<Rightarrow> u32 \<Rightarrow> u8 list" where
  "padded_block data input_len =
     (let b0 = replicate VERUS_BLOCKSIZE 0;
          b1 = memcpy b0 0 data;
          b2 = b1[length data := 0x80]
      in memcpy b2 (VERUS_BLOCKSIZE - 8) (store_u64 (ucast (input_len * 8))))"

text \<open>\<^verbatim>\<open>verushash_hash(input, output, input_len)\<close>: \<open>input\<close> is the byte sequence of
  \<^verbatim>\<open>input_len\<close> bytes, the result is what is written to \<^verbatim>\<open>output\<close>.\<close>

definition verushash_hash :: "bool \<Rightarrow> u8 list \<Rightarrow> u8 list" where
  "verushash_hash hw input =
     (let input_len = (of_nat (length input) :: u32);
          (st, data) = hash_loop hw initial_state input
      in if length data > 0
         then haraka512 hw (store_state (xor_block st (padded_block data input_len)))
         else haraka512 hw (store_state st))"

subsection \<open>Streaming entry points\<close>

record verushash_ctx =
  buffer :: "u8 list"
  buffer_len :: nat
  total_len :: u64
  state :: hash_state

text \<open>
  Pointers are options: \<open>None\<close> is the null pointer. \<^verbatim>\<open>verushash_create_context\<close> takes
  the outcome of \<^verbatim>\<open>aligned_alloc\<close>: \<open>None\<close> when the allocation failed, otherwise the
  uninitialised memory it returned.
\<close>

definition verushash_create_context :: "verushash_ctx option \<Rightarrow> verushash_ctx option" where
  "verushash_create_context alloc =
     (case alloc of
        None \<Rightarrow> None
      | Some ctx \<Rightarrow>
          Some (ctx\<lparr>buffer := replicate VERUS_BLOCKSIZE 0,
                     buffer_len := 0, total_len := 0, state := initial_state\<rparr>))"

text \<open>A context whose state, buffer and counters are all zero.\<close>

definition zeroed_ctx :: verushash_ctx where
  "zeroed_ctx =
     \<lparr>buffer = replicate VERUS_BLOCKSIZE 0, buffer_len = 0, total_len = 0,
      state = HashState 0 0 0 0\<rparr>"

text \<open>The \<^verbatim>\<open>while (len >= VERUS_BLOCKSIZE)\<close> loop of \<^verbatim>\<open>verushash_update\<close>, which loads
  each block straight from \<^verbatim>\<open>data\<close> with \<^verbatim>\<open>_mm_load_si128\<close>. The instruction asks for a
  16-byte aligned address; addresses are not part of this model, which gives the value
  loaded.\<close>

function update_loop :: "bool \<Rightarrow> hash_state \<Rightarrow> u8 list \<Rightarrow> hash_state \<times> u8 list" where
  "update_loop hw st data =
     (if length data \<ge> VERUS_BLOCKSIZE
      then update_loop hw (absorb_block hw st (take VERUS_BLOCKSIZE data)) (drop VERUS_BLOCKSIZE data)
      else (st, data))"
  by pat_completeness auto
termination
  by (relation "measure (\<lambda>(hw, st, data). length data)") auto

declare update_loop.simps [simp del]

text \<open>The branch \<^verbatim>\<open>if (ctx->buffer_len > 0)\<close>: top the buffer up from the chunk and absorb
  it when it reaches 64 bytes. Returns the context and the rest of the chunk. The counter
  \<^verbatim>\<open>buffer_len\<close> is a \<^verbatim>\<open>size_t\<close> that stays below 64 between calls (the context
  invariant proved below), so \<^verbatim>\<open>VERUS_BLOCKSIZE - ctx->buffer_len\<close> does not wrap and the
  counter is a natural number here.\<close>

definition fill_buffer :: "bool \<Rightarrow> verushash_ctx \<Rightarrow> u8 list \<Rightarrow> verushash_ctx \<times> u8 list" where
  "fill_buffer hw ctx data =
     (let needed = VERUS_BLOCKSIZE - buffer_len ctx;
          to_copy = (if length data < needed then length data else needed);
          ctx1 = ctx\<lparr>buffer := memcpy (buffer ctx) (buffer_len ctx) (take to_copy data),
                     buffer_len := buffer_len ctx + to_copy\<rparr>;
          data1 = drop to_copy data
      in if buffer_len ctx1 = VERUS_BLOCKSIZE
         then (ctx1\<lparr>state := absorb_block hw (state ctx1) (buffer ctx1), buffer_len := 0\<rparr>, data1)
         else (ctx1, data1))"

text \<open>The body of \<^verbatim>\<open>verushash_update\<close> behind its null-pointer guard. The chunk is the
  list \<open>data\<close> and \<^verbatim>\<open>len\<close> its length, a \<^verbatim>\<open>uint32_t\<close>.\<close>

definition update_body :: "bool \<Rightarrow> verushash_ctx \<Rightarrow> u8 list \<Rightarrow> verushash_ctx" where
  "update_body hw ctx data =
     (let len = (of_nat (length data) :: u32);
          ctx1 = ctx\<lparr>total_len := total_len ctx + ucast len\<rparr>;
          (ctx2, data1) = (if buffer_len ctx1 > 0 then fill_buffer hw ctx1 data else (ctx1, data));
          (st, data2) = update_loop hw (state ctx2) data1;
          ctx3 = ctx2\<lparr>state := st\<rparr>
      in if length data2 > 0
         then ctx3\<lparr>buffer := memcpy (buffer ctx3) (buffer_len ctx3) data2,
                    buffer_len := buffer_len ctx3 + length data2\<rparr>
         else ctx3)"

definition verushash_update ::
    "bool \<Rightarrow> verushash_ctx option \<Rightarrow> u8 list option \<Rightarrow> verushash_ctx option" where
  "verushash_update hw p d =
     (case (p, d) of
        (Some ctx, Some data) \<Rightarrow> Some (update_body hw ctx data)
      | _ \<Rightarrow> p)"

text \<open>The body of \<^verbatim>\<open>verushash_finalize\<close> behind its null-pointer guard: the context as
  the call leaves it, and the 32 bytes written to \<^verbatim>\<open>output\<close>.\<close>

definition finalize_body :: "bool \<Rightarrow> verushash_ctx \<Rightarrow> verushash_ctx \<times> u8 list" where
  "finalize_body hw ctx =
     (let ctx1 = ctx\<lparr>buffer := (buffer ctx)[buffer_len ctx := 0x80],
                     buffer_len := buffer_len ctx + 1\<rparr>;
          ctx2 = (if buffer_len ctx1 > VERUS_BLOCKSIZE - 8
                  then let b = memset (buffer ctx1) (buffer_len ctx1) 0
                                 (VERUS_BLOCKSIZE - buffer_len ctx1);
                           st = absorb_block hw (state ctx1) b
                       in ctx1\<lparr>buffer := replicate VERUS_BLOCKSIZE 0, buffer_len := 0,
                                state := st\<rparr>
                  else ctx1\<lparr>buffer := memset (buffer ctx1) (buffer_len ctx1) 0
                                         (VERUS_BLOCKSIZE - 8 - buffer_len ctx1)\<rparr>);
          ctx3 = ctx2\<lparr>buffer := memcpy (buffer ctx2) (VERUS_BLOCKSIZE - 8)
                                  (store_u64 (total_len ctx2 * 8))\<rparr>;
          ctx4 = ctx3\<lparr>state := xor_block (state ctx3) (buffer ctx3)\<rparr>
      in (ctx4, haraka512 hw (store_state (state ctx4))))"

definition verushash_finalize ::
    "bool \<Rightarrow> verushash_ctx option \<Rightarrow> u8 list option \<Rightarrow> verushash_ctx option \<times> u8 list option" where
  "verushash_finalize hw p output =
     (case (p, output) of
        (Some ctx, Some out) \<Rightarrow>
          (case finalize_body hw ctx of (ctx', digest) \<Rightarrow> (Some ctx', Some digest))
      | _ \<Rightarrow> (p, output))"

text \<open>The streaming path as a caller runs it: create a context, feed the chunks in order,
  finalize into a 32-byte output buffer. \<open>mem\<close> is the memory the allocator handed out,
  \<open>out\<close> the previous content of the output buffer.\<close>

definition streaming_ctx :: "bool \<Rightarrow> verushash_ctx \<Rightarrow> u8 list list \<Rightarrow> verushash_ctx option" where
  "streaming_ctx hw mem chunks =
     foldl (verushash_update hw) (verushash_create_context (Some mem)) (map Some chunks)"

definition streaming :: "bool \<Rightarrow> verushash_ctx \<Rightarrow> u8 list \<Rightarrow> u8 list list \<Rightarrow> u8 list option" where
  "streaming hw mem out chunks = snd (verushash_finalize hw (streaming_ctx hw mem chunks) (Some out))"

text \<open>The invariant of a context between calls: the buffer is the 64-byte array, it is
  never full, and the number of pending bytes is the running total modulo the block size.\<close>

definition ctx_inv :: "verushash_ctx \<Rightarrow> bool" where
  "ctx_inv ctx \<longleftrightarrow>
     length (buffer ctx) = VERUS_BLOCKSIZE \<and> buffer_len ctx < VERUS_BLOCKSIZE \<and>
     buffer_len ctx = unat (total_len ctx) mod VERUS_BLOCKSIZE"

section \<open>The specification's wording, for comparison\<close>

text \<open>
  The final block as the specification words it: the trailing bytes, one \<^verbatim>\<open>0x80\<close>
  marker right after them, zero fill up to offset 56, and the length in bits as a 64-bit
  value in the last 8 bytes.
\<close>

definition spec_final_block :: "u8 list \<Rightarrow> u64 \<Rightarrow> u8 list" where
  "spec_final_block trailing bits =
     trailing @ [0x80] @ replicate (55 - length trailing) 0 @ store_u64 bits"

text \<open>The single-shot digest as the specification words it: after the full blocks a final
  padded block is always built, XORed into the state, and permuted.\<close>

definition spec_single_shot :: "bool \<Rightarrow> u8 list \<Rightarrow> u8 list" where
  "spec_single_shot hw input =
     (let (st, trailing) = hash_loop hw initial_state input
      in haraka512 hw (store_state
           (xor_block st (spec_final_block trailing (of_nat (length input) * 8)))))"

text \<open>The blocks that finalize absorbs, in order, as the specification words it: with more
  than 55 pending bytes the zero-padded buffer first and then a block that starts with the
  marker; otherwise the pending bytes followed by the marker. The last one carries the
  length.\<close>

definition spec_finalize_blocks :: "verushash_ctx \<Rightarrow> u8 list list" where
  "spec_finalize_blocks ctx =
     (let pending = take (buffer_len ctx) (buffer ctx);
          bits = total_len ctx * 8
      in if buffer_len ctx > 55
         then [pending @ replicate (VERUS_BLOCKSIZE - length pending) 0, spec_final_block [] bits]
         else [spec_final_block pending bits])"

text \<open>The software round as the specification words it: the word step of the source, and on
  odd rounds the rotation of the four-word lanes of the hardware path.\<close>

definition spec_sw_round :: "nat \<Rightarrow> u32 list \<Rightarrow> u32 list" where
  "spec_sw_round round words =
     (let state1 = map (\<lambda>i. sw_word i (words ! i)) [0..<16]
      in if odd round then drop 4 state1 @ take 4 state1 else state1)"

section \<open>Concrete inputs\<close>

text \<open>Memory as an allocator may hand it out, and an output buffer before it is written.\<close>

definition mem0 :: verushash_ctx where
  "mem0 = \<lparr>buffer = replicate VERUS_BLOCKSIZE 0xAA, buffer_len = 7, total_len = 9,
            state = HashState 1 2 3 4\<rparr>"

definition out0 :: "u8 list" where
  "out0 = replicate 32 0xAA"

text \<open>A context with 56 pending bytes, as left by one update with 56 zero bytes.\<close>

definition ctx56 :: verushash_ctx where
  "ctx56 = \<lparr>buffer = replicate VERUS_BLOCKSIZE 0, buffer_len = 56, total_len = 56,
             state = initial_state\<rparr>"

text \<open>A message of \<open>2^29 + 1\<close> zero bytes.\<close>

definition big_message :: "u8 list" where
  "big_message = replicate 536870913 0"

text \<open>A message of 56 bytes and a split of it into two chunks.\<close>

definition msg56 :: "u8 list" where
  "msg56 = replicate 56 0x61"

definition msg56_chunks :: "u8 list list" where
  "msg56_chunks = [replicate 30 0x61, replicate 26 0x61]"

definition zero_block :: "u8 list" where
  "zero_block = replicate VERUS_BLOCKSIZE 0"

section \<open>Bytes and words\<close>

text \<open>Writing a word to memory and reading it back, in both directions, and the byte image
  of an XOR.\<close>

lemma length_le_of_word [simp]: "length (le_of_word n w) = n"
  by (induction n arbitrary: w) simp_all

lemma nth_le_of_word: "i < n \<Longrightarrow> le_of_word n w ! i = ucast (drop_bit (8 * i) w)"
proof (induction n arbitrary: w i)
  case 0
  then show ?case by simp
next
  case (Suc n)
  show ?case
  proof (cases i)
    case 0
    then show ?thesis by simp
  next
    case (Suc j)
    with Suc.prems have "j < n" by simp
    from Suc.IH [OF this, of "drop_bit 8 w"] Suc show ?thesis
      by (simp add: drop_bit_drop_bit add.commute)
  qed
qed

lemma bit_word_of_le:
  "bit (word_of_le bs :: 'a::len word) n \<longleftrightarrow>
     n < LENGTH('a) \<and> n < 8 * length bs \<and> bit (bs ! (n div 8)) (n mod 8)"
proof (induction bs arbitrary: n)
  case Nil
  then show ?case by simp
next
  case (Cons b bs)
  show ?case
  proof (cases "n < 8")
    case True
    then show ?thesis
      by (auto simp: bit_or_iff bit_ucast_iff bit_push_bit_iff)
  next
    case False
    then have n: "8 \<le> n" by simp
    then have d: "n div 8 = Suc ((n - 8) div 8)" and m: "(n - 8) mod 8 = n mod 8"
      by (simp_all add: le_div_geq le_mod_geq)
    from n have "\<not> bit (ucast b :: 'a word) n"
      by (auto simp: bit_ucast_iff dest: bit_imp_le_length)
    with n show ?thesis
      by (auto simp: bit_or_iff bit_push_bit_iff Cons.IH d m)
  qed
qed

lemma word_of_le_le_of_word:
  "LENGTH('a) \<le> 8 * k \<Longrightarrow> word_of_le (le_of_word k w) = (w :: 'a::len word)"
proof (rule bit_eqI)
  fix n
  assume k: "LENGTH('a) \<le> 8 * k" and "possible_bit TYPE('a word) n"
  then have n: "n < LENGTH('a)" by (simp add: possible_bit_word)
  with k have "n div 8 < k" by (simp add: less_mult_imp_div_less mult.commute)
  with n k show "bit (word_of_le (le_of_word k w) :: 'a word) n \<longleftrightarrow> bit w n"
    by (simp add: bit_word_of_le nth_le_of_word bit_ucast_iff bit_drop_bit_eq)
qed

lemma le_of_word_word_of_le:
  "8 * length bs \<le> LENGTH('a) \<Longrightarrow> le_of_word (length bs) (word_of_le bs :: 'a::len word) = bs"
proof (rule nth_equalityI)
  show "length (le_of_word (length bs) (word_of_le bs :: 'a word)) = length bs" by simp
next
  fix i
  assume b: "8 * length bs \<le> LENGTH('a)"
    and "i < length (le_of_word (length bs) (word_of_le bs :: 'a word))"
  then have i: "i < length bs" by simp
  have "ucast (drop_bit (8 * i) (word_of_le bs :: 'a word)) = bs ! i"
  proof (rule bit_eqI)
    fix m
    assume "possible_bit TYPE(8 word) m"
    then have m: "m < 8" by (simp add: possible_bit_word)
    with i b have "8 * i + m < LENGTH('a)" "8 * i + m < 8 * length bs" by simp_all
    with m show "bit (ucast (drop_bit (8 * i) (word_of_le bs :: 'a word)) :: 8 word) m \<longleftrightarrow> bit (bs ! i) m"
      by (simp add: bit_ucast_iff bit_drop_bit_eq bit_word_of_le)
  qed
  with i show "le_of_word (length bs) (word_of_le bs :: 'a word) ! i = bs ! i"
    by (simp add: nth_le_of_word)
qed

lemma le_of_word_xor:
  "le_of_word n (a XOR b) = map2 (XOR) (le_of_word n a) (le_of_word n b)"
proof (induction n arbitrary: a b)
  case 0
  then show ?case by simp
next
  case (Suc n)
  have "(ucast (a XOR b) :: 8 word) = ucast a XOR ucast b"
    by (rule bit_eqI) (simp add: bit_ucast_iff bit_xor_iff)
  moreover have "drop_bit 8 (a XOR b) = drop_bit 8 a XOR drop_bit 8 b"
    by (rule bit_eqI) (simp add: bit_drop_bit_eq bit_xor_iff)
  ultimately show ?case by (simp add: Suc.IH)
qed

lemma store_si128_xor:
  "store_si128 (a XOR b) = map2 (XOR) (store_si128 a) (store_si128 b)"
  by (simp add: store_si128_def le_of_word_xor)

lemma store_load_si128: "length bs = 16 \<Longrightarrow> store_si128 (load_si128 bs 0) = bs"
  using le_of_word_word_of_le [of bs, where 'a = 128]
  by (simp add: store_si128_def load_si128_def)

lemma load_store_si128: "load_si128 (store_si128 w) 0 = w"
  by (simp add: store_si128_def load_si128_def word_of_le_le_of_word)

section \<open>The block loops and the context invariant\<close>

lemma length_memcpy: "off + length src \<le> length dst \<Longrightarrow> length (memcpy dst off src) = length dst"
  by (simp add: memcpy_def)

lemma update_loop_snd:
  "snd (update_loop hw st data) = drop (length data - length data mod 64) data"
proof (induction hw st data rule: update_loop.induct)
  case (1 hw st data)
  show ?case
  proof (cases "64 \<le> length data")
    case True
    then have m: "(length data - 64) mod 64 = length data mod 64"
      by (simp add: le_mod_geq)
    have "length data mod 64 \<le> length data - 64"
      using True m by (metis mod_less_eq_dividend)
    then have "64 + (length data - 64 - length data mod 64) = length data - length data mod 64"
      using True by simp
    with "1.IH" [OF True] True m show ?thesis
      by (subst update_loop.simps) (simp add: )
  next
    case False
    then show ?thesis
      by (subst update_loop.simps) simp
  qed
qed

lemma length_snd_update_loop: "length (snd (update_loop hw st data)) = length data mod 64"
  by (simp add: update_loop_snd mod_le_divisor)

lemma hash_loop_snd:
  "snd (hash_loop hw st data) = drop (length data - length data mod 64) data"
proof (induction hw st data rule: hash_loop.induct)
  case (1 hw st data)
  show ?case
  proof (cases "64 \<le> length data")
    case True
    then have m: "(length data - 64) mod 64 = length data mod 64"
      by (simp add: le_mod_geq)
    have "length data mod 64 \<le> length data - 64"
      using True m by (metis mod_less_eq_dividend)
    then have "64 + (length data - 64 - length data mod 64) = length data - length data mod 64"
      using True by simp
    with "1.IH" [OF True] True m show ?thesis
      by (subst hash_loop.simps) (simp add: )
  next
    case False
    then show ?thesis
      by (subst hash_loop.simps) simp
  qed
qed

lemma unat_total_len_mod:
  "unat (t + ucast (of_nat n :: u32) :: u64) mod 64 = (unat t + n) mod 64"
proof -
  have a: "unat (ucast (of_nat n :: u32) :: u64) = n mod 2 ^ 32"
  proof -
    have "n mod 2 ^ 32 < (2::nat) ^ 64"
      by (rule less_trans [of _ "2 ^ 32"]) simp_all
    then show ?thesis
      by (simp add: unsigned_ucast_eq unat_of_nat take_bit_eq_mod)
  qed
  have "unat (t + ucast (of_nat n :: u32) :: u64) = (unat t + n mod 2 ^ 32) mod 2 ^ 64"
    by (simp add: unat_word_ariths a)
  then have "unat (t + ucast (of_nat n :: u32) :: u64) mod 64 = (unat t + n mod 2 ^ 32) mod 2 ^ 64 mod 64"
    by simp
  also have "\<dots> = (unat t + n mod 2 ^ 32) mod 64"
    by (rule mod_mod_cancel) simp
  also have "\<dots> = (unat t + n mod 2 ^ 32 mod 64) mod 64"
    by (simp add: mod_add_right_eq)
  also have "n mod 2 ^ 32 mod 64 = n mod 64"
    by (rule mod_mod_cancel) simp
  finally show ?thesis by (simp add: mod_add_right_eq)
qed

lemma fill_buffer_short:
  assumes "0 < buffer_len ctx" "buffer_len ctx + length data < 64"
  shows "fill_buffer hw ctx data =
     (ctx\<lparr>buffer := memcpy (buffer ctx) (buffer_len ctx) data,
           buffer_len := buffer_len ctx + length data\<rparr>, [])"
  using assms by (auto simp: fill_buffer_def Let_def)

lemma fill_buffer_full:
  assumes "0 < buffer_len ctx" "buffer_len ctx < 64" "64 \<le> buffer_len ctx + length data"
  shows "fill_buffer hw ctx data =
     (ctx\<lparr>buffer := memcpy (buffer ctx) (buffer_len ctx) (take (64 - buffer_len ctx) data),
           buffer_len := 0,
           state := absorb_block hw (state ctx)
              (memcpy (buffer ctx) (buffer_len ctx) (take (64 - buffer_len ctx) data))\<rparr>,
      drop (64 - buffer_len ctx) data)"
  using assms by (auto simp: fill_buffer_def Let_def)

lemma update_body_inv:
  assumes "ctx_inv ctx"
  shows "ctx_inv (update_body hw ctx data)"
proof -
  from assms have len: "length (buffer ctx) = 64" and lt: "buffer_len ctx < 64"
    and md: "buffer_len ctx = unat (total_len ctx) mod 64"
    by (simp_all add: ctx_inv_def)
  let ?t = "total_len ctx + ucast (of_nat (length data) :: u32)"
  have t: "unat ?t mod 64 = (buffer_len ctx + length data) mod 64"
    by (simp add: unat_total_len_mod md mod_add_left_eq)
  consider (empty) "buffer_len ctx = 0"
    | (short) "0 < buffer_len ctx" "buffer_len ctx + length data < 64"
    | (full) "0 < buffer_len ctx" "64 \<le> buffer_len ctx + length data"
    by linarith
  then show ?thesis
  proof cases
    case empty
    have "snd (update_loop hw (state ctx) data) = [] \<longleftrightarrow> length data mod 64 = 0"
      using length_snd_update_loop [of hw "state ctx" data] by (metis length_0_conv)
    with empty len t show ?thesis
      by (simp add: update_body_def Let_def split_beta ctx_inv_def length_snd_update_loop
          length_memcpy)
  next
    case short
    then have "length data < 64" by simp
    then have "update_loop hw (state ctx) [] = (state ctx, [])"
      by (subst update_loop.simps) simp
    with short len t show ?thesis
      by (simp add: update_body_def Let_def fill_buffer_short ctx_inv_def length_memcpy)
  next
    case full
    let ?k = "64 - buffer_len ctx"
    from full lt have k: "?k \<le> length data" by simp
    have "(buffer_len ctx + length data) mod 64 = (length data - ?k) mod 64"
    proof -
      from k lt have "buffer_len ctx + length data = (length data - ?k) + 64" by simp
      then show ?thesis by (metis mod_add_self2)
    qed
    moreover have "snd (update_loop hw st' (drop ?k data)) = [] \<longleftrightarrow> (length data - ?k) mod 64 = 0"
      for st'
      using length_snd_update_loop [of hw st' "drop ?k data"] by (metis length_0_conv length_drop)
    ultimately show ?thesis using full lt len t k
      by (simp add: update_body_def Let_def split_beta fill_buffer_full ctx_inv_def
          length_snd_update_loop length_memcpy)
  qed
qed

lemma ctx_inv_create: "\<exists>ctx. verushash_create_context (Some mem) = Some ctx \<and> ctx_inv ctx"
  by (simp add: verushash_create_context_def ctx_inv_def)

lemma ctx_inv_foldl:
  "\<exists>ctx. p = Some ctx \<and> ctx_inv ctx \<Longrightarrow>
   \<exists>ctx. foldl (verushash_update hw) p ds = Some ctx \<and> ctx_inv ctx"
proof (induction ds arbitrary: p)
  case Nil
  then show ?case by simp
next
  case (Cons d ds)
  from Cons.prems obtain ctx where p: "p = Some ctx" and inv: "ctx_inv ctx" by blast
  have "\<exists>ctx'. verushash_update hw p d = Some ctx' \<and> ctx_inv ctx'"
    using p inv by (cases d) (simp_all add: verushash_update_def update_body_inv)
  from Cons.IH [OF this] show ?case by simp
qed

text \<open>
  C10: after \<^verbatim>\<open>verushash_create_context\<close> and after any sequence of
  \<^verbatim>\<open>verushash_update\<close> calls (with data pointers that may be null and chunks of any
  length), the context exists, its pending-byte count \<^verbatim>\<open>buffer_len\<close> is below 64, and
  it equals \<^verbatim>\<open>total_len\<close> modulo 64.
\<close>

theorem streaming_buffer_len_invariant:
  "\<exists>ctx. foldl (verushash_update hw) (verushash_create_context (Some mem)) ds = Some ctx \<and>
     buffer_len ctx < VERUS_BLOCKSIZE \<and>
     buffer_len ctx = unat (total_len ctx) mod VERUS_BLOCKSIZE"
  using ctx_inv_foldl [OF ctx_inv_create, of hw mem ds] by (auto simp: ctx_inv_def)

section \<open>The block step\<close>

lemma hash_loop_step:
  "length block = 64 \<Longrightarrow>
   hash_loop hw st (block @ rest) = hash_loop hw (absorb_block hw st block) rest"
  by (subst hash_loop.simps) simp

lemma update_loop_step:
  "length block = 64 \<Longrightarrow>
   update_loop hw st (block @ rest) = update_loop hw (absorb_block hw st block) rest"
  by (subst update_loop.simps) simp

lemma update_loop_short: "length data < 64 \<Longrightarrow> update_loop hw st data = (st, data)"
  by (subst update_loop.simps) simp

lemma hash_loop_short: "length data < 64 \<Longrightarrow> hash_loop hw st data = (st, data)"
  by (subst hash_loop.simps) simp

lemma absorb_block_lanes:
  "absorb_block hw (HashState s0 s1 s2 s3) block =
     HashState
       (load_si128 (haraka512 hw
          (store_si128 (s0 XOR load_si128 block 0) @ store_si128 (s1 XOR load_si128 block 16) @
           store_si128 (s2 XOR load_si128 block 32) @ store_si128 (s3 XOR load_si128 block 48))) 0)
       (load_si128 (haraka512 hw
          (store_si128 (s0 XOR load_si128 block 0) @ store_si128 (s1 XOR load_si128 block 16) @
           store_si128 (s2 XOR load_si128 block 32) @ store_si128 (s3 XOR load_si128 block 48))) 16)
       (s2 XOR load_si128 block 32) (s3 XOR load_si128 block 48)"
  by (simp add: absorb_block_def Let_def)

lemma update_body_direct_state:
  assumes "length block = 64" "buffer_len ctx = 0"
  shows "state (update_body hw ctx block) = absorb_block hw (state ctx) block"
proof -
  have "update_loop hw (state ctx) block = (absorb_block hw (state ctx) block, [])"
    using update_loop_step [OF assms(1), of hw "state ctx" "[]"]
    by (simp add: update_loop_short)
  with assms show ?thesis
    by (simp add: update_body_def Let_def)
qed

lemma update_body_fill_state:
  assumes "0 < buffer_len ctx" "buffer_len ctx < 64" "length (buffer ctx) = 64"
    and "length d = 64 - buffer_len ctx"
  shows "state (update_body hw ctx d) =
     absorb_block hw (state ctx) (take (buffer_len ctx) (buffer ctx) @ d)"
proof -
  let ?c = "ctx\<lparr>total_len := total_len ctx + ucast (of_nat (length d) :: u32)\<rparr>"
  have m: "memcpy (buffer ctx) (buffer_len ctx) d = take (buffer_len ctx) (buffer ctx) @ d"
    using assms by (simp add: memcpy_def)
  have "fill_buffer hw ?c d =
     (?c\<lparr>buffer := take (buffer_len ctx) (buffer ctx) @ d, buffer_len := 0,
          state := absorb_block hw (state ctx) (take (buffer_len ctx) (buffer ctx) @ d)\<rparr>, [])"
    using assms m by (simp add: fill_buffer_def Let_def)
  with assms show ?thesis
    by (simp add: update_body_def Let_def update_loop_short)
qed

text \<open>
  C7: every absorption of a non-final 64-byte block, in the loop of the single-shot path, in
  the loop of \<^verbatim>\<open>verushash_update\<close>, for a block that a chunk delivers to an empty
  buffer and for a block that a chunk completes in the buffer, XORs the block lane by lane
  into the state, runs the permutation on the result and then replaces lanes 0 and 1 by the
  permutation output; lanes 2 and 3 keep the XORed values. Both loops go on from that state
  with the rest of the input, stop with exactly that state when fewer than 64 bytes follow
  the block, and leave the state alone when fewer than 64 bytes are given.
\<close>

theorem absorb_step:
  assumes "length block = 64"
    and "0 < buffer_len ctx" and "buffer_len ctx < 64" and "length (buffer ctx) = 64"
    and "state ctx = HashState s0 s1 s2 s3"
    and "block = take (buffer_len ctx) (buffer ctx) @ d"
    and "length tail < 64"
  shows
    "(let x2 = s2 XOR load_si128 block 32;
          x3 = s3 XOR load_si128 block 48;
          out = haraka512 hw
            (store_si128 (s0 XOR load_si128 block 0) @ store_si128 (s1 XOR load_si128 block 16) @
             store_si128 x2 @ store_si128 x3);
          st' = HashState (load_si128 out 0) (load_si128 out 16) x2 x3
      in hash_loop hw (HashState s0 s1 s2 s3) (block @ rest) = hash_loop hw st' rest \<and>
         hash_loop hw (HashState s0 s1 s2 s3) (block @ tail) = (st', tail) \<and>
         hash_loop hw (HashState s0 s1 s2 s3) tail = (HashState s0 s1 s2 s3, tail) \<and>
         update_loop hw (HashState s0 s1 s2 s3) (block @ rest) = update_loop hw st' rest \<and>
         update_loop hw (HashState s0 s1 s2 s3) (block @ tail) = (st', tail) \<and>
         update_loop hw (HashState s0 s1 s2 s3) tail = (HashState s0 s1 s2 s3, tail) \<and>
         map_option state (verushash_update hw (Some (ctx\<lparr>buffer_len := 0\<rparr>)) (Some block)) = Some st' \<and>
         map_option state (verushash_update hw (Some ctx) (Some d)) = Some st')"
proof -
  from assms have d: "length d = 64 - buffer_len ctx" by simp
  show ?thesis
    using hash_loop_step [OF assms(1), of hw "HashState s0 s1 s2 s3" rest]
      hash_loop_step [OF assms(1), of hw "HashState s0 s1 s2 s3" tail]
      update_loop_step [OF assms(1), of hw "HashState s0 s1 s2 s3" rest]
      update_loop_step [OF assms(1), of hw "HashState s0 s1 s2 s3" tail]
      hash_loop_short [OF assms(7), of hw]
      update_loop_short [OF assms(7), of hw]
      update_body_direct_state [OF assms(1), of "ctx\<lparr>buffer_len := 0\<rparr>" hw]
      update_body_fill_state [OF assms(2,3,4) d, of hw]
      assms(5,6)
    by (simp add: Let_def verushash_update_def absorb_block_lanes)
qed

theorem absorb_step_witness:
  "length (take (buffer_len mem0) (buffer mem0) @ replicate 57 0xAA) = 64 \<and>
   0 < buffer_len mem0 \<and> buffer_len mem0 < 64 \<and> length (buffer mem0) = 64 \<and>
   state mem0 = HashState 1 2 3 4 \<and> length [0x01 :: u8] < 64 \<and>
   (let block = take (buffer_len mem0) (buffer mem0) @ replicate 57 0xAA;
        x2 = 3 XOR load_si128 block 32;
        x3 = 4 XOR load_si128 block 48;
        out = haraka512 False
          (store_si128 (1 XOR load_si128 block 0) @ store_si128 (2 XOR load_si128 block 16) @
           store_si128 x2 @ store_si128 x3);
        st' = HashState (load_si128 out 0) (load_si128 out 16) x2 x3
    in hash_loop False (HashState 1 2 3 4) (block @ []) = hash_loop False st' [] \<and>
       hash_loop False (HashState 1 2 3 4) (block @ [0x01]) = (st', [0x01]) \<and>
       hash_loop False (HashState 1 2 3 4) [0x01] = (HashState 1 2 3 4, [0x01]) \<and>
       update_loop False (HashState 1 2 3 4) (block @ []) = update_loop False st' [] \<and>
       update_loop False (HashState 1 2 3 4) (block @ [0x01]) = (st', [0x01]) \<and>
       update_loop False (HashState 1 2 3 4) [0x01] = (HashState 1 2 3 4, [0x01]) \<and>
       map_option state (verushash_update False (Some (mem0\<lparr>buffer_len := 0\<rparr>)) (Some block)) = Some st' \<and>
       map_option state (verushash_update False (Some mem0) (Some (replicate 57 0xAA))) = Some st')"
proof -
  have h: "length (take (buffer_len mem0) (buffer mem0) @ replicate 57 0xAA) = 64"
    "0 < buffer_len mem0" "buffer_len mem0 < 64" "length (buffer mem0) = 64"
    "state mem0 = HashState 1 2 3 4"
    by (simp_all add: mem0_def)
  have t: "length [0x01 :: u8] < 64" by simp
  from absorb_step [OF h refl t, of False "[]"] h t show ?thesis
    by (simp only: Let_def simp_thms)
qed

section \<open>Finalize\<close>

lemma length_store_u64 [simp]: "length (store_u64 w) = 8"
  by (simp add: store_u64_def)

lemma finalize_body_room:
  assumes "length (buffer ctx) = 64" "buffer_len ctx \<le> 55"
  shows "finalize_body hw ctx =
     (ctx\<lparr>buffer := spec_final_block (take (buffer_len ctx) (buffer ctx)) (total_len ctx * 8),
           buffer_len := buffer_len ctx + 1,
           state := xor_block (state ctx)
              (spec_final_block (take (buffer_len ctx) (buffer ctx)) (total_len ctx * 8))\<rparr>,
      haraka512 hw (store_state (xor_block (state ctx)
              (spec_final_block (take (buffer_len ctx) (buffer ctx)) (total_len ctx * 8)))))"
proof -
  let ?n = "buffer_len ctx" and ?b = "buffer ctx"
  have u: "?b[?n := 0x80] = take ?n ?b @ [0x80] @ drop (Suc ?n) ?b"
    using assms by (simp add: upd_conv_take_nth_drop)
  have k: "56 - ?n = Suc (55 - ?n)" "55 - ?n + Suc ?n = 56"
    using assms by simp_all
  have z: "memset (?b[?n := 0x80]) (?n + 1) 0 (64 - 8 - (?n + 1)) =
      take ?n ?b @ [0x80] @ replicate (55 - ?n) 0 @ drop 56 ?b"
    using assms by (simp add: u memset_def memcpy_def min_def k)
  have "memcpy (take ?n ?b @ [0x80] @ replicate (55 - ?n) 0 @ drop 56 ?b) (64 - 8) (store_u64 w) =
      spec_final_block (take ?n ?b) w" for w
    using assms by (simp add: memcpy_def spec_final_block_def min_def k)
  with z assms show ?thesis
    by (simp add: finalize_body_def Let_def)
qed

lemma finalize_body_overflow:
  assumes "length (buffer ctx) = 64" "55 < buffer_len ctx" "buffer_len ctx < 64"
  shows "finalize_body hw ctx =
     (ctx\<lparr>buffer := replicate 56 0 @ store_u64 (total_len ctx * 8),
           buffer_len := 0,
           state := xor_block
              (absorb_block hw (state ctx)
                 (take (buffer_len ctx) (buffer ctx) @ [0x80] @ replicate (63 - buffer_len ctx) 0))
              (replicate 56 0 @ store_u64 (total_len ctx * 8))\<rparr>,
      haraka512 hw (store_state (xor_block
              (absorb_block hw (state ctx)
                 (take (buffer_len ctx) (buffer ctx) @ [0x80] @ replicate (63 - buffer_len ctx) 0))
              (replicate 56 0 @ store_u64 (total_len ctx * 8)))))"
proof -
  let ?n = "buffer_len ctx" and ?b = "buffer ctx"
  have u: "?b[?n := 0x80] = take ?n ?b @ [0x80] @ drop (Suc ?n) ?b"
    using assms by (simp add: upd_conv_take_nth_drop)
  have z: "memset (?b[?n := 0x80]) (?n + 1) 0 (64 - (?n + 1)) =
      take ?n ?b @ [0x80] @ replicate (63 - ?n) 0"
    using assms by (simp add: u memset_def memcpy_def min_def)
  have "memcpy (replicate 64 0) (64 - 8) (store_u64 w) = replicate 56 0 @ store_u64 w" for w
    by (simp add: memcpy_def)
  with z assms show ?thesis
    by (simp add: finalize_body_def Let_def)
qed

text \<open>
  C4, as the code has it: \<^verbatim>\<open>verushash_finalize\<close> first writes the \<^verbatim>\<open>0x80\<close> marker
  at the next free byte of the buffer. With more than 55 pending bytes the buffer (pending
  bytes, marker, zero fill to 64) is absorbed as a block of its own, and the block that
  carries the length is then zero up to offset 56: it has no marker. Otherwise the length
  block is the pending bytes, the marker and zero fill to offset 56. In both cases the last
  8 bytes are the total byte count times 8 as a 64-bit value, the block is XORed into the
  state, and the digest is the output of the permutation, which is not folded back.
\<close>

theorem finalize_padding:
  assumes "length (buffer ctx) = VERUS_BLOCKSIZE" and "buffer_len ctx < VERUS_BLOCKSIZE"
  shows "verushash_finalize hw (Some ctx) (Some out) =
    (let n = buffer_len ctx;
         pending = take n (buffer ctx);
         field = store_u64 (total_len ctx * 8);
         st1 = (if 55 < n
                then absorb_block hw (state ctx) (pending @ [0x80] @ replicate (63 - n) 0)
                else state ctx);
         final = (if 55 < n then replicate 56 0 @ field
                  else pending @ [0x80] @ replicate (55 - n) 0 @ field)
     in (Some (ctx\<lparr>buffer := final, buffer_len := (if 55 < n then 0 else n + 1),
                     state := xor_block st1 final\<rparr>),
         Some (haraka512 hw (store_state (xor_block st1 final)))))"
proof (cases "55 < buffer_len ctx")
  case True
  with assms show ?thesis
    by (simp add: verushash_finalize_def finalize_body_overflow Let_def)
next
  case False
  then have "buffer_len ctx \<le> 55" by simp
  with assms(1) False show ?thesis
    by (simp add: verushash_finalize_def finalize_body_room Let_def spec_final_block_def)
qed

theorem finalize_padding_witness:
  "length (buffer ctx56) = VERUS_BLOCKSIZE \<and> buffer_len ctx56 < VERUS_BLOCKSIZE \<and>
   verushash_finalize False (Some ctx56) (Some out0) =
     (Some (ctx56\<lparr>buffer := replicate 56 0 @ store_u64 448, buffer_len := 0,
             state := xor_block
               (absorb_block False initial_state (replicate 56 0 @ [0x80] @ replicate 7 0))
               (replicate 56 0 @ store_u64 448)\<rparr>),
      Some (haraka512 False (store_state (xor_block
               (absorb_block False initial_state (replicate 56 0 @ [0x80] @ replicate 7 0))
               (replicate 56 0 @ store_u64 448)))))"
  using finalize_padding [of ctx56 False out0] by (simp add: ctx56_def Let_def)

text \<open>With 56 pending bytes the block that carries the length does not start with the
  marker, as the specification's wording would have it.\<close>

theorem finalize_marker_counterexample:
  "map_option buffer (fst (verushash_finalize False (Some ctx56) (Some out0))) \<noteq>
     Some (last (spec_finalize_blocks ctx56))"
proof
  assume a: "map_option buffer (fst (verushash_finalize False (Some ctx56) (Some out0))) =
     Some (last (spec_finalize_blocks ctx56))"
  have "finalize_body False ctx56 =
     (ctx56\<lparr>buffer := replicate 56 0 @ store_u64 (total_len ctx56 * 8), buffer_len := 0,
        state := xor_block
              (absorb_block False (state ctx56)
                 (take (buffer_len ctx56) (buffer ctx56) @ [0x80] @ replicate (63 - buffer_len ctx56) 0))
              (replicate 56 0 @ store_u64 (total_len ctx56 * 8))\<rparr>,
      haraka512 False (store_state (xor_block
              (absorb_block False (state ctx56)
                 (take (buffer_len ctx56) (buffer ctx56) @ [0x80] @ replicate (63 - buffer_len ctx56) 0))
              (replicate 56 0 @ store_u64 (total_len ctx56 * 8)))))"
    by (rule finalize_body_overflow) (simp_all add: ctx56_def)
  with a have "replicate 56 0 @ store_u64 (total_len ctx56 * 8) = last (spec_finalize_blocks ctx56)"
    by (simp add: verushash_finalize_def)
  then have "hd (replicate 56 (0::u8) @ store_u64 (total_len ctx56 * 8)) =
     hd (spec_final_block [] (total_len ctx56 * 8))"
    by (simp add: spec_finalize_blocks_def Let_def ctx56_def)
  then show False
    by (simp add: spec_final_block_def hd_append)
qed

text \<open>
  C9, as the code has it: \<^verbatim>\<open>verushash_finalize\<close> does not zero the context. When it
  returns, \<^verbatim>\<open>total_len\<close> still holds the byte count and the state holds the input of the
  last permutation call, so the digest is the permutation of the state left in the context.
\<close>

theorem finalize_leaves_context:
  "\<exists>ctx' digest.
     verushash_finalize hw (Some ctx) (Some out) = (Some ctx', Some digest) \<and>
     total_len ctx' = total_len ctx \<and>
     digest = haraka512 hw (store_state (state ctx'))"
  by (simp add: verushash_finalize_def finalize_body_def Let_def)

text \<open>Finalizing a fresh context leaves a context that is not the zeroed one.\<close>

theorem finalize_not_zeroed_counterexample:
  "fst (verushash_finalize False (verushash_create_context (Some mem0)) (Some out0)) \<noteq>
     Some zeroed_ctx"
proof
  assume "fst (verushash_finalize False (verushash_create_context (Some mem0)) (Some out0)) =
     Some zeroed_ctx"
  then have "map_option buffer_len
      (fst (verushash_finalize False (verushash_create_context (Some mem0)) (Some out0))) =
     Some (buffer_len zeroed_ctx)"
    by simp
  then show False
    by (simp add: verushash_finalize_def verushash_create_context_def finalize_body_def Let_def
        zeroed_ctx_def split_beta)
qed

section \<open>The final block of the single-shot path\<close>

lemma length_snd_hash_loop: "length (snd (hash_loop hw st data)) = length data mod 64"
  by (simp add: hash_loop_snd mod_le_divisor)

lemma padded_block_room:
  assumes "length data \<le> 55"
  shows "padded_block data n = spec_final_block data (ucast (n * 8))"
proof -
  let ?r = "length data"
  have k: "64 - ?r = Suc (63 - ?r)" "56 - ?r = Suc (55 - ?r)" "min (55 - ?r) (63 - ?r) = 55 - ?r"
    using assms by simp_all
  have b2: "(memcpy (replicate 64 0) 0 data)[?r := 0x80] = data @ [0x80] @ replicate (63 - ?r) 0"
    using assms by (simp add: memcpy_def list_update_append k)
  show ?thesis
    using assms by (simp add: padded_block_def Let_def b2 memcpy_def spec_final_block_def k)
qed

lemma ucast_of_nat_small:
  assumes "m < 2 ^ 32"
  shows "(ucast (of_nat m :: u32) :: u64) = of_nat m"
proof -
  have "unat (ucast (of_nat m :: u32) :: u64) = unat (of_nat m :: u64)"
    using assms by (simp add: unsigned_ucast_eq unat_of_nat take_bit_eq_mod)
  then show ?thesis by (simp only: word_unat_eq_iff)
qed

lemma bits_small:
  assumes "n < 2 ^ 29"
  shows "(ucast ((of_nat n :: u32) * 8) :: u64) = of_nat (8 * n)"
proof -
  from assms have b: "8 * n < 2 ^ 32" by simp
  have "(of_nat n :: u32) * 8 = of_nat (8 * n)" by simp
  then have "(ucast ((of_nat n :: u32) * 8) :: u64) = ucast (of_nat (8 * n) :: u32)"
    by (simp only:)
  also note ucast_of_nat_small [OF b]
  finally show ?thesis .
qed

text \<open>What the single-shot path returns for a message with no trailing bytes, and for one with
  1 to 55 trailing bytes and a length below \<open>2^29\<close>.\<close>

lemma verushash_hash_final_block:
  "(length M mod 64 = 0 \<longrightarrow>
      verushash_hash hw M = haraka512 hw (store_state (fst (hash_loop hw initial_state M)))) \<and>
   (0 < length M mod 64 \<and> length M mod 64 \<le> 55 \<and> length M < 2 ^ 29 \<longrightarrow>
      verushash_hash hw M =
        haraka512 hw (store_state (xor_block (fst (hash_loop hw initial_state M))
          (spec_final_block (drop (length M - length M mod 64) M) (of_nat (8 * length M))))))"
proof (intro conjI impI)
  assume "length M mod 64 = 0"
  then show "verushash_hash hw M = haraka512 hw (store_state (fst (hash_loop hw initial_state M)))"
    using length_snd_hash_loop [of hw initial_state M]
    by (simp add: verushash_hash_def Let_def split_beta)
next
  assume a: "0 < length M mod 64 \<and> length M mod 64 \<le> 55 \<and> length M < 2 ^ 29"
  let ?t = "snd (hash_loop hw initial_state M)"
  have l: "length ?t = length M mod 64" by (rule length_snd_hash_loop)
  with a have "padded_block ?t (of_nat (length M)) = spec_final_block ?t (of_nat (8 * length M))"
    by (simp add: padded_block_room bits_small)
  moreover have "\<not> length M \<le> length M - length M mod 64"
    using a mod_less_eq_dividend [of "length M" 64] by arith
  ultimately show "verushash_hash hw M =
        haraka512 hw (store_state (xor_block (fst (hash_loop hw initial_state M))
          (spec_final_block (drop (length M - length M mod 64) M) (of_nat (8 * length M)))))"
    using a l by (simp add: verushash_hash_def Let_def split_beta hash_loop_snd)
qed

text \<open>With 56 to 63 trailing bytes the store of the length comes after the marker and covers
  offsets 56 to 63: the block holds the first 56 trailing bytes and the length, and neither
  the marker nor the trailing bytes from offset 56 on.\<close>

lemma padded_block_overlap:
  assumes "56 \<le> length data" and "length data < 64"
  shows "padded_block data n = take 56 data @ store_u64 (ucast (n * 8))"
proof -
  let ?b = "(memcpy (replicate 64 0) 0 data)[length data := 0x80]"
  have l: "length ?b = 64"
    using assms by (simp add: memcpy_def)
  have "take 56 ?b = take 56 (memcpy (replicate 64 0) 0 data)"
    using assms(1) by (simp add: take_update_cancel)
  also have "\<dots> = take 56 data"
    using assms by (simp add: memcpy_def)
  finally have "take 56 ?b = take 56 data" .
  with l show ?thesis
    by (simp add: padded_block_def Let_def memcpy_def [of ?b])
qed

lemma single_shot_tail_ignored:
  "verushash_hash hw (msg56 @ [x]) =
     haraka512 hw (store_state (xor_block initial_state (msg56 @ store_u64 456)))"
proof -
  have n: "length msg56 = 56" by (simp add: msg56_def)
  have h: "hash_loop hw initial_state (msg56 @ [x]) = (initial_state, msg56 @ [x])"
    by (rule hash_loop_short) (simp add: n)
  have "padded_block (msg56 @ [x]) 57 =
      take 56 (msg56 @ [x]) @ store_u64 (ucast ((57 :: u32) * 8))"
    by (rule padded_block_overlap) (simp_all add: n)
  also have "take 56 (msg56 @ [x]) = msg56"
    by (simp add: n)
  also have "(ucast ((57 :: u32) * 8) :: u64) = 456"
    by simp
  finally have p: "padded_block (msg56 @ [x]) 57 = msg56 @ store_u64 456" .
  have "(of_nat (length (msg56 @ [x])) :: u32) = 57"
    by (simp add: n)
  with h p show ?thesis
    by (simp add: verushash_hash_def)
qed

section \<open>The length field\<close>

lemma drop_padded_block:
  assumes "length data < 64"
  shows "drop 56 (padded_block data n) = store_u64 (ucast (n * 8))"
proof -
  have "length ((memcpy (replicate 64 0) 0 data)[length data := 0x80]) = 64"
    using assms by (simp add: memcpy_def)
  then show ?thesis
    by (simp add: padded_block_def Let_def memcpy_def)
qed

lemma le_of_word_numeral:
  "le_of_word (numeral k) w = ucast w # le_of_word (pred_numeral k) (drop_bit 8 w)"
  by (simp add: numeral_eq_Suc)

text \<open>
  C5 at a message of \<open>2^29 + 1\<close> bytes: the single-shot path forms
  \<^verbatim>\<open>input_len * 8\<close> in 32 bits, so the length field of the final block holds 8 and not
  \<open>8 * (2^29 + 1)\<close>.
\<close>

theorem single_shot_length_field_wraps:
  "verushash_hash hw big_message =
     haraka512 hw (store_state (xor_block (fst (hash_loop hw initial_state big_message))
        (padded_block [0] 536870913))) \<and>
   drop 56 (padded_block [0] 536870913) = store_u64 8 \<and>
   store_u64 8 \<noteq> store_u64 (8 * 536870913)"
proof (intro conjI)
  have "snd (hash_loop hw initial_state big_message) = replicate (Suc 0) 0"
    unfolding hash_loop_snd big_message_def by simp
  then have t: "snd (hash_loop hw initial_state big_message) = [0]" by simp
  have "(of_nat (length big_message) :: u32) = 536870913"
    by (simp add: big_message_def)
  with t show "verushash_hash hw big_message =
     haraka512 hw (store_state (xor_block (fst (hash_loop hw initial_state big_message))
        (padded_block [0] 536870913)))"
    by (simp add: verushash_hash_def Let_def split_beta)
next
  have "(ucast ((536870913 :: u32) * 8) :: u64) = 8" by simp
  then show "drop 56 (padded_block [0] 536870913) = store_u64 8"
    by (simp add: drop_padded_block)
next
  show "store_u64 8 \<noteq> store_u64 (8 * 536870913)"
    by (simp add: store_u64_def le_of_word_numeral)
qed

section \<open>The streaming path as a function of the message\<close>

lemma update_loop_eq_hash_loop: "update_loop hw st data = hash_loop hw st data"
proof (induction hw st data rule: hash_loop.induct)
  case (1 hw st data)
  show ?case
  proof (cases "64 \<le> length data")
    case True
    with "1.IH" show ?thesis
      by (subst update_loop.simps, subst hash_loop.simps) simp
  next
    case False
    then show ?thesis
      by (simp add: update_loop_short hash_loop_short)
  qed
qed

lemma hash_loop_append:
  "hash_loop hw st (M @ data) =
     hash_loop hw (fst (hash_loop hw st M)) (snd (hash_loop hw st M) @ data)"
proof (induction hw st M rule: hash_loop.induct)
  case (1 hw st M)
  show ?case
  proof (cases "64 \<le> length M")
    case True
    have "hash_loop hw st (M @ data) =
        hash_loop hw (absorb_block hw st (take 64 M)) (drop 64 M @ data)"
      using True by (subst hash_loop.simps) simp
    moreover have "hash_loop hw st M = hash_loop hw (absorb_block hw st (take 64 M)) (drop 64 M)"
      using True by (subst hash_loop.simps) simp
    ultimately show ?thesis
      using "1.IH" [OF True] by simp
  next
    case False
    then show ?thesis
      by (simp add: hash_loop_short)
  qed
qed

lemma take_memcpy:
  "off \<le> length dst \<Longrightarrow> take (off + length src) (memcpy dst off src) = take off dst @ src"
  by (simp add: memcpy_def)

lemma update_body_total_len:
  "total_len (update_body hw ctx data) = total_len ctx + ucast (of_nat (length data) :: u32)"
  by (simp add: update_body_def Let_def split_beta fill_buffer_def)

lemma update_body_pending:
  assumes "ctx_inv ctx"
  shows "(state (update_body hw ctx data),
          take (buffer_len (update_body hw ctx data)) (buffer (update_body hw ctx data))) =
     hash_loop hw (state ctx) (take (buffer_len ctx) (buffer ctx) @ data)"
proof -
  from assms have len: "length (buffer ctx) = 64" and lt: "buffer_len ctx < 64"
    by (simp_all add: ctx_inv_def)
  consider (empty) "buffer_len ctx = 0"
    | (short) "0 < buffer_len ctx" "buffer_len ctx + length data < 64"
    | (full) "0 < buffer_len ctx" "64 \<le> buffer_len ctx + length data"
    by linarith
  then show ?thesis
  proof cases
    case empty
    obtain st rest where h: "hash_loop hw (state ctx) data = (st, rest)"
      by (cases "hash_loop hw (state ctx) data")
    then have "length rest = length data mod 64"
      using length_snd_hash_loop [of hw "state ctx" data] by simp
    then have r: "length rest \<le> 64" by simp
    with empty len h show ?thesis
      using take_memcpy [of 0 "buffer ctx" rest]
      by (simp add: update_body_def Let_def update_loop_eq_hash_loop)
  next
    case short
    with len show ?thesis
      using take_memcpy [of "buffer_len ctx" "buffer ctx" data]
      by (simp add: update_body_def Let_def fill_buffer_short update_loop_short hash_loop_short)
  next
    case full
    let ?n = "buffer_len ctx" and ?k = "64 - buffer_len ctx"
    let ?block = "take ?n (buffer ctx) @ take ?k data"
    from full lt have k: "?k \<le> length data" by simp
    with len lt have bl: "length ?block = 64" by simp
    have m: "memcpy (buffer ctx) ?n (take ?k data) = ?block"
      using len lt k by (simp add: memcpy_def)
    obtain st rest where h:
      "hash_loop hw (absorb_block hw (state ctx) ?block) (drop ?k data) = (st, rest)"
      by (cases "hash_loop hw (absorb_block hw (state ctx) ?block) (drop ?k data)")
    then have "length rest = length (drop ?k data) mod 64"
      using length_snd_hash_loop [of hw "absorb_block hw (state ctx) ?block" "drop ?k data"]
      by simp
    then have r: "length rest \<le> 64" by simp
    have "hash_loop hw (state ctx) (take ?n (buffer ctx) @ data) =
        hash_loop hw (state ctx) (?block @ drop ?k data)"
      by simp
    also have "\<dots> = hash_loop hw (absorb_block hw (state ctx) ?block) (drop ?k data)"
      by (rule hash_loop_step [OF bl])
    also note h
    finally have g: "hash_loop hw (state ctx) (take ?n (buffer ctx) @ data) = (st, rest)" .
    have bl': "length (memcpy (buffer ctx) ?n (take ?k data)) = 64"
      using m bl by simp
    show ?thesis
      using full lt len h r g bl' take_memcpy [of 0 "memcpy (buffer ctx) ?n (take ?k data)" rest]
      by (simp add: update_body_def Let_def fill_buffer_full update_loop_eq_hash_loop m)
  qed
qed

lemma streaming_ctx_snoc:
  "streaming_ctx hw mem (chunks @ [c]) = verushash_update hw (streaming_ctx hw mem chunks) (Some c)"
  by (simp add: streaming_ctx_def)

lemma streaming_ctx_pending:
  "\<exists>ctx. streaming_ctx hw mem chunks = Some ctx \<and> ctx_inv ctx \<and>
     (state ctx, take (buffer_len ctx) (buffer ctx)) = hash_loop hw initial_state (concat chunks) \<and>
     total_len ctx = sum_list (map (\<lambda>c. ucast (of_nat (length c) :: u32)) chunks)"
proof (induction chunks rule: rev_induct)
  case Nil
  show ?case
    by (simp add: streaming_ctx_def verushash_create_context_def ctx_inv_def hash_loop_short)
next
  case (snoc c chunks)
  then obtain ctx where c: "streaming_ctx hw mem chunks = Some ctx" and inv: "ctx_inv ctx"
    and h: "(state ctx, take (buffer_len ctx) (buffer ctx)) =
        hash_loop hw initial_state (concat chunks)"
    and t: "total_len ctx = sum_list (map (\<lambda>c. ucast (of_nat (length c) :: u32)) chunks)"
    by blast
  let ?ctx' = "update_body hw ctx c"
  have "(state ?ctx', take (buffer_len ?ctx') (buffer ?ctx')) =
      hash_loop hw (state ctx) (take (buffer_len ctx) (buffer ctx) @ c)"
    by (rule update_body_pending [OF inv])
  also have "\<dots> = hash_loop hw initial_state (concat chunks @ c)"
    using h [symmetric] hash_loop_append [of hw initial_state "concat chunks" c] by simp
  finally have "(state ?ctx', take (buffer_len ?ctx') (buffer ?ctx')) =
      hash_loop hw initial_state (concat (chunks @ [c]))"
    by simp
  moreover have "streaming_ctx hw mem (chunks @ [c]) = Some ?ctx'"
    by (simp add: streaming_ctx_snoc c verushash_update_def)
  moreover have "ctx_inv ?ctx'"
    by (rule update_body_inv [OF inv])
  moreover have "total_len ?ctx' =
      sum_list (map (\<lambda>c. ucast (of_nat (length c) :: u32)) (chunks @ [c]))"
    by (simp add: update_body_total_len t)
  ultimately show ?case by blast
qed

lemma total_len_small:
  "length (concat chunks) < 2 ^ 32 \<Longrightarrow>
   sum_list (map (\<lambda>c. ucast (of_nat (length c) :: u32)) chunks) =
     (of_nat (length (concat chunks)) :: u64)"
proof (induction chunks)
  case Nil
  show ?case by simp
next
  case (Cons c chunks)
  then have "length c < 2 ^ 32" "length (concat chunks) < 2 ^ 32" by simp_all
  with Cons.IH show ?case
    by (simp add: ucast_of_nat_small)
qed

text \<open>The digest of the streaming path as a function of the message alone.\<close>

lemma streaming_digest:
  assumes "length (concat chunks) < 2 ^ 32"
  shows "streaming hw mem out chunks =
    (let M = concat chunks;
         st = fst (hash_loop hw initial_state M);
         pending = snd (hash_loop hw initial_state M);
         bits = (of_nat (length M) :: u64) * 8
     in if 55 < length pending
        then Some (haraka512 hw (store_state (xor_block
               (absorb_block hw st (pending @ [0x80] @ replicate (63 - length pending) 0))
               (replicate 56 0 @ store_u64 bits))))
        else Some (haraka512 hw (store_state (xor_block st (spec_final_block pending bits)))))"
proof -
  obtain ctx where c: "streaming_ctx hw mem chunks = Some ctx" and inv: "ctx_inv ctx"
    and h: "(state ctx, take (buffer_len ctx) (buffer ctx)) =
        hash_loop hw initial_state (concat chunks)"
    and t: "total_len ctx = sum_list (map (\<lambda>c. ucast (of_nat (length c) :: u32)) chunks)"
    using streaming_ctx_pending [of hw mem chunks] by blast
  from inv have len: "length (buffer ctx) = 64" and lt: "buffer_len ctx < 64"
    by (simp_all add: ctx_inv_def)
  from h have st: "fst (hash_loop hw initial_state (concat chunks)) = state ctx"
    and pe: "snd (hash_loop hw initial_state (concat chunks)) = take (buffer_len ctx) (buffer ctx)"
    by (simp_all add: prod_eq_iff)
  from len lt have lp: "length (take (buffer_len ctx) (buffer ctx)) = buffer_len ctx" by simp
  from t assms have tl: "total_len ctx = of_nat (length (concat chunks))"
    by (simp add: total_len_small)
  show ?thesis
  proof (cases "55 < buffer_len ctx")
    case True
    with len lt show ?thesis
      by (simp add: streaming_def c verushash_finalize_def finalize_body_overflow Let_def st pe lp tl)
  next
    case False
    then have "buffer_len ctx \<le> 55" by simp
    with len False show ?thesis
      by (simp add: streaming_def c verushash_finalize_def finalize_body_room Let_def st pe lp tl)
  qed
qed

text \<open>The streaming digest does not depend on how the message is cut into chunks.\<close>

theorem streaming_chunk_invariant:
  assumes "length (concat chunks) < 2 ^ 32"
  shows "streaming hw mem out chunks = streaming hw mem' out' [concat chunks]"
  using streaming_digest [OF assms, of hw mem out] streaming_digest [of "[concat chunks]" hw mem' out']
    assms by simp

text \<open>Where the two entry points agree: for a message with 1 to 55 trailing bytes and a
  length below \<open>2^29\<close>, every chunking gives the single-shot digest.\<close>

theorem streaming_equals_single_shot_when_padding_fits:
  assumes "0 < length (concat chunks) mod 64" and "length (concat chunks) mod 64 \<le> 55"
    and "length (concat chunks) < 2 ^ 29"
  shows "streaming hw mem out chunks = Some (verushash_hash hw (concat chunks))"
proof -
  let ?M = "concat chunks"
  let ?st = "fst (hash_loop hw initial_state ?M)"
  let ?p = "snd (hash_loop hw initial_state ?M)"
  let ?bits = "(of_nat (length ?M) :: u64) * 8"
  have l: "length ?p = length ?M mod 64" by (rule length_snd_hash_loop)
  from assms(3) have "length ?M < 2 ^ 32" by simp
  from streaming_digest [OF this, of hw mem out] l assms(2)
  have s: "streaming hw mem out chunks =
      Some (haraka512 hw (store_state (xor_block ?st (spec_final_block ?p ?bits))))"
    by (simp add: Let_def)
  have "(ucast ((of_nat (length ?M) :: u32) * 8) :: u64) = of_nat (8 * length ?M)"
    by (rule bits_small [OF assms(3)])
  also have "\<dots> = ?bits" by simp
  finally have b: "(ucast ((of_nat (length ?M) :: u32) * 8) :: u64) = ?bits" .
  have "padded_block ?p (of_nat (length ?M)) =
      spec_final_block ?p (ucast ((of_nat (length ?M) :: u32) * 8))"
    using assms(2) l by (simp only: padded_block_room)
  then have pb: "padded_block ?p (of_nat (length ?M)) = spec_final_block ?p ?bits"
    by (simp only: b)
  have "0 < length ?p"
    using assms(1) l by simp
  then have "verushash_hash hw ?M =
      haraka512 hw (store_state (xor_block ?st (padded_block ?p (of_nat (length ?M)))))"
    by (simp add: verushash_hash_def Let_def split_beta)
  then show ?thesis
    by (simp only: s pb)
qed

section \<open>Constants and states as bytes\<close>

lemma le_of_word_add:
  "le_of_word (m + n) w = le_of_word m w @ le_of_word n (drop_bit (8 * m) w)"
proof (induction m arbitrary: w)
  case 0
  then show ?case by simp
next
  case (Suc m)
  then show ?case by (simp add: drop_bit_drop_bit add.commute)
qed

lemma le_of_word_ucast:
  assumes "8 * n \<le> LENGTH('b)"
  shows "le_of_word n (ucast w :: 'b::len word) = le_of_word n (w :: 'a::len word)"
proof (rule nth_equalityI)
  show "length (le_of_word n (ucast w :: 'b word)) = length (le_of_word n w)" by simp
next
  fix i
  assume "i < length (le_of_word n (ucast w :: 'b word))"
  then have i: "i < n" by simp
  have "(ucast (drop_bit (8 * i) (ucast w :: 'b word)) :: u8) = ucast (drop_bit (8 * i) w)"
  proof (rule bit_eqI)
    fix m
    assume "possible_bit TYPE(u8) m"
    then have m: "m < 8" by (simp add: possible_bit_word)
    with i assms have "8 * i + m < LENGTH('b)" by simp
    with m show "bit (ucast (drop_bit (8 * i) (ucast w :: 'b word)) :: u8) m \<longleftrightarrow>
        bit (ucast (drop_bit (8 * i) w) :: u8) m"
      by (simp add: bit_ucast_iff bit_drop_bit_eq)
  qed
  with i show "le_of_word n (ucast w :: 'b word) ! i = le_of_word n w ! i"
    by (simp add: nth_le_of_word)
qed

lemma store_si128_set_epi32:
  "store_si128 (mm_set_epi32 e3 e2 e1 e0) =
     store_u32 e0 @ store_u32 e1 @ store_u32 e2 @ store_u32 e3"
proof -
  let ?w = "mm_set_epi32 e3 e2 e1 e0"
  have p: "(ucast ?w :: u32) = e0" "(ucast (drop_bit 32 ?w) :: u32) = e1"
    "(ucast (drop_bit 64 ?w) :: u32) = e2" "(ucast (drop_bit 96 ?w) :: u32) = e3"
    unfolding mm_set_epi32_def
    by (rule bit_eqI; auto simp: bit_ucast_iff bit_drop_bit_eq bit_or_iff bit_push_bit_iff
        dest: bit_imp_le_length)+
  have "store_si128 ?w = le_of_word (4 + (4 + (4 + 4))) ?w"
    by (simp add: store_si128_def)
  also have "\<dots> = le_of_word 4 ?w @ le_of_word 4 (drop_bit 32 ?w) @
      le_of_word 4 (drop_bit 64 ?w) @ le_of_word 4 (drop_bit 96 ?w)"
    by (simp only: le_of_word_add) (simp add: drop_bit_drop_bit)
  also have "\<dots> = le_of_word 4 (ucast ?w :: u32) @ le_of_word 4 (ucast (drop_bit 32 ?w) :: u32) @
      le_of_word 4 (ucast (drop_bit 64 ?w) :: u32) @ le_of_word 4 (ucast (drop_bit 96 ?w) :: u32)"
    by (simp add: le_of_word_ucast)
  finally show ?thesis by (simp add: p store_u32_def)
qed

lemma store_si128_set_epi64x:
  "store_si128 (mm_set_epi64x e1 e0) = store_u64 e0 @ store_u64 e1"
proof -
  let ?w = "mm_set_epi64x e1 e0"
  have p: "(ucast ?w :: u64) = e0" "(ucast (drop_bit 64 ?w) :: u64) = e1"
    unfolding mm_set_epi64x_def
    by (rule bit_eqI; auto simp: bit_ucast_iff bit_drop_bit_eq bit_or_iff bit_push_bit_iff
        dest: bit_imp_le_length)+
  have "store_si128 ?w = le_of_word (8 + 8) ?w"
    by (simp add: store_si128_def)
  also have "\<dots> = le_of_word 8 ?w @ le_of_word 8 (drop_bit 64 ?w)"
    by (simp only: le_of_word_add) simp
  also have "\<dots> = le_of_word 8 (ucast ?w :: u64) @ le_of_word 8 (ucast (drop_bit 64 ?w) :: u64)"
    by (simp add: le_of_word_ucast)
  finally show ?thesis by (simp add: p store_u64_def)
qed

lemma load_store_u32: "load_u32 (store_u32 w) 0 = w"
  by (simp add: load_u32_def store_u32_def word_of_le_le_of_word)

lemma load_u32_append:
  "length p = 4 * i \<Longrightarrow> load_u32 (p @ store_u32 w @ q) i = w"
  by (simp add: load_u32_def store_u32_def word_of_le_le_of_word)

lemma upt16: "[0..<16] = [0,1,2,3,4,5,6,7,8,9,10,11,12,13,14,15::nat]"
  by (simp add: upt_rec)
lemma upt15: "[0..<15] = [0,1,2,3,4,5,6,7,8,9,10,11,12,13,14::nat]"
  by (simp add: upt_rec)
lemma upt8: "[0..<8] = [0,1,2,3,4,5,6,7::nat]"
  by (simp add: upt_rec)

lemma rc_bytes:
  "concat (map store_si128 HARAKA_RC) =
     [120, 126, 112, 182, 7, 27, 127, 65, 105, 94, 52, 45, 140, 174, 5, 14,
     180, 58, 169, 120, 133, 139, 124, 253, 168, 164, 18, 92, 243, 226, 247, 198,
     209, 195, 167, 225, 178, 221, 79, 146, 94, 79, 154, 76, 173, 135, 95, 140,
     190, 201, 168, 35, 65, 166, 242, 133, 142, 194, 148, 122, 91, 143, 59, 244,
     86, 217, 200, 65, 43, 110, 60, 248, 241, 232, 125, 154, 212, 178, 24, 92,
     194, 164, 225, 115, 41, 214, 248, 181, 95, 124, 74, 142, 172, 179, 157, 47,
     199, 225, 185, 165, 38, 77, 140, 31, 59, 90, 209, 231, 148, 143, 44, 107,
     108, 117, 29, 142, 165, 201, 180, 242, 232, 97, 122, 61, 132, 43, 95, 156]"
  by (simp add: HARAKA_RC_def store_si128_set_epi32 store_u32_def le_of_word_numeral)

lemma rc_words:
  "HARAKA_RC_u32 0 = 0xb6707e78" "HARAKA_RC_u32 (Suc 0) = 0x417f1b07"
  "HARAKA_RC_u32 2 = 0x2d345e69" "HARAKA_RC_u32 3 = 0x0e05ae8c"
  "HARAKA_RC_u32 4 = 0x78a93ab4" "HARAKA_RC_u32 5 = 0xfd7c8b85"
  "HARAKA_RC_u32 6 = 0x5c12a4a8" "HARAKA_RC_u32 7 = 0xc6f7e2f3"
  by (simp_all add: HARAKA_RC_u32_def rc_bytes load_u32_def)

lemma sw_round_list:
  "sw_round r [x0,x1,x2,x3,x4,x5,x6,x7,x8,x9,x10,x11,x12,x13,x14,x15] =
    (if odd r then [sw_word 1 x1, sw_word 2 x2, sw_word 3 x3, sw_word 4 x4, sw_word 5 x5, sw_word 6 x6, sw_word 7 x7,
        sw_word 8 x8, sw_word 9 x9, sw_word 10 x10, sw_word 11 x11, sw_word 12 x12, sw_word 13 x13, sw_word 14 x14, sw_word 15 x15, sw_word 0 x0]
     else [sw_word 0 x0, sw_word 1 x1, sw_word 2 x2, sw_word 3 x3, sw_word 4 x4, sw_word 5 x5, sw_word 6 x6, sw_word 7 x7,
        sw_word 8 x8, sw_word 9 x9, sw_word 10 x10, sw_word 11 x11, sw_word 12 x12, sw_word 13 x13, sw_word 14 x14, sw_word 15 x15])"
  by (simp add: sw_round_def upt16 upt15 Let_def)

lemma fold_rounds:
  "fold sw_round [0..<8] s =
     sw_round 7 (sw_round 6 (sw_round 5 (sw_round 4 (sw_round 3 (sw_round 2 (sw_round 1 (sw_round 0 s)))))))"
  by (simp add: upt8)

lemma le_of_word_numeral_norm:
  "le_of_word (numeral k) w = ucast (take_bit 8 w) # le_of_word (pred_numeral k) (drop_bit 8 w)"
proof -
  have "(ucast (take_bit 8 w) :: u8) = ucast w"
    by (rule bit_eqI) (auto simp: bit_ucast_iff bit_take_bit_iff possible_bit_word)
  then show ?thesis by (simp add: le_of_word_numeral)
qed

lemma upt4: "[0..<4] = [0,1,2,3::nat]"
  by (simp add: upt_rec)

text \<open>The instruction on the example of Intel's white paper on the AES instruction set.\<close>

lemma aesenc_test_vector:
  "mm_aesenc_si128 0x7b5b54657374566563746f725d53475d 0x48692853686179295b477565726f6e5d =
     0xa8311c2f9fdba3c58b104b58ded7e595"
proof -
  have a: "store_si128 0x7b5b54657374566563746f725d53475d =
      [0x5d, 0x47, 0x53, 0x5d, 0x72, 0x6f, 0x74, 0x63, 0x65, 0x56, 0x74, 0x73, 0x65, 0x54, 0x5b, 0x7b]"
    by (simp add: store_si128_def le_of_word_numeral_norm)
  have k: "store_si128 0x48692853686179295b477565726f6e5d =
      [0x5d, 0x6e, 0x6f, 0x72, 0x65, 0x75, 0x47, 0x5b, 0x29, 0x79, 0x61, 0x68, 0x53, 0x28, 0x69, 0x48]"
    by (simp add: store_si128_def le_of_word_numeral_norm)
  have e: "aesenc_bytes
      [0x5d, 0x47, 0x53, 0x5d, 0x72, 0x6f, 0x74, 0x63, 0x65, 0x56, 0x74, 0x73, 0x65, 0x54, 0x5b, 0x7b]
      [0x5d, 0x6e, 0x6f, 0x72, 0x65, 0x75, 0x47, 0x5b, 0x29, 0x79, 0x61, 0x68, 0x53, 0x28, 0x69, 0x48] =
      [0x95, 0xe5, 0xd7, 0xde, 0x58, 0x4b, 0x10, 0x8b, 0xc5, 0xa3, 0xdb, 0x9f, 0x2f, 0x1c, 0x31, 0xa8]"
    by (simp add: aesenc_bytes_def MixColumns_def mix_column_def SubBytes_def ShiftRows_def
        aes_sbox_def xtime_def upt16 upt4)
  show ?thesis
    by (simp add: mm_aesenc_si128_def a k e) (simp add: load_si128_def)
qed

lemma rc_lanes:
  "store_si128 (HARAKA_RC ! 0) =
     [120, 126, 112, 182, 7, 27, 127, 65, 105, 94, 52, 45, 140, 174, 5, 14]"
  "store_si128 (HARAKA_RC ! Suc 0) =
     [180, 58, 169, 120, 133, 139, 124, 253, 168, 164, 18, 92, 243, 226, 247, 198]"
  "store_si128 (HARAKA_RC ! 2) =
     [209, 195, 167, 225, 178, 221, 79, 146, 94, 79, 154, 76, 173, 135, 95, 140]"
  "store_si128 (HARAKA_RC ! 3) =
     [190, 201, 168, 35, 65, 166, 242, 133, 142, 194, 148, 122, 91, 143, 59, 244]"
  "store_si128 (HARAKA_RC ! 4) =
     [86, 217, 200, 65, 43, 110, 60, 248, 241, 232, 125, 154, 212, 178, 24, 92]"
  "store_si128 (HARAKA_RC ! 5) =
     [194, 164, 225, 115, 41, 214, 248, 181, 95, 124, 74, 142, 172, 179, 157, 47]"
  "store_si128 (HARAKA_RC ! 6) =
     [199, 225, 185, 165, 38, 77, 140, 31, 59, 90, 209, 231, 148, 143, 44, 107]"
  "store_si128 (HARAKA_RC ! 7) =
     [108, 117, 29, 142, 165, 201, 180, 242, 232, 97, 122, 61, 132, 43, 95, 156]"
  "store_si128 (HARAKA_RC ! Suc (Suc 0)) =
     [209, 195, 167, 225, 178, 221, 79, 146, 94, 79, 154, 76, 173, 135, 95, 140]"
  by (simp_all add: HARAKA_RC_def store_si128_set_epi32 store_u32_def le_of_word_numeral)

lemma aesenc_load:
  "length bs = 16 \<Longrightarrow>
   mm_aesenc_si128 (load_si128 bs 0) k = load_si128 (aesenc_bytes bs (store_si128 k)) 0"
  by (simp add: mm_aesenc_si128_def store_load_si128)

lemma aes_round_bytes:
  assumes "length b0 = 16" "length b1 = 16" "length b2 = 16" "length b3 = 16"
  shows "aes_round i (HashState (load_si128 b0 0) (load_si128 b1 0) (load_si128 b2 0) (load_si128 b3 0)) =
    (if odd i
     then HashState
       (load_si128 (aesenc_bytes b1 (store_si128 (HARAKA_RC ! ((i + 1) mod 8)))) 0)
       (load_si128 (aesenc_bytes b2 (store_si128 (HARAKA_RC ! ((i + 2) mod 8)))) 0)
       (load_si128 (aesenc_bytes b3 (store_si128 (HARAKA_RC ! ((i + 3) mod 8)))) 0)
       (load_si128 (aesenc_bytes b0 (store_si128 (HARAKA_RC ! (i mod 8)))) 0)
     else HashState
       (load_si128 (aesenc_bytes b0 (store_si128 (HARAKA_RC ! (i mod 8)))) 0)
       (load_si128 (aesenc_bytes b1 (store_si128 (HARAKA_RC ! ((i + 1) mod 8)))) 0)
       (load_si128 (aesenc_bytes b2 (store_si128 (HARAKA_RC ! ((i + 2) mod 8)))) 0)
       (load_si128 (aesenc_bytes b3 (store_si128 (HARAKA_RC ! ((i + 3) mod 8)))) 0))"
  using assms by (simp add: aesenc_load Let_def)

lemma store_load_si128_off:
  assumes "off + 16 \<le> length p"
  shows "store_si128 (load_si128 p off) = take 16 (drop off p)"
proof -
  have "load_si128 p off = load_si128 (take 16 (drop off p)) 0"
    by (simp add: load_si128_def)
  moreover have "length (take 16 (drop off p)) = 16"
    using assms by simp
  ultimately show ?thesis by (simp add: store_load_si128)
qed

lemma aes_ni_output_bytes:
  assumes "length f0 = 16" "length f1 = 16" "length f2 = 16" "length f3 = 16"
    and "length X = 64"
  shows "aes_ni_output X
      (HashState (load_si128 f0 0) (load_si128 f1 0) (load_si128 f2 0) (load_si128 f3 0)) =
    map2 (XOR) (map2 (XOR) f0 (take 16 X)) (map2 (XOR) f2 (take 16 (drop 32 X))) @
    map2 (XOR) (map2 (XOR) f1 (take 16 (drop 16 X))) (map2 (XOR) f3 (take 16 (drop 48 X)))"
  using assms store_load_si128_off [of 0 X]
  by (simp add: Let_def store_si128_xor store_load_si128 store_load_si128_off)

lemma fold_aes_rounds:
  "fold aes_round [0..<8] s =
     aes_round 7 (aes_round 6 (aes_round 5 (aes_round 4 (aes_round 3 (aes_round 2 (aes_round 1 (aes_round 0 s)))))))"
  by (simp add: upt8)

lemma split_block:
  assumes "length block = 64"
  shows "block = take 16 block @ take 16 (drop 16 block) @ take 16 (drop 32 block) @
     take 16 (drop 48 block)"
proof -
  have "take 16 (drop 48 block) = drop 48 block"
    using assms by simp
  moreover have "take 16 (drop 32 block) @ drop 48 block = drop 32 block"
    using append_take_drop_id [of 16 "drop 32 block"] by simp
  moreover have "take 16 (drop 16 block) @ drop 32 block = drop 16 block"
    using append_take_drop_id [of 16 "drop 16 block"] by simp
  ultimately show ?thesis by simp
qed

lemma length_store_si128 [simp]: "length (store_si128 w) = 16"
  by (simp add: store_si128_def)

lemma length_store_state [simp]: "length (store_state st) = 64"
  by (cases st) simp

lemma store_state_xor_block:
  assumes "length block = 64"
  shows "store_state (xor_block st block) = map2 (XOR) (store_state st) block"
proof (cases st)
  case (HashState s0 s1 s2 s3)
  have "map2 (XOR) (store_state st) block =
      map2 (XOR) (store_si128 s0 @ store_si128 s1 @ store_si128 s2 @ store_si128 s3)
        (take 16 block @ take 16 (drop 16 block) @ take 16 (drop 32 block) @
         take 16 (drop 48 block))"
    using split_block [OF assms] HashState by simp
  also have "\<dots> = store_state (xor_block st block)"
    using assms HashState
    by (simp add: store_si128_xor store_load_si128_off)
  finally show ?thesis by simp
qed

lemma length_haraka512 [simp]: "length (haraka512 hw x) = 32"
proof -
  have "length (haraka512_software x) = 32"
    by (simp add: haraka512_software_def Let_def store_u32_def length_concat o_def upt8)
  moreover have "length (haraka512_aes_ni x) = 32"
    by (cases "fold aes_round [0..<8]
          (HashState (load_si128 x 0) (load_si128 x 16) (load_si128 x 32) (load_si128 x 48))")
      (simp add: haraka512_aes_ni_def Let_def)
  ultimately show ?thesis by (simp add: haraka512_def)
qed

lemma store_state_absorb_block:
  assumes "length block = 64"
  shows "store_state (absorb_block hw st block) =
     haraka512 hw (map2 (XOR) (store_state st) block) @
     drop 32 (map2 (XOR) (store_state st) block)"
proof (cases "xor_block st block")
  case (HashState x0 x1 x2 x3)
  let ?out = "haraka512 hw (store_state (xor_block st block))"
  have "store_si128 (load_si128 ?out 0) @ store_si128 (load_si128 ?out 16) = ?out"
    using append_take_drop_id [of 16 ?out] by (simp add: store_load_si128_off)
  then have "store_state (absorb_block hw st block) = ?out @ store_si128 x2 @ store_si128 x3"
    using HashState by (simp add: absorb_block_def Let_def)
  moreover have "drop 32 (store_state (xor_block st block)) = store_si128 x2 @ store_si128 x3"
    using HashState by simp
  ultimately show ?thesis
    by (simp add: store_state_xor_block [OF assms])
qed

lemma replicate_numeral: "replicate (numeral k) x = x # replicate (pred_numeral k) x"
  by (simp add: numeral_eq_Suc)

lemma iv_bytes:
  "store_state initial_state =
     [59, 167, 202, 132, 133, 174, 103, 187, 8, 201, 188, 243, 103, 230, 9, 106,
     241, 54, 29, 95, 58, 245, 79, 165, 43, 248, 148, 254, 114, 243, 110, 60,
     31, 108, 62, 43, 140, 104, 5, 155, 209, 130, 230, 173, 127, 82, 14, 81,
     121, 33, 126, 19, 25, 205, 224, 91, 107, 189, 65, 251, 171, 217, 131, 31]"
  by (simp add: initial_state_def store_si128_set_epi64x store_u64_def le_of_word_numeral)

lemma hash_empty: "verushash_hash hw [] = haraka512 hw (store_state initial_state)"
  by (simp add: verushash_hash_def hash_loop_short)

lemma final_block_empty:
  "spec_final_block [] 0 =
     [128, 0, 0, 0, 0, 0, 0, 0, 0, 0, 0, 0, 0, 0, 0, 0,
     0, 0, 0, 0, 0, 0, 0, 0, 0, 0, 0, 0, 0, 0, 0, 0,
     0, 0, 0, 0, 0, 0, 0, 0, 0, 0, 0, 0, 0, 0, 0, 0,
     0, 0, 0, 0, 0, 0, 0, 0, 0, 0, 0, 0, 0, 0, 0, 0]"
  by (simp add: spec_final_block_def store_u64_def le_of_word_numeral replicate_numeral)

lemma streaming_empty:
  "streaming hw mem out [] =
     Some (haraka512 hw (map2 (XOR) (store_state initial_state) (spec_final_block [] 0)))"
proof -
  let ?c = "mem\<lparr>buffer := replicate 64 0, buffer_len := 0, total_len := 0,
      state := initial_state\<rparr>"
  have "finalize_body hw ?c =
     (?c\<lparr>buffer := spec_final_block (take (buffer_len ?c) (buffer ?c)) (total_len ?c * 8),
           buffer_len := buffer_len ?c + 1,
           state := xor_block (state ?c)
              (spec_final_block (take (buffer_len ?c) (buffer ?c)) (total_len ?c * 8))\<rparr>,
      haraka512 hw (store_state (xor_block (state ?c)
              (spec_final_block (take (buffer_len ?c) (buffer ?c)) (total_len ?c * 8)))))"
    by (rule finalize_body_room) simp_all
  moreover have "length (spec_final_block [] 0) = 64"
    by (simp add: spec_final_block_def)
  ultimately show ?thesis
    by (simp add: streaming_def streaming_ctx_def verushash_create_context_def
        verushash_finalize_def store_state_xor_block)
qed

lemma iv_pad_bytes:
  "map2 (XOR) (store_state initial_state) (spec_final_block [] 0) =
     [187, 167, 202, 132, 133, 174, 103, 187, 8, 201, 188, 243, 103, 230, 9, 106,
     241, 54, 29, 95, 58, 245, 79, 165, 43, 248, 148, 254, 114, 243, 110, 60,
     31, 108, 62, 43, 140, 104, 5, 155, 209, 130, 230, 173, 127, 82, 14, 81,
     121, 33, 126, 19, 25, 205, 224, 91, 107, 189, 65, 251, 171, 217, 131, 31]"
  by (simp add: iv_bytes final_block_empty)

lemma msg56_padded:
  "padded_block msg56 56 =
     [97, 97, 97, 97, 97, 97, 97, 97, 97, 97, 97, 97, 97, 97, 97, 97,
     97, 97, 97, 97, 97, 97, 97, 97, 97, 97, 97, 97, 97, 97, 97, 97,
     97, 97, 97, 97, 97, 97, 97, 97, 97, 97, 97, 97, 97, 97, 97, 97,
     97, 97, 97, 97, 97, 97, 97, 97, 192, 1, 0, 0, 0, 0, 0, 0]"
  by (simp add: padded_block_def Let_def memcpy_def msg56_def replicate_numeral store_u64_def
      le_of_word_numeral)

lemma msg56_single:
  "verushash_hash hw msg56 =
     haraka512 hw (map2 (XOR) (store_state initial_state) (padded_block msg56 56))"
proof -
  have "length (padded_block msg56 56) = 64"
    by (simp add: msg56_padded)
  moreover have "hash_loop hw initial_state msg56 = (initial_state, msg56)"
    by (rule hash_loop_short) (simp add: msg56_def)
  moreover have "(of_nat (length msg56) :: u32) = 56"
    by (simp add: msg56_def)
  moreover have "0 < length msg56"
    by (simp add: msg56_def)
  ultimately show ?thesis
    by (simp add: verushash_hash_def store_state_xor_block)
qed

lemma msg56_ctx:
  "streaming_ctx hw mem0 msg56_chunks =
     Some \<lparr>buffer = [97, 97, 97, 97, 97, 97, 97, 97, 97, 97, 97, 97, 97, 97, 97, 97,
                   97, 97, 97, 97, 97, 97, 97, 97, 97, 97, 97, 97, 97, 97, 97, 97,
                   97, 97, 97, 97, 97, 97, 97, 97, 97, 97, 97, 97, 97, 97, 97, 97,
                   97, 97, 97, 97, 97, 97, 97, 97, 0, 0, 0, 0, 0, 0, 0, 0],
           buffer_len = 56, total_len = 56, state = initial_state\<rparr>"
  by (simp add: streaming_ctx_def msg56_chunks_def verushash_create_context_def
      verushash_update_def update_body_def fill_buffer_def update_loop_short Let_def memcpy_def
      mem0_def replicate_numeral)

lemma msg56_stream:
  "streaming hw mem0 out0 msg56_chunks =
     Some (haraka512 hw (map2 (XOR)
       (haraka512 hw (map2 (XOR) (store_state initial_state)
          [97, 97, 97, 97, 97, 97, 97, 97, 97, 97, 97, 97, 97, 97, 97, 97,
          97, 97, 97, 97, 97, 97, 97, 97, 97, 97, 97, 97, 97, 97, 97, 97,
          97, 97, 97, 97, 97, 97, 97, 97, 97, 97, 97, 97, 97, 97, 97, 97,
          97, 97, 97, 97, 97, 97, 97, 97, 128, 0, 0, 0, 0, 0, 0, 0]) @
        drop 32 (map2 (XOR) (store_state initial_state)
          [97, 97, 97, 97, 97, 97, 97, 97, 97, 97, 97, 97, 97, 97, 97, 97,
          97, 97, 97, 97, 97, 97, 97, 97, 97, 97, 97, 97, 97, 97, 97, 97,
          97, 97, 97, 97, 97, 97, 97, 97, 97, 97, 97, 97, 97, 97, 97, 97,
          97, 97, 97, 97, 97, 97, 97, 97, 128, 0, 0, 0, 0, 0, 0, 0]))
       [0, 0, 0, 0, 0, 0, 0, 0, 0, 0, 0, 0, 0, 0, 0, 0,
       0, 0, 0, 0, 0, 0, 0, 0, 0, 0, 0, 0, 0, 0, 0, 0,
       0, 0, 0, 0, 0, 0, 0, 0, 0, 0, 0, 0, 0, 0, 0, 0,
       0, 0, 0, 0, 0, 0, 0, 0, 192, 1, 0, 0, 0, 0, 0, 0]))"
proof -
  let ?c = "\<lparr>buffer = [97, 97, 97, 97, 97, 97, 97, 97, 97, 97, 97, 97, 97, 97, 97, 97,
                   97, 97, 97, 97, 97, 97, 97, 97, 97, 97, 97, 97, 97, 97, 97, 97,
                   97, 97, 97, 97, 97, 97, 97, 97, 97, 97, 97, 97, 97, 97, 97, 97,
                   97, 97, 97, 97, 97, 97, 97, 97, 0, 0, 0, 0, 0, 0, 0, 0],
           buffer_len = 56, total_len = 56, state = initial_state\<rparr>"
  have "finalize_body hw ?c =
     (?c\<lparr>buffer := replicate 56 0 @ store_u64 (total_len ?c * 8),
           buffer_len := 0,
           state := xor_block
              (absorb_block hw (state ?c)
                 (take (buffer_len ?c) (buffer ?c) @ [0x80] @ replicate (63 - buffer_len ?c) 0))
              (replicate 56 0 @ store_u64 (total_len ?c * 8))\<rparr>,
      haraka512 hw (store_state (xor_block
              (absorb_block hw (state ?c)
                 (take (buffer_len ?c) (buffer ?c) @ [0x80] @ replicate (63 - buffer_len ?c) 0))
              (replicate 56 0 @ store_u64 (total_len ?c * 8)))))"
    by (rule finalize_body_overflow) simp_all
  then show ?thesis
    by (simp add: streaming_def msg56_ctx verushash_finalize_def store_state_xor_block
        store_state_absorb_block)
      (simp add: store_u64_def le_of_word_numeral_norm replicate_numeral)
qed

section \<open>The permutation on concrete blocks\<close>

text \<open>Each evaluation runs the rounds one by one on numerals.\<close>

lemma sw_eval_iv:
  "haraka512_software
     [59, 167, 202, 132, 133, 174, 103, 187, 8, 201, 188, 243, 103, 230, 9, 106,
     241, 54, 29, 95, 58, 245, 79, 165, 43, 248, 148, 254, 114, 243, 110, 60,
     31, 108, 62, 43, 140, 104, 5, 155, 209, 130, 230, 173, 127, 82, 14, 81,
     121, 33, 126, 19, 25, 205, 224, 91, 107, 189, 65, 251, 171, 217, 131, 31] =
     [152, 42, 163, 142, 197, 167, 96, 76, 62, 171, 246, 13, 27, 40, 37, 246,
     17, 160, 127, 14, 33, 155, 10, 156, 117, 116, 230, 5, 160, 147, 104, 68]"
proof -
  have w: "map (\<lambda>i. load_u32
      [59, 167, 202, 132, 133, 174, 103, 187, 8, 201, 188, 243, 103, 230, 9, 106,
      241, 54, 29, 95, 58, 245, 79, 165, 43, 248, 148, 254, 114, 243, 110, 60,
      31, 108, 62, 43, 140, 104, 5, 155, 209, 130, 230, 173, 127, 82, 14, 81,
      121, 33, 126, 19, 25, 205, 224, 91, 107, 189, 65, 251, 171, 217, 131, 31] i) [0..<16] =
      [2227873595, 3144134277, 4089235720, 1779033703, 1595750129, 2773480762,
      4271175723, 1013904242, 725511199, 2600822924, 2917565137, 1359893119,
      327033209, 1541459225, 4215389547, 528734635]"
    by (simp add: load_u32_def upt16)
  have r0: "sw_round 0
      [2227873595, 3144134277, 4089235720, 1779033703, 1595750129, 2773480762,
      4271175723, 1013904242, 725511199, 2600822924, 2917565137, 1359893119,
      327033209, 1541459225, 4215389547, 528734635] =
      [4067245612, 63101369, 2924920986, 3780890320, 4025719975, 144545772,
      4269792217, 2138515698, 3631380638, 2372008941, 1396598812, 1433707658,
      3481510770, 2934821577, 167758109, 9628403]"
    by (simp add: sw_round_list sw_word_def Let_def rc_words)
  have r1: "sw_round 1
      [4067245612, 63101369, 2924920986, 3780890320, 4025719975, 144545772,
      4269792217, 2138515698, 3631380638, 2372008941, 1396598812, 1433707658,
      3481510770, 2934821577, 167758109, 9628403] =
      [3851710658, 3928100059, 2147601735, 2775902750, 2929481556, 3542256444,
      4041149723, 4246365848, 3636178518, 2620689358, 1157447010, 3210076712,
      1690007763, 551531764, 3753117434, 3154676013]"
    by (simp add: sw_round_list sw_word_def Let_def rc_words)
  have r2: "sw_round 2
      [3851710658, 3928100059, 2147601735, 2775902750, 2929481556, 3542256444,
      4041149723, 4246365848, 3636178518, 2620689358, 1157447010, 3210076712,
      1690007763, 551531764, 3753117434, 3154676013] =
      [874813486, 1425391434, 1413431292, 3044331831, 3185478512, 140893183,
      2232361062, 3561784530, 3460440689, 3806886389, 2263081662, 2281153238,
      4197207112, 1270048596, 1308628833, 4185082669]"
    by (simp add: sw_round_list sw_word_def Let_def rc_words)
  have r3: "sw_round 3
      [874813486, 1425391434, 1413431292, 3044331831, 3185478512, 140893183,
      2232361062, 3561784530, 3460440689, 3806886389, 2263081662, 2281153238,
      4197207112, 1270048596, 1308628833, 4185082669] =
      [3681918817, 380750596, 1252286140, 2608751943, 2883612419, 4117947630,
      4076035875, 1044471095, 3498167882, 280604065, 3636394634, 1389176211,
      3452274963, 2949594495, 2970558203, 3202649010]"
    by (simp add: sw_round_list sw_word_def Let_def rc_words)
  have r4: "sw_round 4
      [3681918817, 380750596, 1252286140, 2608751943, 2883612419, 4117947630,
      4076035875, 1044471095, 3498167882, 280604065, 3636394634, 1389176211,
      3452274963, 2949594495, 2970558203, 3202649010] =
      [1896779451, 3434576193, 1471944122, 717777999, 602473523, 843840060,
      1706857118, 2408583935, 1507221366, 609597495, 72712403, 1604313985,
      4250634636, 698382395, 3268404826, 144551578]"
    by (simp add: sw_round_list sw_word_def Let_def rc_words)
  have r5: "sw_round 5
      [1896779451, 3434576193, 1471944122, 717777999, 602473523, 843840060,
      1706857118, 2408583935, 1507221366, 609597495, 72712403, 1604313985,
      4250634636, 698382395, 3268404826, 144551578] =
      [3312708639, 2816611377, 4056959298, 737254573, 1890805368, 3037612678,
      1128335581, 2391759816, 2123149339, 1905760487, 1440499729, 2296518,
      2778536417, 3172451753, 2441221153, 117780334]"
    by (simp add: sw_round_list sw_word_def Let_def rc_words)
  have r6: "sw_round 6
      [3312708639, 2816611377, 4056959298, 737254573, 1890805368, 3037612678,
      1128335581, 2391759816, 2123149339, 1905760487, 1440499729, 2296518,
      2778536417, 3172451753, 2441221153, 117780334] =
      [1763264321, 914484614, 544786797, 311649389, 2700386564, 801746317,
      2383590976, 133356501, 3185256965, 2069942935, 448752430, 2451613963,
      145844406, 975428703, 471954490, 2619843053]"
    by (simp add: sw_round_list sw_word_def Let_def rc_words)
  have r7: "sw_round 7
      [1763264321, 914484614, 544786797, 311649389, 2700386564, 801746317,
      2383590976, 133356501, 3185256965, 2069942935, 448752430, 2451613963,
      145844406, 975428703, 471954490, 2619843053] =
      [3759753685, 3172519985, 721889212, 2801953316, 465473741, 3878580375,
      672512098, 3434442859, 3243157609, 3508187645, 2024523611, 1780545063,
      1503799124, 2240533397, 673614167, 2872101138]"
    by (simp add: sw_round_list sw_word_def Let_def rc_words)
  have f: "map (\<lambda>i.
      [3759753685, 3172519985, 721889212, 2801953316, 465473741, 3878580375,
      672512098, 3434442859, 3243157609, 3508187645, 2024523611, 1780545063,
      1503799124, 2240533397, 673614167, 2872101138] ! i XOR
      load_u32
      [59, 167, 202, 132, 133, 174, 103, 187, 8, 201, 188, 243, 103, 230, 9, 106,
      241, 54, 29, 95, 58, 245, 79, 165, 43, 248, 148, 254, 114, 243, 110, 60,
      31, 108, 62, 43, 140, 104, 5, 155, 209, 130, 230, 173, 127, 82, 14, 81,
      121, 33, 126, 19, 25, 205, 224, 91, 107, 189, 65, 251, 171, 217, 131, 31] i) [0..<16] =
      [1691610862, 109018804, 3636194996, 3440086083, 1151575612, 1113687469,
      3598794825, 4040917785, 3933258870, 1243601265, 3578611082, 992912472,
      1255933485, 3731562124, 3546756156, 3031634105]"
    by (simp add: load_u32_def upt16)
  have c: "concat (map (\<lambda>i. store_u32
      ([1691610862, 109018804, 3636194996, 3440086083, 1151575612, 1113687469,
      3598794825, 4040917785, 3933258870, 1243601265, 3578611082, 992912472,
      1255933485, 3731562124, 3546756156, 3031634105] ! i XOR
       [1691610862, 109018804, 3636194996, 3440086083, 1151575612, 1113687469,
       3598794825, 4040917785, 3933258870, 1243601265, 3578611082, 992912472,
       1255933485, 3731562124, 3546756156, 3031634105] ! (i + 8))) [0..<8]) =
      [152, 42, 163, 142, 197, 167, 96, 76, 62, 171, 246, 13, 27, 40, 37, 246,
      17, 160, 127, 14, 33, 155, 10, 156, 117, 116, 230, 5, 160, 147, 104, 68]"
    by (simp add: store_u32_def upt8 le_of_word_numeral)
  show ?thesis
    by (simp only: haraka512_software_def Let_def w fold_rounds r0 r1 r2 r3 r4 r5 r6 r7 f c)
qed

lemma sw_eval_iv_pad:
  "haraka512_software
     [187, 167, 202, 132, 133, 174, 103, 187, 8, 201, 188, 243, 103, 230, 9, 106,
     241, 54, 29, 95, 58, 245, 79, 165, 43, 248, 148, 254, 114, 243, 110, 60,
     31, 108, 62, 43, 140, 104, 5, 155, 209, 130, 230, 173, 127, 82, 14, 81,
     121, 33, 126, 19, 25, 205, 224, 91, 107, 189, 65, 251, 171, 217, 131, 31] =
     [24, 42, 163, 142, 197, 167, 96, 76, 62, 171, 246, 13, 27, 40, 37, 246,
     9, 154, 68, 36, 33, 155, 10, 156, 117, 116, 230, 5, 160, 147, 104, 68]"
proof -
  have w: "map (\<lambda>i. load_u32
      [187, 167, 202, 132, 133, 174, 103, 187, 8, 201, 188, 243, 103, 230, 9, 106,
      241, 54, 29, 95, 58, 245, 79, 165, 43, 248, 148, 254, 114, 243, 110, 60,
      31, 108, 62, 43, 140, 104, 5, 155, 209, 130, 230, 173, 127, 82, 14, 81,
      121, 33, 126, 19, 25, 205, 224, 91, 107, 189, 65, 251, 171, 217, 131, 31] i) [0..<16] =
      [2227873723, 3144134277, 4089235720, 1779033703, 1595750129, 2773480762,
      4271175723, 1013904242, 725511199, 2600822924, 2917565137, 1359893119,
      327033209, 1541459225, 4215389547, 528734635]"
    by (simp add: load_u32_def upt16)
  have r0: "sw_round 0
      [2227873723, 3144134277, 4089235720, 1779033703, 1595750129, 2773480762,
      4271175723, 1013904242, 725511199, 2600822924, 2917565137, 1359893119,
      327033209, 1541459225, 4215389547, 528734635] =
      [4062002612, 63101369, 2924920986, 3780890320, 4025719975, 144545772,
      4269792217, 2138515698, 3631380638, 2372008941, 1396598812, 1433707658,
      3481510770, 2934821577, 167758109, 9628403]"
    by (simp add: sw_round_list sw_word_def Let_def rc_words)
  have r1: "sw_round 1
      [4062002612, 63101369, 2924920986, 3780890320, 4025719975, 144545772,
      4269792217, 2138515698, 3631380638, 2372008941, 1396598812, 1433707658,
      3481510770, 2934821577, 167758109, 9628403] =
      [3851710658, 3928100059, 2147601735, 2775902750, 2929481556, 3542256444,
      4041149723, 4246365848, 3636178518, 2620689358, 1157447010, 3210076712,
      1690007763, 551531764, 3753117434, 985696154]"
    by (simp add: sw_round_list sw_word_def Let_def rc_words)
  have r2: "sw_round 2
      [3851710658, 3928100059, 2147601735, 2775902750, 2929481556, 3542256444,
      4041149723, 4246365848, 3636178518, 2620689358, 1157447010, 3210076712,
      1690007763, 551531764, 3753117434, 985696154] =
      [874813486, 1425391434, 1413431292, 3044331831, 3185478512, 140893183,
      2232361062, 3561784530, 3460440689, 3806886389, 2263081662, 2281153238,
      4197207112, 1270048596, 1308628833, 2437593294]"
    by (simp add: sw_round_list sw_word_def Let_def rc_words)
  have r3: "sw_round 3
      [874813486, 1425391434, 1413431292, 3044331831, 3185478512, 140893183,
      2232361062, 3561784530, 3460440689, 3806886389, 2263081662, 2281153238,
      4197207112, 1270048596, 1308628833, 2437593294] =
      [3681918817, 380750596, 1252286140, 2608751943, 2883612419, 4117947630,
      4076035875, 1044471095, 3498167882, 280604065, 3636394634, 1389176211,
      3452274963, 2949594495, 974679233, 3202649010]"
    by (simp add: sw_round_list sw_word_def Let_def rc_words)
  have r4: "sw_round 4
      [3681918817, 380750596, 1252286140, 2608751943, 2883612419, 4117947630,
      4076035875, 1044471095, 3498167882, 280604065, 3636394634, 1389176211,
      3452274963, 2949594495, 974679233, 3202649010] =
      [1896779451, 3434576193, 1471944122, 717777999, 602473523, 843840060,
      1706857118, 2408583935, 1507221366, 609597495, 72712403, 1604313985,
      4250634636, 698382395, 1850995946, 144551578]"
    by (simp add: sw_round_list sw_word_def Let_def rc_words)
  have r5: "sw_round 5
      [1896779451, 3434576193, 1471944122, 717777999, 602473523, 843840060,
      1706857118, 2408583935, 1507221366, 609597495, 72712403, 1604313985,
      4250634636, 698382395, 1850995946, 144551578] =
      [3312708639, 2816611377, 4056959298, 737254573, 1890805368, 3037612678,
      1128335581, 2391759816, 2123149339, 1905760487, 1440499729, 2296518,
      2778536417, 2825999855, 2441221153, 117780334]"
    by (simp add: sw_round_list sw_word_def Let_def rc_words)
  have r6: "sw_round 6
      [3312708639, 2816611377, 4056959298, 737254573, 1890805368, 3037612678,
      1128335581, 2391759816, 2123149339, 1905760487, 1440499729, 2296518,
      2778536417, 2825999855, 2441221153, 117780334] =
      [1763264321, 914484614, 544786797, 311649389, 2700386564, 801746317,
      2383590976, 133356501, 3185256965, 2069942935, 448752430, 2451613963,
      145844406, 3493391628, 471954490, 2619843053]"
    by (simp add: sw_round_list sw_word_def Let_def rc_words)
  have r7: "sw_round 7
      [1763264321, 914484614, 544786797, 311649389, 2700386564, 801746317,
      2383590976, 133356501, 3185256965, 2069942935, 448752430, 2451613963,
      145844406, 3493391628, 471954490, 2619843053] =
      [3759753685, 3172519985, 721889212, 2801953316, 465473741, 3878580375,
      672512098, 3434442859, 3243157609, 3508187645, 2024523611, 1780545063,
      1939414348, 2240533397, 673614167, 2872101138]"
    by (simp add: sw_round_list sw_word_def Let_def rc_words)
  have f: "map (\<lambda>i.
      [3759753685, 3172519985, 721889212, 2801953316, 465473741, 3878580375,
      672512098, 3434442859, 3243157609, 3508187645, 2024523611, 1780545063,
      1939414348, 2240533397, 673614167, 2872101138] ! i XOR
      load_u32
      [187, 167, 202, 132, 133, 174, 103, 187, 8, 201, 188, 243, 103, 230, 9, 106,
      241, 54, 29, 95, 58, 245, 79, 165, 43, 248, 148, 254, 114, 243, 110, 60,
      31, 108, 62, 43, 140, 104, 5, 155, 209, 130, 230, 173, 127, 82, 14, 81,
      121, 33, 126, 19, 25, 205, 224, 91, 107, 189, 65, 251, 171, 217, 131, 31] i) [0..<16] =
      [1691610734, 109018804, 3636194996, 3440086083, 1151575612, 1113687469,
      3598794825, 4040917785, 3933258870, 1243601265, 3578611082, 992912472,
      1625766965, 3731562124, 3546756156, 3031634105]"
    by (simp add: load_u32_def upt16)
  have c: "concat (map (\<lambda>i. store_u32
      ([1691610734, 109018804, 3636194996, 3440086083, 1151575612, 1113687469,
      3598794825, 4040917785, 3933258870, 1243601265, 3578611082, 992912472,
      1625766965, 3731562124, 3546756156, 3031634105] ! i XOR
       [1691610734, 109018804, 3636194996, 3440086083, 1151575612, 1113687469,
       3598794825, 4040917785, 3933258870, 1243601265, 3578611082, 992912472,
       1625766965, 3731562124, 3546756156, 3031634105] ! (i + 8))) [0..<8]) =
      [24, 42, 163, 142, 197, 167, 96, 76, 62, 171, 246, 13, 27, 40, 37, 246,
      9, 154, 68, 36, 33, 155, 10, 156, 117, 116, 230, 5, 160, 147, 104, 68]"
    by (simp add: store_u32_def upt8 le_of_word_numeral)
  show ?thesis
    by (simp only: haraka512_software_def Let_def w fold_rounds r0 r1 r2 r3 r4 r5 r6 r7 f c)
qed

lemma hw_eval_iv:
  "haraka512_aes_ni
     [59, 167, 202, 132, 133, 174, 103, 187, 8, 201, 188, 243, 103, 230, 9, 106,
     241, 54, 29, 95, 58, 245, 79, 165, 43, 248, 148, 254, 114, 243, 110, 60,
     31, 108, 62, 43, 140, 104, 5, 155, 209, 130, 230, 173, 127, 82, 14, 81,
     121, 33, 126, 19, 25, 205, 224, 91, 107, 189, 65, 251, 171, 217, 131, 31] =
     [188, 117, 179, 152, 130, 9, 4, 248, 173, 100, 218, 198, 171, 100, 9, 84,
     22, 153, 215, 73, 217, 81, 112, 192, 70, 184, 39, 88, 229, 215, 204, 227]"
proof -
  have i: "HashState (load_si128 X 0) (load_si128 X 16) (load_si128 X 32) (load_si128 X 48) =
      HashState
        (load_si128 [59, 167, 202, 132, 133, 174, 103, 187, 8, 201, 188, 243, 103, 230, 9, 106] 0)
        (load_si128 [241, 54, 29, 95, 58, 245, 79, 165, 43, 248, 148, 254, 114, 243, 110, 60] 0)
        (load_si128 [31, 108, 62, 43, 140, 104, 5, 155, 209, 130, 230, 173, 127, 82, 14, 81] 0)
        (load_si128 [121, 33, 126, 19, 25, 205, 224, 91, 107, 189, 65, 251, 171, 217, 131, 31] 0)"
    if "X = [59, 167, 202, 132, 133, 174, 103, 187, 8, 201, 188, 243, 103, 230, 9, 106,
         241, 54, 29, 95, 58, 245, 79, 165, 43, 248, 148, 254, 114, 243, 110, 60,
         31, 108, 62, 43, 140, 104, 5, 155, 209, 130, 230, 173, 127, 82, 14, 81,
         121, 33, 126, 19, 25, 205, 224, 91, 107, 189, 65, 251, 171, 217, 131, 31]" for X
    unfolding that by (simp add: load_si128_def)
  have e00: "aesenc_bytes
      [59, 167, 202, 132, 133, 174, 103, 187, 8, 201, 188, 243, 103, 230, 9, 106]
      [120, 126, 112, 182, 7, 27, 127, 65, 105, 94, 52, 45, 140, 174, 5, 14] =
      [247, 226, 186, 14, 16, 113, 214, 129, 30, 31, 71, 72, 241, 10, 218, 89]"
    by (simp add: aesenc_bytes_def MixColumns_def mix_column_def SubBytes_def ShiftRows_def
        aes_sbox_def xtime_def upt16 upt4)
  have e01: "aesenc_bytes
      [241, 54, 29, 95, 58, 245, 79, 165, 43, 248, 148, 254, 114, 243, 110, 60]
      [180, 58, 169, 120, 133, 139, 124, 253, 168, 164, 18, 92, 243, 226, 247, 198] =
      [21, 193, 140, 137, 13, 252, 210, 61, 228, 190, 183, 241, 67, 132, 119, 234]"
    by (simp add: aesenc_bytes_def MixColumns_def mix_column_def SubBytes_def ShiftRows_def
        aes_sbox_def xtime_def upt16 upt4)
  have e02: "aesenc_bytes
      [31, 108, 62, 43, 140, 104, 5, 155, 209, 130, 230, 173, 127, 82, 14, 81]
      [209, 195, 167, 225, 178, 221, 79, 146, 94, 79, 154, 76, 173, 135, 95, 140] =
      [218, 209, 77, 200, 21, 136, 125, 127, 132, 168, 231, 148, 28, 221, 175, 235]"
    by (simp add: aesenc_bytes_def MixColumns_def mix_column_def SubBytes_def ShiftRows_def
        aes_sbox_def xtime_def upt16 upt4)
  have e03: "aesenc_bytes
      [121, 33, 126, 19, 25, 205, 224, 91, 107, 189, 65, 251, 171, 217, 131, 31]
      [190, 201, 168, 35, 65, 166, 242, 133, 142, 194, 148, 122, 91, 143, 59, 244] =
      [86, 64, 229, 71, 237, 212, 24, 142, 229, 224, 104, 79, 109, 59, 108, 80]"
    by (simp add: aesenc_bytes_def MixColumns_def mix_column_def SubBytes_def ShiftRows_def
        aes_sbox_def xtime_def upt16 upt4)
  have r0: "aes_round 0
      (HashState
        (load_si128 [59, 167, 202, 132, 133, 174, 103, 187, 8, 201, 188, 243, 103, 230, 9, 106] 0)
        (load_si128 [241, 54, 29, 95, 58, 245, 79, 165, 43, 248, 148, 254, 114, 243, 110, 60] 0)
        (load_si128 [31, 108, 62, 43, 140, 104, 5, 155, 209, 130, 230, 173, 127, 82, 14, 81] 0)
        (load_si128 [121, 33, 126, 19, 25, 205, 224, 91, 107, 189, 65, 251, 171, 217, 131, 31] 0)) =
      HashState
        (load_si128 [247, 226, 186, 14, 16, 113, 214, 129, 30, 31, 71, 72, 241, 10, 218, 89] 0)
        (load_si128 [21, 193, 140, 137, 13, 252, 210, 61, 228, 190, 183, 241, 67, 132, 119, 234] 0)
        (load_si128 [218, 209, 77, 200, 21, 136, 125, 127, 132, 168, 231, 148, 28, 221, 175, 235] 0)
        (load_si128 [86, 64, 229, 71, 237, 212, 24, 142, 229, 224, 104, 79, 109, 59, 108, 80] 0)"
    by (simp add: aes_round_bytes rc_lanes e00 e01 e02 e03 del: aes_round.simps)
  have e10: "aesenc_bytes
      [247, 226, 186, 14, 16, 113, 214, 129, 30, 31, 71, 72, 241, 10, 218, 89]
      [180, 58, 169, 120, 133, 139, 124, 253, 168, 164, 18, 92, 243, 226, 247, 198] =
      [241, 63, 127, 78, 173, 136, 62, 98, 29, 19, 224, 65, 189, 59, 207, 244]"
    by (simp add: aesenc_bytes_def MixColumns_def mix_column_def SubBytes_def ShiftRows_def
        aes_sbox_def xtime_def upt16 upt4)
  have e11: "aesenc_bytes
      [21, 193, 140, 137, 13, 252, 210, 61, 228, 190, 183, 241, 67, 132, 119, 234]
      [209, 195, 167, 225, 178, 221, 79, 146, 94, 79, 154, 76, 173, 135, 95, 140] =
      [134, 134, 149, 6, 188, 238, 53, 254, 46, 19, 13, 130, 5, 8, 180, 54]"
    by (simp add: aesenc_bytes_def MixColumns_def mix_column_def SubBytes_def ShiftRows_def
        aes_sbox_def xtime_def upt16 upt4)
  have e12: "aesenc_bytes
      [218, 209, 77, 200, 21, 136, 125, 127, 132, 168, 231, 148, 28, 221, 175, 235]
      [190, 201, 168, 35, 65, 166, 242, 133, 142, 194, 148, 122, 91, 143, 59, 244] =
      [58, 67, 40, 67, 63, 3, 184, 30, 89, 232, 186, 6, 231, 87, 26, 206]"
    by (simp add: aesenc_bytes_def MixColumns_def mix_column_def SubBytes_def ShiftRows_def
        aes_sbox_def xtime_def upt16 upt4)
  have e13: "aesenc_bytes
      [86, 64, 229, 71, 237, 212, 24, 142, 229, 224, 104, 79, 109, 59, 108, 80]
      [86, 217, 200, 65, 43, 110, 60, 248, 241, 232, 125, 154, 212, 178, 24, 92] =
      [225, 100, 78, 34, 73, 178, 211, 237, 165, 135, 196, 227, 158, 244, 251, 175]"
    by (simp add: aesenc_bytes_def MixColumns_def mix_column_def SubBytes_def ShiftRows_def
        aes_sbox_def xtime_def upt16 upt4)
  have r1: "aes_round 1
      (HashState
        (load_si128 [247, 226, 186, 14, 16, 113, 214, 129, 30, 31, 71, 72, 241, 10, 218, 89] 0)
        (load_si128 [21, 193, 140, 137, 13, 252, 210, 61, 228, 190, 183, 241, 67, 132, 119, 234] 0)
        (load_si128 [218, 209, 77, 200, 21, 136, 125, 127, 132, 168, 231, 148, 28, 221, 175, 235] 0)
        (load_si128 [86, 64, 229, 71, 237, 212, 24, 142, 229, 224, 104, 79, 109, 59, 108, 80] 0)) =
      HashState
        (load_si128 [134, 134, 149, 6, 188, 238, 53, 254, 46, 19, 13, 130, 5, 8, 180, 54] 0)
        (load_si128 [58, 67, 40, 67, 63, 3, 184, 30, 89, 232, 186, 6, 231, 87, 26, 206] 0)
        (load_si128 [225, 100, 78, 34, 73, 178, 211, 237, 165, 135, 196, 227, 158, 244, 251, 175] 0)
        (load_si128 [241, 63, 127, 78, 173, 136, 62, 98, 29, 19, 224, 65, 189, 59, 207, 244] 0)"
    by (simp add: aes_round_bytes rc_lanes e10 e11 e12 e13 del: aes_round.simps)
  have e20: "aesenc_bytes
      [134, 134, 149, 6, 188, 238, 53, 254, 46, 19, 13, 130, 5, 8, 180, 54]
      [209, 195, 167, 225, 178, 221, 79, 146, 94, 79, 154, 76, 173, 135, 95, 140] =
      [243, 176, 113, 216, 29, 161, 231, 19, 253, 219, 25, 104, 50, 214, 114, 197]"
    by (simp add: aesenc_bytes_def MixColumns_def mix_column_def SubBytes_def ShiftRows_def
        aes_sbox_def xtime_def upt16 upt4)
  have e21: "aesenc_bytes
      [58, 67, 40, 67, 63, 3, 184, 30, 89, 232, 186, 6, 231, 87, 26, 206]
      [190, 201, 168, 35, 65, 166, 242, 133, 142, 194, 148, 122, 91, 143, 59, 244] =
      [87, 51, 38, 58, 165, 25, 109, 23, 168, 145, 250, 183, 69, 244, 220, 251]"
    by (simp add: aesenc_bytes_def MixColumns_def mix_column_def SubBytes_def ShiftRows_def
        aes_sbox_def xtime_def upt16 upt4)
  have e22: "aesenc_bytes
      [225, 100, 78, 34, 73, 178, 211, 237, 165, 135, 196, 227, 158, 244, 251, 175]
      [86, 217, 200, 65, 43, 110, 60, 248, 241, 232, 125, 154, 212, 178, 24, 92] =
      [129, 18, 180, 139, 248, 249, 160, 144, 93, 175, 101, 170, 112, 132, 175, 70]"
    by (simp add: aesenc_bytes_def MixColumns_def mix_column_def SubBytes_def ShiftRows_def
        aes_sbox_def xtime_def upt16 upt4)
  have e23: "aesenc_bytes
      [241, 63, 127, 78, 173, 136, 62, 98, 29, 19, 224, 65, 189, 59, 207, 244]
      [194, 164, 225, 115, 41, 214, 248, 181, 95, 124, 74, 142, 172, 179, 157, 47] =
      [146, 17, 135, 203, 58, 19, 110, 184, 73, 192, 86, 6, 246, 109, 115, 123]"
    by (simp add: aesenc_bytes_def MixColumns_def mix_column_def SubBytes_def ShiftRows_def
        aes_sbox_def xtime_def upt16 upt4)
  have r2: "aes_round 2
      (HashState
        (load_si128 [134, 134, 149, 6, 188, 238, 53, 254, 46, 19, 13, 130, 5, 8, 180, 54] 0)
        (load_si128 [58, 67, 40, 67, 63, 3, 184, 30, 89, 232, 186, 6, 231, 87, 26, 206] 0)
        (load_si128 [225, 100, 78, 34, 73, 178, 211, 237, 165, 135, 196, 227, 158, 244, 251, 175] 0)
        (load_si128 [241, 63, 127, 78, 173, 136, 62, 98, 29, 19, 224, 65, 189, 59, 207, 244] 0)) =
      HashState
        (load_si128 [243, 176, 113, 216, 29, 161, 231, 19, 253, 219, 25, 104, 50, 214, 114, 197] 0)
        (load_si128 [87, 51, 38, 58, 165, 25, 109, 23, 168, 145, 250, 183, 69, 244, 220, 251] 0)
        (load_si128 [129, 18, 180, 139, 248, 249, 160, 144, 93, 175, 101, 170, 112, 132, 175, 70] 0)
        (load_si128 [146, 17, 135, 203, 58, 19, 110, 184, 73, 192, 86, 6, 246, 109, 115, 123] 0)"
    by (simp add: aes_round_bytes rc_lanes e20 e21 e22 e23 del: aes_round.simps)
  have e30: "aesenc_bytes
      [243, 176, 113, 216, 29, 161, 231, 19, 253, 219, 25, 104, 50, 214, 114, 197]
      [190, 201, 168, 35, 65, 166, 242, 133, 142, 194, 148, 122, 91, 143, 59, 244] =
      [128, 97, 213, 133, 227, 202, 204, 73, 249, 226, 236, 41, 254, 155, 3, 104]"
    by (simp add: aesenc_bytes_def MixColumns_def mix_column_def SubBytes_def ShiftRows_def
        aes_sbox_def xtime_def upt16 upt4)
  have e31: "aesenc_bytes
      [87, 51, 38, 58, 165, 25, 109, 23, 168, 145, 250, 183, 69, 244, 220, 251]
      [86, 217, 200, 65, 43, 110, 60, 248, 241, 232, 125, 154, 212, 178, 24, 92] =
      [165, 73, 12, 75, 185, 96, 55, 238, 179, 189, 254, 116, 195, 172, 45, 88]"
    by (simp add: aesenc_bytes_def MixColumns_def mix_column_def SubBytes_def ShiftRows_def
        aes_sbox_def xtime_def upt16 upt4)
  have e32: "aesenc_bytes
      [129, 18, 180, 139, 248, 249, 160, 144, 93, 175, 101, 170, 112, 132, 175, 70]
      [194, 164, 225, 115, 41, 214, 248, 181, 95, 124, 74, 142, 172, 179, 157, 47] =
      [125, 12, 0, 7, 100, 211, 117, 12, 203, 98, 248, 72, 2, 252, 49, 182]"
    by (simp add: aesenc_bytes_def MixColumns_def mix_column_def SubBytes_def ShiftRows_def
        aes_sbox_def xtime_def upt16 upt4)
  have e33: "aesenc_bytes
      [146, 17, 135, 203, 58, 19, 110, 184, 73, 192, 86, 6, 246, 109, 115, 123]
      [199, 225, 185, 165, 38, 77, 140, 31, 59, 90, 209, 231, 148, 143, 44, 107] =
      [78, 189, 145, 250, 120, 55, 146, 143, 114, 76, 76, 89, 125, 7, 120, 110]"
    by (simp add: aesenc_bytes_def MixColumns_def mix_column_def SubBytes_def ShiftRows_def
        aes_sbox_def xtime_def upt16 upt4)
  have r3: "aes_round 3
      (HashState
        (load_si128 [243, 176, 113, 216, 29, 161, 231, 19, 253, 219, 25, 104, 50, 214, 114, 197] 0)
        (load_si128 [87, 51, 38, 58, 165, 25, 109, 23, 168, 145, 250, 183, 69, 244, 220, 251] 0)
        (load_si128 [129, 18, 180, 139, 248, 249, 160, 144, 93, 175, 101, 170, 112, 132, 175, 70] 0)
        (load_si128 [146, 17, 135, 203, 58, 19, 110, 184, 73, 192, 86, 6, 246, 109, 115, 123] 0)) =
      HashState
        (load_si128 [165, 73, 12, 75, 185, 96, 55, 238, 179, 189, 254, 116, 195, 172, 45, 88] 0)
        (load_si128 [125, 12, 0, 7, 100, 211, 117, 12, 203, 98, 248, 72, 2, 252, 49, 182] 0)
        (load_si128 [78, 189, 145, 250, 120, 55, 146, 143, 114, 76, 76, 89, 125, 7, 120, 110] 0)
        (load_si128 [128, 97, 213, 133, 227, 202, 204, 73, 249, 226, 236, 41, 254, 155, 3, 104] 0)"
    by (simp add: aes_round_bytes rc_lanes e30 e31 e32 e33 del: aes_round.simps)
  have e40: "aesenc_bytes
      [165, 73, 12, 75, 185, 96, 55, 238, 179, 189, 254, 116, 195, 172, 45, 88]
      [86, 217, 200, 65, 43, 110, 60, 248, 241, 232, 125, 154, 212, 178, 24, 92] =
      [224, 216, 205, 244, 98, 12, 117, 221, 85, 141, 30, 18, 205, 205, 143, 176]"
    by (simp add: aesenc_bytes_def MixColumns_def mix_column_def SubBytes_def ShiftRows_def
        aes_sbox_def xtime_def upt16 upt4)
  have e41: "aesenc_bytes
      [125, 12, 0, 7, 100, 211, 117, 12, 203, 98, 248, 72, 2, 252, 49, 182]
      [194, 164, 225, 115, 41, 214, 248, 181, 95, 124, 74, 142, 172, 179, 157, 47] =
      [130, 26, 40, 210, 72, 77, 208, 140, 55, 67, 58, 155, 148, 205, 195, 113]"
    by (simp add: aesenc_bytes_def MixColumns_def mix_column_def SubBytes_def ShiftRows_def
        aes_sbox_def xtime_def upt16 upt4)
  have e42: "aesenc_bytes
      [78, 189, 145, 250, 120, 55, 146, 143, 114, 76, 76, 89, 125, 7, 120, 110]
      [199, 225, 185, 165, 38, 77, 140, 31, 59, 90, 209, 231, 148, 143, 44, 107] =
      [154, 5, 228, 66, 175, 81, 13, 15, 29, 96, 216, 133, 123, 158, 113, 201]"
    by (simp add: aesenc_bytes_def MixColumns_def mix_column_def SubBytes_def ShiftRows_def
        aes_sbox_def xtime_def upt16 upt4)
  have e43: "aesenc_bytes
      [128, 97, 213, 133, 227, 202, 204, 73, 249, 226, 236, 41, 254, 155, 3, 104]
      [108, 117, 29, 142, 165, 201, 180, 242, 232, 97, 122, 61, 132, 43, 95, 156] =
      [250, 92, 236, 242, 216, 233, 105, 23, 197, 238, 188, 236, 45, 45, 105, 191]"
    by (simp add: aesenc_bytes_def MixColumns_def mix_column_def SubBytes_def ShiftRows_def
        aes_sbox_def xtime_def upt16 upt4)
  have r4: "aes_round 4
      (HashState
        (load_si128 [165, 73, 12, 75, 185, 96, 55, 238, 179, 189, 254, 116, 195, 172, 45, 88] 0)
        (load_si128 [125, 12, 0, 7, 100, 211, 117, 12, 203, 98, 248, 72, 2, 252, 49, 182] 0)
        (load_si128 [78, 189, 145, 250, 120, 55, 146, 143, 114, 76, 76, 89, 125, 7, 120, 110] 0)
        (load_si128 [128, 97, 213, 133, 227, 202, 204, 73, 249, 226, 236, 41, 254, 155, 3, 104] 0)) =
      HashState
        (load_si128 [224, 216, 205, 244, 98, 12, 117, 221, 85, 141, 30, 18, 205, 205, 143, 176] 0)
        (load_si128 [130, 26, 40, 210, 72, 77, 208, 140, 55, 67, 58, 155, 148, 205, 195, 113] 0)
        (load_si128 [154, 5, 228, 66, 175, 81, 13, 15, 29, 96, 216, 133, 123, 158, 113, 201] 0)
        (load_si128 [250, 92, 236, 242, 216, 233, 105, 23, 197, 238, 188, 236, 45, 45, 105, 191] 0)"
    by (simp add: aes_round_bytes rc_lanes e40 e41 e42 e43 del: aes_round.simps)
  have e50: "aesenc_bytes
      [224, 216, 205, 244, 98, 12, 117, 221, 85, 141, 30, 18, 205, 205, 143, 176]
      [194, 164, 225, 115, 41, 214, 248, 181, 95, 124, 74, 142, 172, 179, 157, 47] =
      [151, 211, 40, 18, 77, 236, 51, 27, 28, 252, 50, 8, 58, 185, 32, 134]"
    by (simp add: aesenc_bytes_def MixColumns_def mix_column_def SubBytes_def ShiftRows_def
        aes_sbox_def xtime_def upt16 upt4)
  have e51: "aesenc_bytes
      [130, 26, 40, 210, 72, 77, 208, 140, 55, 67, 58, 155, 148, 205, 195, 113]
      [199, 225, 185, 165, 38, 77, 140, 31, 59, 90, 209, 231, 148, 143, 44, 107] =
      [252, 23, 172, 174, 55, 236, 92, 172, 152, 153, 50, 19, 73, 118, 112, 247]"
    by (simp add: aesenc_bytes_def MixColumns_def mix_column_def SubBytes_def ShiftRows_def
        aes_sbox_def xtime_def upt16 upt4)
  have e52: "aesenc_bytes
      [154, 5, 228, 66, 175, 81, 13, 15, 29, 96, 216, 133, 123, 158, 113, 201]
      [108, 117, 29, 142, 165, 201, 180, 242, 232, 97, 122, 61, 132, 43, 95, 156] =
      [211, 10, 202, 76, 179, 217, 52, 82, 185, 30, 157, 68, 59, 41, 2, 118]"
    by (simp add: aesenc_bytes_def MixColumns_def mix_column_def SubBytes_def ShiftRows_def
        aes_sbox_def xtime_def upt16 upt4)
  have e53: "aesenc_bytes
      [250, 92, 236, 242, 216, 233, 105, 23, 197, 238, 188, 236, 45, 45, 105, 191]
      [120, 126, 112, 182, 7, 27, 127, 65, 105, 94, 52, 45, 140, 174, 5, 14] =
      [109, 200, 145, 170, 205, 179, 95, 58, 115, 234, 198, 49, 206, 60, 55, 73]"
    by (simp add: aesenc_bytes_def MixColumns_def mix_column_def SubBytes_def ShiftRows_def
        aes_sbox_def xtime_def upt16 upt4)
  have r5: "aes_round 5
      (HashState
        (load_si128 [224, 216, 205, 244, 98, 12, 117, 221, 85, 141, 30, 18, 205, 205, 143, 176] 0)
        (load_si128 [130, 26, 40, 210, 72, 77, 208, 140, 55, 67, 58, 155, 148, 205, 195, 113] 0)
        (load_si128 [154, 5, 228, 66, 175, 81, 13, 15, 29, 96, 216, 133, 123, 158, 113, 201] 0)
        (load_si128 [250, 92, 236, 242, 216, 233, 105, 23, 197, 238, 188, 236, 45, 45, 105, 191] 0)) =
      HashState
        (load_si128 [252, 23, 172, 174, 55, 236, 92, 172, 152, 153, 50, 19, 73, 118, 112, 247] 0)
        (load_si128 [211, 10, 202, 76, 179, 217, 52, 82, 185, 30, 157, 68, 59, 41, 2, 118] 0)
        (load_si128 [109, 200, 145, 170, 205, 179, 95, 58, 115, 234, 198, 49, 206, 60, 55, 73] 0)
        (load_si128 [151, 211, 40, 18, 77, 236, 51, 27, 28, 252, 50, 8, 58, 185, 32, 134] 0)"
    by (simp add: aes_round_bytes rc_lanes e50 e51 e52 e53 del: aes_round.simps)
  have e60: "aesenc_bytes
      [252, 23, 172, 174, 55, 236, 92, 172, 152, 153, 50, 19, 73, 118, 112, 247]
      [199, 225, 185, 165, 38, 77, 140, 31, 59, 90, 209, 231, 148, 143, 44, 107] =
      [190, 219, 57, 83, 149, 7, 109, 198, 255, 85, 62, 189, 222, 236, 244, 102]"
    by (simp add: aesenc_bytes_def MixColumns_def mix_column_def SubBytes_def ShiftRows_def
        aes_sbox_def xtime_def upt16 upt4)
  have e61: "aesenc_bytes
      [211, 10, 202, 76, 179, 217, 52, 82, 185, 30, 157, 68, 59, 41, 2, 118]
      [108, 117, 29, 142, 165, 201, 180, 242, 232, 97, 122, 61, 132, 43, 95, 156] =
      [153, 163, 186, 63, 183, 240, 62, 18, 196, 250, 97, 22, 241, 52, 199, 232]"
    by (simp add: aesenc_bytes_def MixColumns_def mix_column_def SubBytes_def ShiftRows_def
        aes_sbox_def xtime_def upt16 upt4)
  have e62: "aesenc_bytes
      [109, 200, 145, 170, 205, 179, 95, 58, 115, 234, 198, 49, 206, 60, 55, 73]
      [120, 126, 112, 182, 7, 27, 127, 65, 105, 94, 52, 45, 140, 174, 5, 14] =
      [56, 100, 31, 93, 194, 170, 133, 195, 75, 4, 210, 214, 170, 99, 177, 58]"
    by (simp add: aesenc_bytes_def MixColumns_def mix_column_def SubBytes_def ShiftRows_def
        aes_sbox_def xtime_def upt16 upt4)
  have e63: "aesenc_bytes
      [151, 211, 40, 18, 77, 236, 51, 27, 28, 252, 50, 8, 58, 185, 32, 134]
      [180, 58, 169, 120, 133, 139, 124, 253, 168, 164, 18, 92, 243, 226, 247, 198] =
      [145, 20, 101, 158, 237, 24, 26, 77, 234, 103, 90, 196, 177, 192, 220, 152]"
    by (simp add: aesenc_bytes_def MixColumns_def mix_column_def SubBytes_def ShiftRows_def
        aes_sbox_def xtime_def upt16 upt4)
  have r6: "aes_round 6
      (HashState
        (load_si128 [252, 23, 172, 174, 55, 236, 92, 172, 152, 153, 50, 19, 73, 118, 112, 247] 0)
        (load_si128 [211, 10, 202, 76, 179, 217, 52, 82, 185, 30, 157, 68, 59, 41, 2, 118] 0)
        (load_si128 [109, 200, 145, 170, 205, 179, 95, 58, 115, 234, 198, 49, 206, 60, 55, 73] 0)
        (load_si128 [151, 211, 40, 18, 77, 236, 51, 27, 28, 252, 50, 8, 58, 185, 32, 134] 0)) =
      HashState
        (load_si128 [190, 219, 57, 83, 149, 7, 109, 198, 255, 85, 62, 189, 222, 236, 244, 102] 0)
        (load_si128 [153, 163, 186, 63, 183, 240, 62, 18, 196, 250, 97, 22, 241, 52, 199, 232] 0)
        (load_si128 [56, 100, 31, 93, 194, 170, 133, 195, 75, 4, 210, 214, 170, 99, 177, 58] 0)
        (load_si128 [145, 20, 101, 158, 237, 24, 26, 77, 234, 103, 90, 196, 177, 192, 220, 152] 0)"
    by (simp add: aes_round_bytes rc_lanes e60 e61 e62 e63 del: aes_round.simps)
  have e70: "aesenc_bytes
      [190, 219, 57, 83, 149, 7, 109, 198, 255, 85, 62, 189, 222, 236, 244, 102]
      [108, 117, 29, 142, 165, 201, 180, 242, 232, 97, 122, 61, 132, 43, 95, 156] =
      [254, 180, 92, 118, 188, 55, 43, 14, 43, 114, 65, 168, 40, 97, 13, 202]"
    by (simp add: aesenc_bytes_def MixColumns_def mix_column_def SubBytes_def ShiftRows_def
        aes_sbox_def xtime_def upt16 upt4)
  have e71: "aesenc_bytes
      [153, 163, 186, 63, 183, 240, 62, 18, 196, 250, 97, 22, 241, 52, 199, 232]
      [120, 126, 112, 182, 7, 27, 127, 65, 105, 94, 52, 45, 140, 174, 5, 14] =
      [68, 34, 97, 209, 138, 204, 243, 160, 68, 188, 131, 108, 62, 145, 24, 192]"
    by (simp add: aesenc_bytes_def MixColumns_def mix_column_def SubBytes_def ShiftRows_def
        aes_sbox_def xtime_def upt16 upt4)
  have e72: "aesenc_bytes
      [56, 100, 31, 93, 194, 170, 133, 195, 75, 4, 210, 214, 170, 99, 177, 58]
      [180, 58, 169, 120, 133, 139, 124, 253, 168, 164, 18, 92, 243, 226, 247, 198] =
      [96, 58, 232, 115, 70, 94, 244, 48, 45, 143, 179, 245, 20, 156, 44, 10]"
    by (simp add: aesenc_bytes_def MixColumns_def mix_column_def SubBytes_def ShiftRows_def
        aes_sbox_def xtime_def upt16 upt4)
  have e73: "aesenc_bytes
      [145, 20, 101, 158, 237, 24, 26, 77, 234, 103, 90, 196, 177, 192, 220, 152]
      [209, 195, 167, 225, 178, 221, 79, 146, 94, 79, 154, 76, 173, 135, 95, 140] =
      [220, 156, 38, 230, 1, 3, 149, 120, 48, 147, 3, 244, 141, 65, 22, 175]"
    by (simp add: aesenc_bytes_def MixColumns_def mix_column_def SubBytes_def ShiftRows_def
        aes_sbox_def xtime_def upt16 upt4)
  have r7: "aes_round 7
      (HashState
        (load_si128 [190, 219, 57, 83, 149, 7, 109, 198, 255, 85, 62, 189, 222, 236, 244, 102] 0)
        (load_si128 [153, 163, 186, 63, 183, 240, 62, 18, 196, 250, 97, 22, 241, 52, 199, 232] 0)
        (load_si128 [56, 100, 31, 93, 194, 170, 133, 195, 75, 4, 210, 214, 170, 99, 177, 58] 0)
        (load_si128 [145, 20, 101, 158, 237, 24, 26, 77, 234, 103, 90, 196, 177, 192, 220, 152] 0)) =
      HashState
        (load_si128 [68, 34, 97, 209, 138, 204, 243, 160, 68, 188, 131, 108, 62, 145, 24, 192] 0)
        (load_si128 [96, 58, 232, 115, 70, 94, 244, 48, 45, 143, 179, 245, 20, 156, 44, 10] 0)
        (load_si128 [220, 156, 38, 230, 1, 3, 149, 120, 48, 147, 3, 244, 141, 65, 22, 175] 0)
        (load_si128 [254, 180, 92, 118, 188, 55, 43, 14, 43, 114, 65, 168, 40, 97, 13, 202] 0)"
    by (simp add: aes_round_bytes rc_lanes e70 e71 e72 e73 del: aes_round.simps)
  have o: "aes_ni_output
      [59, 167, 202, 132, 133, 174, 103, 187, 8, 201, 188, 243, 103, 230, 9, 106,
      241, 54, 29, 95, 58, 245, 79, 165, 43, 248, 148, 254, 114, 243, 110, 60,
      31, 108, 62, 43, 140, 104, 5, 155, 209, 130, 230, 173, 127, 82, 14, 81,
      121, 33, 126, 19, 25, 205, 224, 91, 107, 189, 65, 251, 171, 217, 131, 31]
      (HashState
        (load_si128 [68, 34, 97, 209, 138, 204, 243, 160, 68, 188, 131, 108, 62, 145, 24, 192] 0)
        (load_si128 [96, 58, 232, 115, 70, 94, 244, 48, 45, 143, 179, 245, 20, 156, 44, 10] 0)
        (load_si128 [220, 156, 38, 230, 1, 3, 149, 120, 48, 147, 3, 244, 141, 65, 22, 175] 0)
        (load_si128 [254, 180, 92, 118, 188, 55, 43, 14, 43, 114, 65, 168, 40, 97, 13, 202] 0)) =
      [188, 117, 179, 152, 130, 9, 4, 248, 173, 100, 218, 198, 171, 100, 9, 84,
      22, 153, 215, 73, 217, 81, 112, 192, 70, 184, 39, 88, 229, 215, 204, 227]"
    by (simp add: aes_ni_output_bytes del: aes_ni_output.simps)
  show ?thesis
    by (simp only: haraka512_aes_ni_def fold_aes_rounds i [OF refl] r0 r1 r2 r3 r4 r5 r6 r7 o)
qed

lemma hw_eval_iv_pad:
  "haraka512_aes_ni
     [187, 167, 202, 132, 133, 174, 103, 187, 8, 201, 188, 243, 103, 230, 9, 106,
     241, 54, 29, 95, 58, 245, 79, 165, 43, 248, 148, 254, 114, 243, 110, 60,
     31, 108, 62, 43, 140, 104, 5, 155, 209, 130, 230, 173, 127, 82, 14, 81,
     121, 33, 126, 19, 25, 205, 224, 91, 107, 189, 65, 251, 171, 217, 131, 31] =
     [28, 58, 97, 159, 223, 114, 74, 160, 155, 220, 59, 128, 189, 200, 202, 88,
     22, 153, 215, 73, 217, 81, 112, 192, 70, 184, 39, 88, 229, 215, 204, 227]"
proof -
  have i: "HashState (load_si128 X 0) (load_si128 X 16) (load_si128 X 32) (load_si128 X 48) =
      HashState
        (load_si128 [187, 167, 202, 132, 133, 174, 103, 187, 8, 201, 188, 243, 103, 230, 9, 106] 0)
        (load_si128 [241, 54, 29, 95, 58, 245, 79, 165, 43, 248, 148, 254, 114, 243, 110, 60] 0)
        (load_si128 [31, 108, 62, 43, 140, 104, 5, 155, 209, 130, 230, 173, 127, 82, 14, 81] 0)
        (load_si128 [121, 33, 126, 19, 25, 205, 224, 91, 107, 189, 65, 251, 171, 217, 131, 31] 0)"
    if "X = [187, 167, 202, 132, 133, 174, 103, 187, 8, 201, 188, 243, 103, 230, 9, 106,
         241, 54, 29, 95, 58, 245, 79, 165, 43, 248, 148, 254, 114, 243, 110, 60,
         31, 108, 62, 43, 140, 104, 5, 155, 209, 130, 230, 173, 127, 82, 14, 81,
         121, 33, 126, 19, 25, 205, 224, 91, 107, 189, 65, 251, 171, 217, 131, 31]" for X
    unfolding that by (simp add: load_si128_def)
  have e00: "aesenc_bytes
      [187, 167, 202, 132, 133, 174, 103, 187, 8, 201, 188, 243, 103, 230, 9, 106]
      [120, 126, 112, 182, 7, 27, 127, 65, 105, 94, 52, 45, 140, 174, 5, 14] =
      [231, 234, 178, 22, 16, 113, 214, 129, 30, 31, 71, 72, 241, 10, 218, 89]"
    by (simp add: aesenc_bytes_def MixColumns_def mix_column_def SubBytes_def ShiftRows_def
        aes_sbox_def xtime_def upt16 upt4)
  have e01: "aesenc_bytes
      [241, 54, 29, 95, 58, 245, 79, 165, 43, 248, 148, 254, 114, 243, 110, 60]
      [180, 58, 169, 120, 133, 139, 124, 253, 168, 164, 18, 92, 243, 226, 247, 198] =
      [21, 193, 140, 137, 13, 252, 210, 61, 228, 190, 183, 241, 67, 132, 119, 234]"
    by (simp add: aesenc_bytes_def MixColumns_def mix_column_def SubBytes_def ShiftRows_def
        aes_sbox_def xtime_def upt16 upt4)
  have e02: "aesenc_bytes
      [31, 108, 62, 43, 140, 104, 5, 155, 209, 130, 230, 173, 127, 82, 14, 81]
      [209, 195, 167, 225, 178, 221, 79, 146, 94, 79, 154, 76, 173, 135, 95, 140] =
      [218, 209, 77, 200, 21, 136, 125, 127, 132, 168, 231, 148, 28, 221, 175, 235]"
    by (simp add: aesenc_bytes_def MixColumns_def mix_column_def SubBytes_def ShiftRows_def
        aes_sbox_def xtime_def upt16 upt4)
  have e03: "aesenc_bytes
      [121, 33, 126, 19, 25, 205, 224, 91, 107, 189, 65, 251, 171, 217, 131, 31]
      [190, 201, 168, 35, 65, 166, 242, 133, 142, 194, 148, 122, 91, 143, 59, 244] =
      [86, 64, 229, 71, 237, 212, 24, 142, 229, 224, 104, 79, 109, 59, 108, 80]"
    by (simp add: aesenc_bytes_def MixColumns_def mix_column_def SubBytes_def ShiftRows_def
        aes_sbox_def xtime_def upt16 upt4)
  have r0: "aes_round 0
      (HashState
        (load_si128 [187, 167, 202, 132, 133, 174, 103, 187, 8, 201, 188, 243, 103, 230, 9, 106] 0)
        (load_si128 [241, 54, 29, 95, 58, 245, 79, 165, 43, 248, 148, 254, 114, 243, 110, 60] 0)
        (load_si128 [31, 108, 62, 43, 140, 104, 5, 155, 209, 130, 230, 173, 127, 82, 14, 81] 0)
        (load_si128 [121, 33, 126, 19, 25, 205, 224, 91, 107, 189, 65, 251, 171, 217, 131, 31] 0)) =
      HashState
        (load_si128 [231, 234, 178, 22, 16, 113, 214, 129, 30, 31, 71, 72, 241, 10, 218, 89] 0)
        (load_si128 [21, 193, 140, 137, 13, 252, 210, 61, 228, 190, 183, 241, 67, 132, 119, 234] 0)
        (load_si128 [218, 209, 77, 200, 21, 136, 125, 127, 132, 168, 231, 148, 28, 221, 175, 235] 0)
        (load_si128 [86, 64, 229, 71, 237, 212, 24, 142, 229, 224, 104, 79, 109, 59, 108, 80] 0)"
    by (simp add: aes_round_bytes rc_lanes e00 e01 e02 e03 del: aes_round.simps)
  have e10: "aesenc_bytes
      [231, 234, 178, 22, 16, 113, 214, 129, 30, 31, 71, 72, 241, 10, 218, 89]
      [180, 58, 169, 120, 133, 139, 124, 253, 168, 164, 18, 92, 243, 226, 247, 198] =
      [18, 195, 131, 81, 65, 100, 17, 161, 222, 77, 125, 130, 156, 5, 208, 235]"
    by (simp add: aesenc_bytes_def MixColumns_def mix_column_def SubBytes_def ShiftRows_def
        aes_sbox_def xtime_def upt16 upt4)
  have e11: "aesenc_bytes
      [21, 193, 140, 137, 13, 252, 210, 61, 228, 190, 183, 241, 67, 132, 119, 234]
      [209, 195, 167, 225, 178, 221, 79, 146, 94, 79, 154, 76, 173, 135, 95, 140] =
      [134, 134, 149, 6, 188, 238, 53, 254, 46, 19, 13, 130, 5, 8, 180, 54]"
    by (simp add: aesenc_bytes_def MixColumns_def mix_column_def SubBytes_def ShiftRows_def
        aes_sbox_def xtime_def upt16 upt4)
  have e12: "aesenc_bytes
      [218, 209, 77, 200, 21, 136, 125, 127, 132, 168, 231, 148, 28, 221, 175, 235]
      [190, 201, 168, 35, 65, 166, 242, 133, 142, 194, 148, 122, 91, 143, 59, 244] =
      [58, 67, 40, 67, 63, 3, 184, 30, 89, 232, 186, 6, 231, 87, 26, 206]"
    by (simp add: aesenc_bytes_def MixColumns_def mix_column_def SubBytes_def ShiftRows_def
        aes_sbox_def xtime_def upt16 upt4)
  have e13: "aesenc_bytes
      [86, 64, 229, 71, 237, 212, 24, 142, 229, 224, 104, 79, 109, 59, 108, 80]
      [86, 217, 200, 65, 43, 110, 60, 248, 241, 232, 125, 154, 212, 178, 24, 92] =
      [225, 100, 78, 34, 73, 178, 211, 237, 165, 135, 196, 227, 158, 244, 251, 175]"
    by (simp add: aesenc_bytes_def MixColumns_def mix_column_def SubBytes_def ShiftRows_def
        aes_sbox_def xtime_def upt16 upt4)
  have r1: "aes_round 1
      (HashState
        (load_si128 [231, 234, 178, 22, 16, 113, 214, 129, 30, 31, 71, 72, 241, 10, 218, 89] 0)
        (load_si128 [21, 193, 140, 137, 13, 252, 210, 61, 228, 190, 183, 241, 67, 132, 119, 234] 0)
        (load_si128 [218, 209, 77, 200, 21, 136, 125, 127, 132, 168, 231, 148, 28, 221, 175, 235] 0)
        (load_si128 [86, 64, 229, 71, 237, 212, 24, 142, 229, 224, 104, 79, 109, 59, 108, 80] 0)) =
      HashState
        (load_si128 [134, 134, 149, 6, 188, 238, 53, 254, 46, 19, 13, 130, 5, 8, 180, 54] 0)
        (load_si128 [58, 67, 40, 67, 63, 3, 184, 30, 89, 232, 186, 6, 231, 87, 26, 206] 0)
        (load_si128 [225, 100, 78, 34, 73, 178, 211, 237, 165, 135, 196, 227, 158, 244, 251, 175] 0)
        (load_si128 [18, 195, 131, 81, 65, 100, 17, 161, 222, 77, 125, 130, 156, 5, 208, 235] 0)"
    by (simp add: aes_round_bytes rc_lanes e10 e11 e12 e13 del: aes_round.simps)
  have e20: "aesenc_bytes
      [134, 134, 149, 6, 188, 238, 53, 254, 46, 19, 13, 130, 5, 8, 180, 54]
      [209, 195, 167, 225, 178, 221, 79, 146, 94, 79, 154, 76, 173, 135, 95, 140] =
      [243, 176, 113, 216, 29, 161, 231, 19, 253, 219, 25, 104, 50, 214, 114, 197]"
    by (simp add: aesenc_bytes_def MixColumns_def mix_column_def SubBytes_def ShiftRows_def
        aes_sbox_def xtime_def upt16 upt4)
  have e21: "aesenc_bytes
      [58, 67, 40, 67, 63, 3, 184, 30, 89, 232, 186, 6, 231, 87, 26, 206]
      [190, 201, 168, 35, 65, 166, 242, 133, 142, 194, 148, 122, 91, 143, 59, 244] =
      [87, 51, 38, 58, 165, 25, 109, 23, 168, 145, 250, 183, 69, 244, 220, 251]"
    by (simp add: aesenc_bytes_def MixColumns_def mix_column_def SubBytes_def ShiftRows_def
        aes_sbox_def xtime_def upt16 upt4)
  have e22: "aesenc_bytes
      [225, 100, 78, 34, 73, 178, 211, 237, 165, 135, 196, 227, 158, 244, 251, 175]
      [86, 217, 200, 65, 43, 110, 60, 248, 241, 232, 125, 154, 212, 178, 24, 92] =
      [129, 18, 180, 139, 248, 249, 160, 144, 93, 175, 101, 170, 112, 132, 175, 70]"
    by (simp add: aesenc_bytes_def MixColumns_def mix_column_def SubBytes_def ShiftRows_def
        aes_sbox_def xtime_def upt16 upt4)
  have e23: "aesenc_bytes
      [18, 195, 131, 81, 65, 100, 17, 161, 222, 77, 125, 130, 156, 5, 208, 235]
      [194, 164, 225, 115, 41, 214, 248, 181, 95, 124, 74, 142, 172, 179, 157, 47] =
      [152, 24, 174, 70, 171, 201, 16, 1, 6, 170, 169, 74, 232, 191, 71, 220]"
    by (simp add: aesenc_bytes_def MixColumns_def mix_column_def SubBytes_def ShiftRows_def
        aes_sbox_def xtime_def upt16 upt4)
  have r2: "aes_round 2
      (HashState
        (load_si128 [134, 134, 149, 6, 188, 238, 53, 254, 46, 19, 13, 130, 5, 8, 180, 54] 0)
        (load_si128 [58, 67, 40, 67, 63, 3, 184, 30, 89, 232, 186, 6, 231, 87, 26, 206] 0)
        (load_si128 [225, 100, 78, 34, 73, 178, 211, 237, 165, 135, 196, 227, 158, 244, 251, 175] 0)
        (load_si128 [18, 195, 131, 81, 65, 100, 17, 161, 222, 77, 125, 130, 156, 5, 208, 235] 0)) =
      HashState
        (load_si128 [243, 176, 113, 216, 29, 161, 231, 19, 253, 219, 25, 104, 50, 214, 114, 197] 0)
        (load_si128 [87, 51, 38, 58, 165, 25, 109, 23, 168, 145, 250, 183, 69, 244, 220, 251] 0)
        (load_si128 [129, 18, 180, 139, 248, 249, 160, 144, 93, 175, 101, 170, 112, 132, 175, 70] 0)
        (load_si128 [152, 24, 174, 70, 171, 201, 16, 1, 6, 170, 169, 74, 232, 191, 71, 220] 0)"
    by (simp add: aes_round_bytes rc_lanes e20 e21 e22 e23 del: aes_round.simps)
  have e30: "aesenc_bytes
      [243, 176, 113, 216, 29, 161, 231, 19, 253, 219, 25, 104, 50, 214, 114, 197]
      [190, 201, 168, 35, 65, 166, 242, 133, 142, 194, 148, 122, 91, 143, 59, 244] =
      [128, 97, 213, 133, 227, 202, 204, 73, 249, 226, 236, 41, 254, 155, 3, 104]"
    by (simp add: aesenc_bytes_def MixColumns_def mix_column_def SubBytes_def ShiftRows_def
        aes_sbox_def xtime_def upt16 upt4)
  have e31: "aesenc_bytes
      [87, 51, 38, 58, 165, 25, 109, 23, 168, 145, 250, 183, 69, 244, 220, 251]
      [86, 217, 200, 65, 43, 110, 60, 248, 241, 232, 125, 154, 212, 178, 24, 92] =
      [165, 73, 12, 75, 185, 96, 55, 238, 179, 189, 254, 116, 195, 172, 45, 88]"
    by (simp add: aesenc_bytes_def MixColumns_def mix_column_def SubBytes_def ShiftRows_def
        aes_sbox_def xtime_def upt16 upt4)
  have e32: "aesenc_bytes
      [129, 18, 180, 139, 248, 249, 160, 144, 93, 175, 101, 170, 112, 132, 175, 70]
      [194, 164, 225, 115, 41, 214, 248, 181, 95, 124, 74, 142, 172, 179, 157, 47] =
      [125, 12, 0, 7, 100, 211, 117, 12, 203, 98, 248, 72, 2, 252, 49, 182]"
    by (simp add: aesenc_bytes_def MixColumns_def mix_column_def SubBytes_def ShiftRows_def
        aes_sbox_def xtime_def upt16 upt4)
  have e33: "aesenc_bytes
      [152, 24, 174, 70, 171, 201, 16, 1, 6, 170, 169, 74, 232, 191, 71, 220]
      [199, 225, 185, 165, 38, 77, 140, 31, 59, 90, 209, 231, 148, 143, 44, 107] =
      [98, 238, 14, 118, 247, 205, 247, 1, 101, 110, 225, 66, 73, 198, 244, 13]"
    by (simp add: aesenc_bytes_def MixColumns_def mix_column_def SubBytes_def ShiftRows_def
        aes_sbox_def xtime_def upt16 upt4)
  have r3: "aes_round 3
      (HashState
        (load_si128 [243, 176, 113, 216, 29, 161, 231, 19, 253, 219, 25, 104, 50, 214, 114, 197] 0)
        (load_si128 [87, 51, 38, 58, 165, 25, 109, 23, 168, 145, 250, 183, 69, 244, 220, 251] 0)
        (load_si128 [129, 18, 180, 139, 248, 249, 160, 144, 93, 175, 101, 170, 112, 132, 175, 70] 0)
        (load_si128 [152, 24, 174, 70, 171, 201, 16, 1, 6, 170, 169, 74, 232, 191, 71, 220] 0)) =
      HashState
        (load_si128 [165, 73, 12, 75, 185, 96, 55, 238, 179, 189, 254, 116, 195, 172, 45, 88] 0)
        (load_si128 [125, 12, 0, 7, 100, 211, 117, 12, 203, 98, 248, 72, 2, 252, 49, 182] 0)
        (load_si128 [98, 238, 14, 118, 247, 205, 247, 1, 101, 110, 225, 66, 73, 198, 244, 13] 0)
        (load_si128 [128, 97, 213, 133, 227, 202, 204, 73, 249, 226, 236, 41, 254, 155, 3, 104] 0)"
    by (simp add: aes_round_bytes rc_lanes e30 e31 e32 e33 del: aes_round.simps)
  have e40: "aesenc_bytes
      [165, 73, 12, 75, 185, 96, 55, 238, 179, 189, 254, 116, 195, 172, 45, 88]
      [86, 217, 200, 65, 43, 110, 60, 248, 241, 232, 125, 154, 212, 178, 24, 92] =
      [224, 216, 205, 244, 98, 12, 117, 221, 85, 141, 30, 18, 205, 205, 143, 176]"
    by (simp add: aesenc_bytes_def MixColumns_def mix_column_def SubBytes_def ShiftRows_def
        aes_sbox_def xtime_def upt16 upt4)
  have e41: "aesenc_bytes
      [125, 12, 0, 7, 100, 211, 117, 12, 203, 98, 248, 72, 2, 252, 49, 182]
      [194, 164, 225, 115, 41, 214, 248, 181, 95, 124, 74, 142, 172, 179, 157, 47] =
      [130, 26, 40, 210, 72, 77, 208, 140, 55, 67, 58, 155, 148, 205, 195, 113]"
    by (simp add: aesenc_bytes_def MixColumns_def mix_column_def SubBytes_def ShiftRows_def
        aes_sbox_def xtime_def upt16 upt4)
  have e42: "aesenc_bytes
      [98, 238, 14, 118, 247, 205, 247, 1, 101, 110, 225, 66, 73, 198, 244, 13]
      [199, 225, 185, 165, 38, 77, 140, 31, 59, 90, 209, 231, 148, 143, 44, 107] =
      [123, 238, 39, 176, 203, 226, 86, 247, 177, 254, 225, 215, 222, 112, 155, 62]"
    by (simp add: aesenc_bytes_def MixColumns_def mix_column_def SubBytes_def ShiftRows_def
        aes_sbox_def xtime_def upt16 upt4)
  have e43: "aesenc_bytes
      [128, 97, 213, 133, 227, 202, 204, 73, 249, 226, 236, 41, 254, 155, 3, 104]
      [108, 117, 29, 142, 165, 201, 180, 242, 232, 97, 122, 61, 132, 43, 95, 156] =
      [250, 92, 236, 242, 216, 233, 105, 23, 197, 238, 188, 236, 45, 45, 105, 191]"
    by (simp add: aesenc_bytes_def MixColumns_def mix_column_def SubBytes_def ShiftRows_def
        aes_sbox_def xtime_def upt16 upt4)
  have r4: "aes_round 4
      (HashState
        (load_si128 [165, 73, 12, 75, 185, 96, 55, 238, 179, 189, 254, 116, 195, 172, 45, 88] 0)
        (load_si128 [125, 12, 0, 7, 100, 211, 117, 12, 203, 98, 248, 72, 2, 252, 49, 182] 0)
        (load_si128 [98, 238, 14, 118, 247, 205, 247, 1, 101, 110, 225, 66, 73, 198, 244, 13] 0)
        (load_si128 [128, 97, 213, 133, 227, 202, 204, 73, 249, 226, 236, 41, 254, 155, 3, 104] 0)) =
      HashState
        (load_si128 [224, 216, 205, 244, 98, 12, 117, 221, 85, 141, 30, 18, 205, 205, 143, 176] 0)
        (load_si128 [130, 26, 40, 210, 72, 77, 208, 140, 55, 67, 58, 155, 148, 205, 195, 113] 0)
        (load_si128 [123, 238, 39, 176, 203, 226, 86, 247, 177, 254, 225, 215, 222, 112, 155, 62] 0)
        (load_si128 [250, 92, 236, 242, 216, 233, 105, 23, 197, 238, 188, 236, 45, 45, 105, 191] 0)"
    by (simp add: aes_round_bytes rc_lanes e40 e41 e42 e43 del: aes_round.simps)
  have e50: "aesenc_bytes
      [224, 216, 205, 244, 98, 12, 117, 221, 85, 141, 30, 18, 205, 205, 143, 176]
      [194, 164, 225, 115, 41, 214, 248, 181, 95, 124, 74, 142, 172, 179, 157, 47] =
      [151, 211, 40, 18, 77, 236, 51, 27, 28, 252, 50, 8, 58, 185, 32, 134]"
    by (simp add: aesenc_bytes_def MixColumns_def mix_column_def SubBytes_def ShiftRows_def
        aes_sbox_def xtime_def upt16 upt4)
  have e51: "aesenc_bytes
      [130, 26, 40, 210, 72, 77, 208, 140, 55, 67, 58, 155, 148, 205, 195, 113]
      [199, 225, 185, 165, 38, 77, 140, 31, 59, 90, 209, 231, 148, 143, 44, 107] =
      [252, 23, 172, 174, 55, 236, 92, 172, 152, 153, 50, 19, 73, 118, 112, 247]"
    by (simp add: aesenc_bytes_def MixColumns_def mix_column_def SubBytes_def ShiftRows_def
        aes_sbox_def xtime_def upt16 upt4)
  have e52: "aesenc_bytes
      [123, 238, 39, 176, 203, 226, 86, 247, 177, 254, 225, 215, 222, 112, 155, 62]
      [108, 117, 29, 142, 165, 201, 180, 242, 232, 97, 122, 61, 132, 43, 95, 156] =
      [215, 222, 130, 242, 190, 96, 10, 169, 52, 44, 216, 51, 121, 160, 1, 62]"
    by (simp add: aesenc_bytes_def MixColumns_def mix_column_def SubBytes_def ShiftRows_def
        aes_sbox_def xtime_def upt16 upt4)
  have e53: "aesenc_bytes
      [250, 92, 236, 242, 216, 233, 105, 23, 197, 238, 188, 236, 45, 45, 105, 191]
      [120, 126, 112, 182, 7, 27, 127, 65, 105, 94, 52, 45, 140, 174, 5, 14] =
      [109, 200, 145, 170, 205, 179, 95, 58, 115, 234, 198, 49, 206, 60, 55, 73]"
    by (simp add: aesenc_bytes_def MixColumns_def mix_column_def SubBytes_def ShiftRows_def
        aes_sbox_def xtime_def upt16 upt4)
  have r5: "aes_round 5
      (HashState
        (load_si128 [224, 216, 205, 244, 98, 12, 117, 221, 85, 141, 30, 18, 205, 205, 143, 176] 0)
        (load_si128 [130, 26, 40, 210, 72, 77, 208, 140, 55, 67, 58, 155, 148, 205, 195, 113] 0)
        (load_si128 [123, 238, 39, 176, 203, 226, 86, 247, 177, 254, 225, 215, 222, 112, 155, 62] 0)
        (load_si128 [250, 92, 236, 242, 216, 233, 105, 23, 197, 238, 188, 236, 45, 45, 105, 191] 0)) =
      HashState
        (load_si128 [252, 23, 172, 174, 55, 236, 92, 172, 152, 153, 50, 19, 73, 118, 112, 247] 0)
        (load_si128 [215, 222, 130, 242, 190, 96, 10, 169, 52, 44, 216, 51, 121, 160, 1, 62] 0)
        (load_si128 [109, 200, 145, 170, 205, 179, 95, 58, 115, 234, 198, 49, 206, 60, 55, 73] 0)
        (load_si128 [151, 211, 40, 18, 77, 236, 51, 27, 28, 252, 50, 8, 58, 185, 32, 134] 0)"
    by (simp add: aes_round_bytes rc_lanes e50 e51 e52 e53 del: aes_round.simps)
  have e60: "aesenc_bytes
      [252, 23, 172, 174, 55, 236, 92, 172, 152, 153, 50, 19, 73, 118, 112, 247]
      [199, 225, 185, 165, 38, 77, 140, 31, 59, 90, 209, 231, 148, 143, 44, 107] =
      [190, 219, 57, 83, 149, 7, 109, 198, 255, 85, 62, 189, 222, 236, 244, 102]"
    by (simp add: aesenc_bytes_def MixColumns_def mix_column_def SubBytes_def ShiftRows_def
        aes_sbox_def xtime_def upt16 upt4)
  have e61: "aesenc_bytes
      [215, 222, 130, 242, 190, 96, 10, 169, 52, 44, 216, 51, 121, 160, 1, 62]
      [108, 117, 29, 142, 165, 201, 180, 242, 232, 97, 122, 61, 132, 43, 95, 156] =
      [200, 209, 204, 82, 132, 136, 19, 31, 35, 68, 202, 91, 112, 205, 100, 186]"
    by (simp add: aesenc_bytes_def MixColumns_def mix_column_def SubBytes_def ShiftRows_def
        aes_sbox_def xtime_def upt16 upt4)
  have e62: "aesenc_bytes
      [109, 200, 145, 170, 205, 179, 95, 58, 115, 234, 198, 49, 206, 60, 55, 73]
      [120, 126, 112, 182, 7, 27, 127, 65, 105, 94, 52, 45, 140, 174, 5, 14] =
      [56, 100, 31, 93, 194, 170, 133, 195, 75, 4, 210, 214, 170, 99, 177, 58]"
    by (simp add: aesenc_bytes_def MixColumns_def mix_column_def SubBytes_def ShiftRows_def
        aes_sbox_def xtime_def upt16 upt4)
  have e63: "aesenc_bytes
      [151, 211, 40, 18, 77, 236, 51, 27, 28, 252, 50, 8, 58, 185, 32, 134]
      [180, 58, 169, 120, 133, 139, 124, 253, 168, 164, 18, 92, 243, 226, 247, 198] =
      [145, 20, 101, 158, 237, 24, 26, 77, 234, 103, 90, 196, 177, 192, 220, 152]"
    by (simp add: aesenc_bytes_def MixColumns_def mix_column_def SubBytes_def ShiftRows_def
        aes_sbox_def xtime_def upt16 upt4)
  have r6: "aes_round 6
      (HashState
        (load_si128 [252, 23, 172, 174, 55, 236, 92, 172, 152, 153, 50, 19, 73, 118, 112, 247] 0)
        (load_si128 [215, 222, 130, 242, 190, 96, 10, 169, 52, 44, 216, 51, 121, 160, 1, 62] 0)
        (load_si128 [109, 200, 145, 170, 205, 179, 95, 58, 115, 234, 198, 49, 206, 60, 55, 73] 0)
        (load_si128 [151, 211, 40, 18, 77, 236, 51, 27, 28, 252, 50, 8, 58, 185, 32, 134] 0)) =
      HashState
        (load_si128 [190, 219, 57, 83, 149, 7, 109, 198, 255, 85, 62, 189, 222, 236, 244, 102] 0)
        (load_si128 [200, 209, 204, 82, 132, 136, 19, 31, 35, 68, 202, 91, 112, 205, 100, 186] 0)
        (load_si128 [56, 100, 31, 93, 194, 170, 133, 195, 75, 4, 210, 214, 170, 99, 177, 58] 0)
        (load_si128 [145, 20, 101, 158, 237, 24, 26, 77, 234, 103, 90, 196, 177, 192, 220, 152] 0)"
    by (simp add: aes_round_bytes rc_lanes e60 e61 e62 e63 del: aes_round.simps)
  have e70: "aesenc_bytes
      [190, 219, 57, 83, 149, 7, 109, 198, 255, 85, 62, 189, 222, 236, 244, 102]
      [108, 117, 29, 142, 165, 201, 180, 242, 232, 97, 122, 61, 132, 43, 95, 156] =
      [254, 180, 92, 118, 188, 55, 43, 14, 43, 114, 65, 168, 40, 97, 13, 202]"
    by (simp add: aesenc_bytes_def MixColumns_def mix_column_def SubBytes_def ShiftRows_def
        aes_sbox_def xtime_def upt16 upt4)
  have e71: "aesenc_bytes
      [200, 209, 204, 82, 132, 136, 19, 31, 35, 68, 202, 91, 112, 205, 100, 186]
      [120, 126, 112, 182, 7, 27, 127, 65, 105, 94, 52, 45, 140, 174, 5, 14] =
      [100, 109, 179, 214, 215, 183, 189, 248, 114, 4, 98, 42, 40, 61, 219, 204]"
    by (simp add: aesenc_bytes_def MixColumns_def mix_column_def SubBytes_def ShiftRows_def
        aes_sbox_def xtime_def upt16 upt4)
  have e72: "aesenc_bytes
      [56, 100, 31, 93, 194, 170, 133, 195, 75, 4, 210, 214, 170, 99, 177, 58]
      [180, 58, 169, 120, 133, 139, 124, 253, 168, 164, 18, 92, 243, 226, 247, 198] =
      [96, 58, 232, 115, 70, 94, 244, 48, 45, 143, 179, 245, 20, 156, 44, 10]"
    by (simp add: aesenc_bytes_def MixColumns_def mix_column_def SubBytes_def ShiftRows_def
        aes_sbox_def xtime_def upt16 upt4)
  have e73: "aesenc_bytes
      [145, 20, 101, 158, 237, 24, 26, 77, 234, 103, 90, 196, 177, 192, 220, 152]
      [209, 195, 167, 225, 178, 221, 79, 146, 94, 79, 154, 76, 173, 135, 95, 140] =
      [220, 156, 38, 230, 1, 3, 149, 120, 48, 147, 3, 244, 141, 65, 22, 175]"
    by (simp add: aesenc_bytes_def MixColumns_def mix_column_def SubBytes_def ShiftRows_def
        aes_sbox_def xtime_def upt16 upt4)
  have r7: "aes_round 7
      (HashState
        (load_si128 [190, 219, 57, 83, 149, 7, 109, 198, 255, 85, 62, 189, 222, 236, 244, 102] 0)
        (load_si128 [200, 209, 204, 82, 132, 136, 19, 31, 35, 68, 202, 91, 112, 205, 100, 186] 0)
        (load_si128 [56, 100, 31, 93, 194, 170, 133, 195, 75, 4, 210, 214, 170, 99, 177, 58] 0)
        (load_si128 [145, 20, 101, 158, 237, 24, 26, 77, 234, 103, 90, 196, 177, 192, 220, 152] 0)) =
      HashState
        (load_si128 [100, 109, 179, 214, 215, 183, 189, 248, 114, 4, 98, 42, 40, 61, 219, 204] 0)
        (load_si128 [96, 58, 232, 115, 70, 94, 244, 48, 45, 143, 179, 245, 20, 156, 44, 10] 0)
        (load_si128 [220, 156, 38, 230, 1, 3, 149, 120, 48, 147, 3, 244, 141, 65, 22, 175] 0)
        (load_si128 [254, 180, 92, 118, 188, 55, 43, 14, 43, 114, 65, 168, 40, 97, 13, 202] 0)"
    by (simp add: aes_round_bytes rc_lanes e70 e71 e72 e73 del: aes_round.simps)
  have o: "aes_ni_output
      [187, 167, 202, 132, 133, 174, 103, 187, 8, 201, 188, 243, 103, 230, 9, 106,
      241, 54, 29, 95, 58, 245, 79, 165, 43, 248, 148, 254, 114, 243, 110, 60,
      31, 108, 62, 43, 140, 104, 5, 155, 209, 130, 230, 173, 127, 82, 14, 81,
      121, 33, 126, 19, 25, 205, 224, 91, 107, 189, 65, 251, 171, 217, 131, 31]
      (HashState
        (load_si128 [100, 109, 179, 214, 215, 183, 189, 248, 114, 4, 98, 42, 40, 61, 219, 204] 0)
        (load_si128 [96, 58, 232, 115, 70, 94, 244, 48, 45, 143, 179, 245, 20, 156, 44, 10] 0)
        (load_si128 [220, 156, 38, 230, 1, 3, 149, 120, 48, 147, 3, 244, 141, 65, 22, 175] 0)
        (load_si128 [254, 180, 92, 118, 188, 55, 43, 14, 43, 114, 65, 168, 40, 97, 13, 202] 0)) =
      [28, 58, 97, 159, 223, 114, 74, 160, 155, 220, 59, 128, 189, 200, 202, 88,
      22, 153, 215, 73, 217, 81, 112, 192, 70, 184, 39, 88, 229, 215, 204, 227]"
    by (simp add: aes_ni_output_bytes del: aes_ni_output.simps)
  show ?thesis
    by (simp only: haraka512_aes_ni_def fold_aes_rounds i [OF refl] r0 r1 r2 r3 r4 r5 r6 r7 o)
qed

lemma sw_eval_msg56_single:
  "haraka512_software
     [90, 198, 171, 229, 228, 207, 6, 218, 105, 168, 221, 146, 6, 135, 104, 11,
     144, 87, 124, 62, 91, 148, 46, 196, 74, 153, 245, 159, 19, 146, 15, 93,
     126, 13, 95, 74, 237, 9, 100, 250, 176, 227, 135, 204, 30, 51, 111, 48,
     24, 64, 31, 114, 120, 172, 129, 58, 171, 188, 65, 251, 171, 217, 131, 31] =
     [112, 135, 132, 226, 15, 48, 131, 8, 15, 141, 116, 210, 218, 106, 89, 177,
     220, 77, 128, 140, 98, 161, 1, 167, 200, 9, 173, 147, 161, 121, 34, 69]"
proof -
  have w: "map (\<lambda>i. load_u32
      [90, 198, 171, 229, 228, 207, 6, 218, 105, 168, 221, 146, 6, 135, 104, 11,
      144, 87, 124, 62, 91, 148, 46, 196, 74, 153, 245, 159, 19, 146, 15, 93,
      126, 13, 95, 74, 237, 9, 100, 250, 176, 227, 135, 204, 30, 51, 111, 48,
      24, 64, 31, 114, 120, 172, 129, 58, 171, 188, 65, 251, 171, 217, 131, 31] i) [0..<16] =
      [3853239898, 3657879524, 2464000105, 191399686, 1048336272, 3291386971,
      2683672906, 1561301523, 1247743358, 4200860141, 3431457712, 812593950,
      1914650648, 981576824, 4215389355, 528734635]"
    by (simp add: load_u32_def upt16)
  have r0: "sw_round 0
      [3853239898, 3657879524, 2464000105, 191399686, 1048336272, 3291386971,
      2683672906, 1561301523, 1247743358, 4200860141, 3431457712, 812593950,
      1914650648, 981576824, 4215389355, 528734635] =
      [2257048279, 1797746784, 2549999683, 1187215931, 357221580, 3729224465,
      2778300802, 445419783, 2153418821, 3783796244, 4212539585, 3129658529,
      903527945, 1477916724, 155699793, 9628403]"
    by (simp add: sw_round_list sw_word_def Let_def rc_words)
  have r1: "sw_round 1
      [2257048279, 1797746784, 2549999683, 1187215931, 357221580, 3729224465,
      2778300802, 445419783, 2153418821, 3783796244, 4212539585, 3129658529,
      903527945, 1477916724, 155699793, 9628403] =
      [2099796632, 350219823, 788214957, 1737169728, 2445696080, 3678651533,
      2021595379, 2028324831, 4191642503, 974406797, 2901162251, 652993651,
      1678211139, 1640216615, 3753117434, 2756647649]"
    by (simp add: sw_round_list sw_word_def Let_def rc_words)
  have r2: "sw_round 2
      [2099796632, 350219823, 788214957, 1737169728, 2445696080, 3678651533,
      2021595379, 2028324831, 4191642503, 974406797, 2901162251, 652993651,
      1678211139, 1640216615, 3753117434, 2756647649] =
      [2471914616, 817861440, 772543406, 2638300236, 4129398274, 2577217937,
      2092031732, 2608311231, 2456392934, 2229360020, 3132798937, 2822265896,
      2048396280, 3125111553, 1308628833, 2535387348]"
    by (simp add: sw_round_list sw_word_def Let_def rc_words)
  have r3: "sw_round 3
      [2471914616, 817861440, 772543406, 2638300236, 4129398274, 2577217937,
      2092031732, 2608311231, 2456392934, 2229360020, 3132798937, 2822265896,
      2048396280, 3125111553, 1308628833, 2535387348] =
      [1241222979, 1954700988, 3963632524, 2653674730, 3111821690, 1274091389,
      157340356, 3121681737, 2388045096, 1497060631, 355485565, 1910764476,
      3061736288, 2949594495, 1058515368, 2554384374]"
    by (simp add: sw_round_list sw_word_def Let_def rc_words)
  have r4: "sw_round 4
      [1241222979, 1954700988, 3963632524, 2653674730, 3111821690, 1274091389,
      157340356, 3121681737, 2388045096, 1497060631, 355485565, 1910764476,
      3061736288, 2949594495, 1058515368, 2554384374] =
      [2174646509, 415427213, 1701327365, 2955357312, 2401778611, 865834513,
      2531196700, 1354092874, 1005784979, 771801859, 476498333, 1062873302,
      3111060314, 698382395, 4179259395, 1454980884]"
    by (simp add: sw_round_list sw_word_def Let_def rc_words)
  have r5: "sw_round 5
      [2174646509, 415427213, 1701327365, 2955357312, 2401778611, 865834513,
      2531196700, 1354092874, 1005784979, 771801859, 476498333, 1062873302,
      3111060314, 698382395, 4179259395, 1454980884] =
      [584648291, 1504775589, 3606757099, 639519021, 2531597395, 1542548993,
      1848299781, 2766685285, 2793429242, 2643584804, 467927209, 3957928873,
      2778536417, 211614037, 1924264033, 1633512983]"
    by (simp add: sw_round_list sw_word_def Let_def rc_words)
  have r6: "sw_round 6
      [584648291, 1504775589, 3606757099, 639519021, 2531597395, 1542548993,
      1848299781, 2766685285, 2793429242, 2643584804, 467927209, 3957928873,
      2778536417, 211614037, 1924264033, 1633512983] =
      [1769595306, 3972740504, 2423382800, 668092671, 4208078572, 3523971564,
      1719470957, 2601552317, 3791313245, 1555906355, 928009366, 3640399526,
      145844406, 3176242338, 4290321681, 3564750694]"
    by (simp add: sw_round_list sw_word_def Let_def rc_words)
  have r7: "sw_round 7
      [1769595306, 3972740504, 2423382800, 668092671, 4208078572, 3523971564,
      1719470957, 2601552317, 3791313245, 1555906355, 928009366, 3640399526,
      145844406, 3176242338, 4290321681, 3564750694] =
      [3757574212, 2177959296, 3335834095, 3766364389, 2824687035, 4040452306,
      3728794303, 3201349250, 2458403856, 2838557574, 1257901881, 1780545063,
      1757288431, 2843406739, 693751446, 3112076443]"
    by (simp add: sw_round_list sw_word_def Let_def rc_words)
  have f: "map (\<lambda>i.
      [3757574212, 2177959296, 3335834095, 3766364389, 2824687035, 4040452306,
      3728794303, 3201349250, 2458403856, 2838557574, 1257901881, 1780545063,
      1757288431, 2843406739, 693751446, 3112076443] ! i XOR
      load_u32
      [90, 198, 171, 229, 228, 207, 6, 218, 105, 168, 221, 146, 6, 135, 104, 11,
      144, 87, 124, 62, 91, 148, 46, 196, 74, 153, 245, 159, 19, 146, 15, 93,
      126, 13, 95, 74, 237, 9, 100, 250, 176, 227, 135, 204, 30, 51, 111, 48,
      24, 64, 31, 114, 120, 172, 129, 58, 171, 188, 65, 251, 171, 217, 131, 31] i) [0..<16] =
      [978570782, 1540868708, 1409900934, 3944132579, 2518751787, 888863881,
      1102412789, 3823051921, 3637987694, 1398078059, 2256399497, 1515177273,
      446781431, 2482724331, 3524817469, 2801622320]"
    by (simp add: load_u32_def upt16)
  have c: "concat (map (\<lambda>i. store_u32
      ([978570782, 1540868708, 1409900934, 3944132579, 2518751787, 888863881,
      1102412789, 3823051921, 3637987694, 1398078059, 2256399497, 1515177273,
      446781431, 2482724331, 3524817469, 2801622320] ! i XOR
       [978570782, 1540868708, 1409900934, 3944132579, 2518751787, 888863881,
       1102412789, 3823051921, 3637987694, 1398078059, 2256399497, 1515177273,
       446781431, 2482724331, 3524817469, 2801622320] ! (i + 8))) [0..<8]) =
      [112, 135, 132, 226, 15, 48, 131, 8, 15, 141, 116, 210, 218, 106, 89, 177,
      220, 77, 128, 140, 98, 161, 1, 167, 200, 9, 173, 147, 161, 121, 34, 69]"
    by (simp add: store_u32_def upt8 le_of_word_numeral)
  show ?thesis
    by (simp only: haraka512_software_def Let_def w fold_rounds r0 r1 r2 r3 r4 r5 r6 r7 f c)
qed

lemma sw_eval_msg56_first:
  "haraka512_software
     [90, 198, 171, 229, 228, 207, 6, 218, 105, 168, 221, 146, 6, 135, 104, 11,
     144, 87, 124, 62, 91, 148, 46, 196, 74, 153, 245, 159, 19, 146, 15, 93,
     126, 13, 95, 74, 237, 9, 100, 250, 176, 227, 135, 204, 30, 51, 111, 48,
     24, 64, 31, 114, 120, 172, 129, 58, 235, 189, 65, 251, 171, 217, 131, 31] =
     [112, 135, 132, 226, 15, 48, 131, 8, 63, 12, 167, 208, 218, 106, 89, 177,
     220, 77, 128, 140, 98, 161, 1, 167, 136, 8, 173, 147, 161, 121, 34, 69]"
proof -
  have w: "map (\<lambda>i. load_u32
      [90, 198, 171, 229, 228, 207, 6, 218, 105, 168, 221, 146, 6, 135, 104, 11,
      144, 87, 124, 62, 91, 148, 46, 196, 74, 153, 245, 159, 19, 146, 15, 93,
      126, 13, 95, 74, 237, 9, 100, 250, 176, 227, 135, 204, 30, 51, 111, 48,
      24, 64, 31, 114, 120, 172, 129, 58, 235, 189, 65, 251, 171, 217, 131, 31] i) [0..<16] =
      [3853239898, 3657879524, 2464000105, 191399686, 1048336272, 3291386971,
      2683672906, 1561301523, 1247743358, 4200860141, 3431457712, 812593950,
      1914650648, 981576824, 4215389675, 528734635]"
    by (simp add: load_u32_def upt16)
  have r0: "sw_round 0
      [3853239898, 3657879524, 2464000105, 191399686, 1048336272, 3291386971,
      2683672906, 1561301523, 1247743358, 4200860141, 3431457712, 812593950,
      1914650648, 981576824, 4215389675, 528734635] =
      [2257048279, 1797746784, 2549999683, 1187215931, 357221580, 3729224465,
      2778300802, 445419783, 2153418821, 3783796244, 4212539585, 3129658529,
      903527945, 1477916724, 164612517, 9628403]"
    by (simp add: sw_round_list sw_word_def Let_def rc_words)
  have r1: "sw_round 1
      [2257048279, 1797746784, 2549999683, 1187215931, 357221580, 3729224465,
      2778300802, 445419783, 2153418821, 3783796244, 4212539585, 3129658529,
      903527945, 1477916724, 164612517, 9628403] =
      [2099796632, 350219823, 788214957, 1737169728, 2445696080, 3678651533,
      2021595379, 2028324831, 4191642503, 974406797, 2901162251, 652993651,
      1678211139, 2697442697, 3753117434, 2756647649]"
    by (simp add: sw_round_list sw_word_def Let_def rc_words)
  have r2: "sw_round 2
      [2099796632, 350219823, 788214957, 1737169728, 2445696080, 3678651533,
      2021595379, 2028324831, 4191642503, 974406797, 2901162251, 652993651,
      1678211139, 2697442697, 3753117434, 2756647649] =
      [2471914616, 817861440, 772543406, 2638300236, 4129398274, 2577217937,
      2092031732, 2608311231, 2456392934, 2229360020, 3132798937, 2822265896,
      2048396280, 339392047, 1308628833, 2535387348]"
    by (simp add: sw_round_list sw_word_def Let_def rc_words)
  have r3: "sw_round 3
      [2471914616, 817861440, 772543406, 2638300236, 4129398274, 2577217937,
      2092031732, 2608311231, 2456392934, 2229360020, 3132798937, 2822265896,
      2048396280, 339392047, 1308628833, 2535387348] =
      [1241222979, 1954700988, 3963632524, 2653674730, 3111821690, 1274091389,
      157340356, 3121681737, 2388045096, 1497060631, 355485565, 1910764476,
      3861381468, 2949594495, 1058515368, 2554384374]"
    by (simp add: sw_round_list sw_word_def Let_def rc_words)
  have r4: "sw_round 4
      [1241222979, 1954700988, 3963632524, 2653674730, 3111821690, 1274091389,
      157340356, 3121681737, 2388045096, 1497060631, 355485565, 1910764476,
      3861381468, 2949594495, 1058515368, 2554384374] =
      [2174646509, 415427213, 1701327365, 2955357312, 2401778611, 865834513,
      2531196700, 1354092874, 1005784979, 771801859, 476498333, 1062873302,
      2709039436, 698382395, 4179259395, 1454980884]"
    by (simp add: sw_round_list sw_word_def Let_def rc_words)
  have r5: "sw_round 5
      [2174646509, 415427213, 1701327365, 2955357312, 2401778611, 865834513,
      2531196700, 1354092874, 1005784979, 771801859, 476498333, 1062873302,
      2709039436, 698382395, 4179259395, 1454980884] =
      [584648291, 1504775589, 3606757099, 639519021, 2531597395, 1542548993,
      1848299781, 2766685285, 2793429242, 2643584804, 467927209, 2743738879,
      2778536417, 211614037, 1924264033, 1633512983]"
    by (simp add: sw_round_list sw_word_def Let_def rc_words)
  have r6: "sw_round 6
      [584648291, 1504775589, 3606757099, 639519021, 2531597395, 1542548993,
      1848299781, 2766685285, 2793429242, 2643584804, 467927209, 2743738879,
      2778536417, 211614037, 1924264033, 1633512983] =
      [1769595306, 3972740504, 2423382800, 668092671, 4208078572, 3523971564,
      1719470957, 2601552317, 3791313245, 1555906355, 928009366, 460870880,
      145844406, 3176242338, 4290321681, 3564750694]"
    by (simp add: sw_round_list sw_word_def Let_def rc_words)
  have r7: "sw_round 7
      [1769595306, 3972740504, 2423382800, 668092671, 4208078572, 3523971564,
      1719470957, 2601552317, 3791313245, 1555906355, 928009366, 460870880,
      145844406, 3176242338, 4290321681, 3564750694] =
      [3757574212, 2177959296, 3335834095, 3766364389, 2824687035, 4040452306,
      3728794303, 3201349250, 2458403856, 2838557574, 1210682889, 1780545063,
      1757288431, 2843406739, 693751446, 3112076443]"
    by (simp add: sw_round_list sw_word_def Let_def rc_words)
  have f: "map (\<lambda>i.
      [3757574212, 2177959296, 3335834095, 3766364389, 2824687035, 4040452306,
      3728794303, 3201349250, 2458403856, 2838557574, 1210682889, 1780545063,
      1757288431, 2843406739, 693751446, 3112076443] ! i XOR
      load_u32
      [90, 198, 171, 229, 228, 207, 6, 218, 105, 168, 221, 146, 6, 135, 104, 11,
      144, 87, 124, 62, 91, 148, 46, 196, 74, 153, 245, 159, 19, 146, 15, 93,
      126, 13, 95, 74, 237, 9, 100, 250, 176, 227, 135, 204, 30, 51, 111, 48,
      24, 64, 31, 114, 120, 172, 129, 58, 235, 189, 65, 251, 171, 217, 131, 31] i) [0..<16] =
      [978570782, 1540868708, 1409900934, 3944132579, 2518751787, 888863881,
      1102412789, 3823051921, 3637987694, 1398078059, 2226023865, 1515177273,
      446781431, 2482724331, 3524817789, 2801622320]"
    by (simp add: load_u32_def upt16)
  have c: "concat (map (\<lambda>i. store_u32
      ([978570782, 1540868708, 1409900934, 3944132579, 2518751787, 888863881,
      1102412789, 3823051921, 3637987694, 1398078059, 2226023865, 1515177273,
      446781431, 2482724331, 3524817789, 2801622320] ! i XOR
       [978570782, 1540868708, 1409900934, 3944132579, 2518751787, 888863881,
       1102412789, 3823051921, 3637987694, 1398078059, 2226023865, 1515177273,
       446781431, 2482724331, 3524817789, 2801622320] ! (i + 8))) [0..<8]) =
      [112, 135, 132, 226, 15, 48, 131, 8, 63, 12, 167, 208, 218, 106, 89, 177,
      220, 77, 128, 140, 98, 161, 1, 167, 136, 8, 173, 147, 161, 121, 34, 69]"
    by (simp add: store_u32_def upt8 le_of_word_numeral)
  show ?thesis
    by (simp only: haraka512_software_def Let_def w fold_rounds r0 r1 r2 r3 r4 r5 r6 r7 f c)
qed

lemma sw_eval_msg56_final:
  "haraka512_software
     [112, 135, 132, 226, 15, 48, 131, 8, 63, 12, 167, 208, 218, 106, 89, 177,
     220, 77, 128, 140, 98, 161, 1, 167, 136, 8, 173, 147, 161, 121, 34, 69,
     126, 13, 95, 74, 237, 9, 100, 250, 176, 227, 135, 204, 30, 51, 111, 48,
     24, 64, 31, 114, 120, 172, 129, 58, 43, 188, 65, 251, 171, 217, 131, 31] =
     [110, 174, 84, 172, 102, 178, 48, 119, 243, 7, 207, 118, 225, 63, 234, 214,
     19, 202, 201, 54, 9, 170, 227, 27, 143, 58, 153, 144, 148, 11, 14, 40]"
proof -
  have w: "map (\<lambda>i. load_u32
      [112, 135, 132, 226, 15, 48, 131, 8, 63, 12, 167, 208, 218, 106, 89, 177,
      220, 77, 128, 140, 98, 161, 1, 167, 136, 8, 173, 147, 161, 121, 34, 69,
      126, 13, 95, 74, 237, 9, 100, 250, 176, 227, 135, 204, 30, 51, 111, 48,
      24, 64, 31, 114, 120, 172, 129, 58, 43, 188, 65, 251, 171, 217, 131, 31] i) [0..<16] =
      [3800336240, 142815247, 3500608575, 2975427290, 2357218780, 2801901922,
      2477590664, 1159887265, 1247743358, 4200860141, 3431457712, 812593950,
      1914650648, 981576824, 4215389227, 528734635]"
    by (simp add: load_u32_def upt16)
  have r0: "sw_round 0
      [3800336240, 142815247, 3500608575, 2975427290, 2357218780, 2801901922,
      2477590664, 1159887265, 1247743358, 4200860141, 3431457712, 812593950,
      1914650648, 981576824, 4215389227, 528734635] =
      [4134215821, 1200390501, 2003422500, 2424349052, 3821459845, 1734952857,
      2614437963, 3918313217, 2153418821, 3783796244, 4212539585, 3129658529,
      903527945, 1477916724, 158845385, 9628403]"
    by (simp add: sw_round_list sw_word_def Let_def rc_words)
  have r1: "sw_round 1
      [4134215821, 1200390501, 2003422500, 2424349052, 3821459845, 1734952857,
      2614437963, 3918313217, 2153418821, 3783796244, 4212539585, 3129658529,
      903527945, 1477916724, 158845385, 9628403] =
      [82402635, 475939608, 723460039, 2192716858, 2006767678, 1867999495,
      23894137, 2028324831, 4191642503, 974406797, 2901162251, 652993651,
      1678211139, 3763320168, 3753117434, 2479576565]"
    by (simp add: sw_round_list sw_word_def Let_def rc_words)
  have r2: "sw_round 2
      [82402635, 475939608, 723460039, 2192716858, 2006767678, 1867999495,
      23894137, 2028324831, 4191642503, 974406797, 2901162251, 652993651,
      1678211139, 3763320168, 3753117434, 2479576565] =
      [3894126830, 3052651924, 1659501888, 2215163138, 3769047860, 1031655771,
      2858194445, 2608311231, 2456392934, 2229360020, 3132798937, 2822265896,
      2048396280, 1070509461, 1308628833, 3517677097]"
    by (simp add: sw_round_list sw_word_def Let_def rc_words)
  have r3: "sw_round 3
      [3894126830, 3052651924, 1659501888, 2215163138, 3769047860, 1031655771,
      2858194445, 2608311231, 2456392934, 2229360020, 3132798937, 2822265896,
      2048396280, 1070509461, 1308628833, 3517677097] =
      [2790477969, 3540237862, 4000242531, 955957620, 3651764452, 89187248,
      157340356, 3121681737, 2388045096, 1497060631, 355485565, 1910764476,
      3972467415, 2949594495, 1666711070, 1583430118]"
    by (simp add: sw_round_list sw_word_def Let_def rc_words)
  have r4: "sw_round 4
      [2790477969, 3540237862, 4000242531, 955957620, 3651764452, 89187248,
      157340356, 3121681737, 2388045096, 1497060631, 355485565, 1910764476,
      3972467415, 2949594495, 1666711070, 1583430118] =
      [886898931, 1482903852, 2475301528, 1374135437, 3708234175, 1713928974,
      2531196700, 1354092874, 1005784979, 771801859, 476498333, 1062873302,
      1860414517, 698382395, 3787530470, 1195422071]"
    by (simp add: sw_round_list sw_word_def Let_def rc_words)
  have r5: "sw_round 5
      [886898931, 1482903852, 2475301528, 1374135437, 3708234175, 1713928974,
      2531196700, 1354092874, 1005784979, 771801859, 476498333, 1062873302,
      1860414517, 698382395, 3787530470, 1195422071] =
      [2698370570, 2179088110, 2956233366, 3387459771, 2955448052, 1542548993,
      1848299781, 2766685285, 2793429242, 2643584804, 467927209, 339396367,
      2778536417, 2546287320, 1150931995, 3731335809]"
    by (simp add: sw_round_list sw_word_def Let_def rc_words)
  have r6: "sw_round 6
      [2698370570, 2179088110, 2956233366, 3387459771, 2955448052, 1542548993,
      1848299781, 2766685285, 2793429242, 2643584804, 467927209, 339396367,
      2778536417, 2546287320, 1150931995, 3731335809] =
      [344786450, 1926605012, 1013099148, 776096901, 641204926, 3523971564,
      1719470957, 2601552317, 3791313245, 1555906355, 928009366, 3961827953,
      145844406, 353033076, 2087790637, 2861098953]"
    by (simp add: sw_round_list sw_word_def Let_def rc_words)
  have r7: "sw_round 7
      [344786450, 1926605012, 1013099148, 776096901, 641204926, 3523971564,
      1719470957, 2601552317, 3791313245, 1555906355, 928009366, 3961827953,
      145844406, 353033076, 2087790637, 2861098953] =
      [2517065840, 753367042, 561645872, 1039962114, 2824687035, 4040452306,
      3728794303, 3201349250, 2458403856, 2838557574, 1268113740, 1780545063,
      1611369068, 1991757761, 641035411, 3430882588]"
    by (simp add: sw_round_list sw_word_def Let_def rc_words)
  have f: "map (\<lambda>i.
      [2517065840, 753367042, 561645872, 1039962114, 2824687035, 4040452306,
      3728794303, 3201349250, 2458403856, 2838557574, 1268113740, 1780545063,
      1611369068, 1991757761, 641035411, 3430882588] ! i XOR
      load_u32
      [112, 135, 132, 226, 15, 48, 131, 8, 63, 12, 167, 208, 218, 106, 89, 177,
      220, 77, 128, 140, 98, 161, 1, 167, 136, 8, 173, 147, 161, 121, 34, 69,
      126, 13, 95, 74, 237, 9, 100, 250, 176, 227, 135, 204, 30, 51, 111, 48,
      24, 64, 31, 114, 120, 172, 129, 58, 43, 188, 65, 251, 171, 217, 131, 31] i) [0..<16] =
      [1954801408, 610551821, 4057793807, 2359687896, 618463335, 1473628592,
      1307437623, 4226993955, 3637987694, 1398078059, 2266104572, 1515177273,
      303352436, 1278632889, 3715420344, 3556558007]"
    by (simp add: load_u32_def upt16)
  have c: "concat (map (\<lambda>i. store_u32
      ([1954801408, 610551821, 4057793807, 2359687896, 618463335, 1473628592,
      1307437623, 4226993955, 3637987694, 1398078059, 2266104572, 1515177273,
      303352436, 1278632889, 3715420344, 3556558007] ! i XOR
       [1954801408, 610551821, 4057793807, 2359687896, 618463335, 1473628592,
       1307437623, 4226993955, 3637987694, 1398078059, 2266104572, 1515177273,
       303352436, 1278632889, 3715420344, 3556558007] ! (i + 8))) [0..<8]) =
      [110, 174, 84, 172, 102, 178, 48, 119, 243, 7, 207, 118, 225, 63, 234, 214,
      19, 202, 201, 54, 9, 170, 227, 27, 143, 58, 153, 144, 148, 11, 14, 40]"
    by (simp add: store_u32_def upt8 le_of_word_numeral)
  show ?thesis
    by (simp only: haraka512_software_def Let_def w fold_rounds r0 r1 r2 r3 r4 r5 r6 r7 f c)
qed

lemma hw_eval_msg56_single:
  "haraka512_aes_ni
     [90, 198, 171, 229, 228, 207, 6, 218, 105, 168, 221, 146, 6, 135, 104, 11,
     144, 87, 124, 62, 91, 148, 46, 196, 74, 153, 245, 159, 19, 146, 15, 93,
     126, 13, 95, 74, 237, 9, 100, 250, 176, 227, 135, 204, 30, 51, 111, 48,
     24, 64, 31, 114, 120, 172, 129, 58, 171, 188, 65, 251, 171, 217, 131, 31] =
     [29, 69, 203, 126, 128, 38, 185, 86, 242, 251, 201, 28, 66, 18, 71, 11,
     172, 167, 77, 146, 122, 242, 141, 102, 246, 161, 9, 90, 240, 190, 206, 9]"
proof -
  have i: "HashState (load_si128 X 0) (load_si128 X 16) (load_si128 X 32) (load_si128 X 48) =
      HashState
        (load_si128 [90, 198, 171, 229, 228, 207, 6, 218, 105, 168, 221, 146, 6, 135, 104, 11] 0)
        (load_si128 [144, 87, 124, 62, 91, 148, 46, 196, 74, 153, 245, 159, 19, 146, 15, 93] 0)
        (load_si128 [126, 13, 95, 74, 237, 9, 100, 250, 176, 227, 135, 204, 30, 51, 111, 48] 0)
        (load_si128 [24, 64, 31, 114, 120, 172, 129, 58, 171, 188, 65, 251, 171, 217, 131, 31] 0)"
    if "X = [90, 198, 171, 229, 228, 207, 6, 218, 105, 168, 221, 146, 6, 135, 104, 11,
         144, 87, 124, 62, 91, 148, 46, 196, 74, 153, 245, 159, 19, 146, 15, 93,
         126, 13, 95, 74, 237, 9, 100, 250, 176, 227, 135, 204, 30, 51, 111, 48,
         24, 64, 31, 114, 120, 172, 129, 58, 171, 188, 65, 251, 171, 217, 131, 31]" for X
    unfolding that by (simp add: load_si128_def)
  have e00: "aesenc_bytes
      [90, 198, 171, 229, 228, 207, 6, 218, 105, 168, 221, 146, 6, 135, 104, 11]
      [120, 126, 112, 182, 7, 27, 127, 65, 105, 94, 52, 45, 140, 174, 5, 14] =
      [112, 188, 160, 114, 20, 251, 46, 212, 140, 120, 231, 230, 181, 76, 209, 250]"
    by (simp add: aesenc_bytes_def MixColumns_def mix_column_def SubBytes_def ShiftRows_def
        aes_sbox_def xtime_def upt16 upt4)
  have e01: "aesenc_bytes
      [144, 87, 124, 62, 91, 148, 46, 196, 74, 153, 245, 159, 19, 146, 15, 93]
      [180, 58, 169, 120, 133, 139, 124, 253, 168, 164, 18, 92, 243, 226, 247, 198] =
      [184, 99, 232, 132, 26, 93, 138, 81, 194, 192, 143, 90, 14, 161, 197, 134]"
    by (simp add: aesenc_bytes_def MixColumns_def mix_column_def SubBytes_def ShiftRows_def
        aes_sbox_def xtime_def upt16 upt4)
  have e02: "aesenc_bytes
      [126, 13, 95, 74, 237, 9, 100, 250, 176, 227, 135, 204, 30, 51, 111, 48]
      [209, 195, 167, 225, 178, 221, 79, 146, 94, 79, 154, 76, 173, 135, 95, 140] =
      [60, 15, 119, 241, 85, 159, 33, 99, 55, 82, 76, 40, 35, 206, 161, 24]"
    by (simp add: aesenc_bytes_def MixColumns_def mix_column_def SubBytes_def ShiftRows_def
        aes_sbox_def xtime_def upt16 upt4)
  have e03: "aesenc_bytes
      [24, 64, 31, 114, 120, 172, 129, 58, 171, 188, 65, 251, 171, 217, 131, 31]
      [190, 201, 168, 35, 65, 166, 242, 133, 142, 194, 148, 122, 91, 143, 59, 244] =
      [20, 3, 210, 70, 33, 191, 40, 83, 85, 17, 195, 50, 135, 228, 89, 73]"
    by (simp add: aesenc_bytes_def MixColumns_def mix_column_def SubBytes_def ShiftRows_def
        aes_sbox_def xtime_def upt16 upt4)
  have r0: "aes_round 0
      (HashState
        (load_si128 [90, 198, 171, 229, 228, 207, 6, 218, 105, 168, 221, 146, 6, 135, 104, 11] 0)
        (load_si128 [144, 87, 124, 62, 91, 148, 46, 196, 74, 153, 245, 159, 19, 146, 15, 93] 0)
        (load_si128 [126, 13, 95, 74, 237, 9, 100, 250, 176, 227, 135, 204, 30, 51, 111, 48] 0)
        (load_si128 [24, 64, 31, 114, 120, 172, 129, 58, 171, 188, 65, 251, 171, 217, 131, 31] 0)) =
      HashState
        (load_si128 [112, 188, 160, 114, 20, 251, 46, 212, 140, 120, 231, 230, 181, 76, 209, 250] 0)
        (load_si128 [184, 99, 232, 132, 26, 93, 138, 81, 194, 192, 143, 90, 14, 161, 197, 134] 0)
        (load_si128 [60, 15, 119, 241, 85, 159, 33, 99, 55, 82, 76, 40, 35, 206, 161, 24] 0)
        (load_si128 [20, 3, 210, 70, 33, 191, 40, 83, 85, 17, 195, 50, 135, 228, 89, 73] 0)"
    by (simp add: aes_round_bytes rc_lanes e00 e01 e02 e03 del: aes_round.simps)
  have e10: "aesenc_bytes
      [112, 188, 160, 114, 20, 251, 46, 212, 140, 120, 231, 230, 181, 76, 209, 250]
      [180, 58, 169, 120, 133, 139, 124, 253, 168, 164, 18, 92, 243, 226, 247, 198] =
      [190, 255, 179, 74, 203, 16, 134, 234, 179, 225, 92, 169, 82, 32, 172, 241]"
    by (simp add: aesenc_bytes_def MixColumns_def mix_column_def SubBytes_def ShiftRows_def
        aes_sbox_def xtime_def upt16 upt4)
  have e11: "aesenc_bytes
      [184, 99, 232, 132, 26, 93, 138, 81, 194, 192, 143, 90, 14, 161, 197, 134]
      [209, 195, 167, 225, 178, 221, 79, 146, 94, 79, 154, 76, 173, 135, 95, 140] =
      [234, 230, 173, 226, 193, 190, 225, 205, 8, 105, 200, 51, 54, 253, 42, 136]"
    by (simp add: aesenc_bytes_def MixColumns_def mix_column_def SubBytes_def ShiftRows_def
        aes_sbox_def xtime_def upt16 upt4)
  have e12: "aesenc_bytes
      [60, 15, 119, 241, 85, 159, 33, 99, 55, 82, 76, 40, 35, 206, 161, 24]
      [190, 201, 168, 35, 65, 166, 242, 133, 142, 194, 148, 122, 91, 143, 59, 244] =
      [129, 89, 38, 182, 49, 173, 146, 241, 41, 170, 98, 92, 68, 109, 214, 125]"
    by (simp add: aesenc_bytes_def MixColumns_def mix_column_def SubBytes_def ShiftRows_def
        aes_sbox_def xtime_def upt16 upt4)
  have e13: "aesenc_bytes
      [20, 3, 210, 70, 33, 191, 40, 83, 85, 17, 195, 50, 135, 228, 89, 73]
      [86, 217, 200, 65, 43, 110, 60, 248, 241, 232, 125, 154, 212, 178, 24, 92] =
      [180, 122, 43, 4, 198, 144, 32, 25, 241, 239, 181, 152, 96, 44, 121, 108]"
    by (simp add: aesenc_bytes_def MixColumns_def mix_column_def SubBytes_def ShiftRows_def
        aes_sbox_def xtime_def upt16 upt4)
  have r1: "aes_round 1
      (HashState
        (load_si128 [112, 188, 160, 114, 20, 251, 46, 212, 140, 120, 231, 230, 181, 76, 209, 250] 0)
        (load_si128 [184, 99, 232, 132, 26, 93, 138, 81, 194, 192, 143, 90, 14, 161, 197, 134] 0)
        (load_si128 [60, 15, 119, 241, 85, 159, 33, 99, 55, 82, 76, 40, 35, 206, 161, 24] 0)
        (load_si128 [20, 3, 210, 70, 33, 191, 40, 83, 85, 17, 195, 50, 135, 228, 89, 73] 0)) =
      HashState
        (load_si128 [234, 230, 173, 226, 193, 190, 225, 205, 8, 105, 200, 51, 54, 253, 42, 136] 0)
        (load_si128 [129, 89, 38, 182, 49, 173, 146, 241, 41, 170, 98, 92, 68, 109, 214, 125] 0)
        (load_si128 [180, 122, 43, 4, 198, 144, 32, 25, 241, 239, 181, 152, 96, 44, 121, 108] 0)
        (load_si128 [190, 255, 179, 74, 203, 16, 134, 234, 179, 225, 92, 169, 82, 32, 172, 241] 0)"
    by (simp add: aes_round_bytes rc_lanes e10 e11 e12 e13 del: aes_round.simps)
  have e20: "aesenc_bytes
      [234, 230, 173, 226, 193, 190, 225, 205, 8, 105, 200, 51, 54, 253, 42, 136]
      [209, 195, 167, 225, 178, 221, 79, 146, 94, 79, 154, 76, 173, 135, 95, 140] =
      [1, 228, 18, 166, 47, 224, 172, 45, 234, 206, 19, 188, 21, 85, 97, 104]"
    by (simp add: aesenc_bytes_def MixColumns_def mix_column_def SubBytes_def ShiftRows_def
        aes_sbox_def xtime_def upt16 upt4)
  have e21: "aesenc_bytes
      [129, 89, 38, 182, 49, 173, 146, 241, 41, 170, 98, 92, 68, 109, 214, 125]
      [190, 201, 168, 35, 65, 166, 242, 133, 142, 194, 148, 122, 91, 143, 59, 244] =
      [87, 238, 100, 237, 131, 109, 188, 17, 205, 188, 0, 28, 46, 130, 171, 201]"
    by (simp add: aesenc_bytes_def MixColumns_def mix_column_def SubBytes_def ShiftRows_def
        aes_sbox_def xtime_def upt16 upt4)
  have e22: "aesenc_bytes
      [180, 122, 43, 4, 198, 144, 32, 25, 241, 239, 181, 152, 96, 44, 121, 108]
      [86, 217, 200, 65, 43, 110, 60, 248, 241, 232, 125, 154, 212, 178, 24, 92] =
      [114, 160, 100, 216, 102, 76, 45, 169, 30, 119, 51, 81, 235, 73, 173, 214]"
    by (simp add: aesenc_bytes_def MixColumns_def mix_column_def SubBytes_def ShiftRows_def
        aes_sbox_def xtime_def upt16 upt4)
  have e23: "aesenc_bytes
      [190, 255, 179, 74, 203, 16, 134, 234, 179, 225, 92, 169, 82, 32, 172, 241]
      [194, 164, 225, 115, 41, 214, 248, 181, 95, 124, 74, 142, 172, 179, 157, 47] =
      [43, 250, 233, 67, 67, 92, 71, 74, 173, 84, 216, 246, 1, 128, 109, 192]"
    by (simp add: aesenc_bytes_def MixColumns_def mix_column_def SubBytes_def ShiftRows_def
        aes_sbox_def xtime_def upt16 upt4)
  have r2: "aes_round 2
      (HashState
        (load_si128 [234, 230, 173, 226, 193, 190, 225, 205, 8, 105, 200, 51, 54, 253, 42, 136] 0)
        (load_si128 [129, 89, 38, 182, 49, 173, 146, 241, 41, 170, 98, 92, 68, 109, 214, 125] 0)
        (load_si128 [180, 122, 43, 4, 198, 144, 32, 25, 241, 239, 181, 152, 96, 44, 121, 108] 0)
        (load_si128 [190, 255, 179, 74, 203, 16, 134, 234, 179, 225, 92, 169, 82, 32, 172, 241] 0)) =
      HashState
        (load_si128 [1, 228, 18, 166, 47, 224, 172, 45, 234, 206, 19, 188, 21, 85, 97, 104] 0)
        (load_si128 [87, 238, 100, 237, 131, 109, 188, 17, 205, 188, 0, 28, 46, 130, 171, 201] 0)
        (load_si128 [114, 160, 100, 216, 102, 76, 45, 169, 30, 119, 51, 81, 235, 73, 173, 214] 0)
        (load_si128 [43, 250, 233, 67, 67, 92, 71, 74, 173, 84, 216, 246, 1, 128, 109, 192] 0)"
    by (simp add: aes_round_bytes rc_lanes e20 e21 e22 e23 del: aes_round.simps)
  have e30: "aesenc_bytes
      [1, 228, 18, 166, 47, 224, 172, 45, 234, 206, 19, 188, 21, 85, 97, 104]
      [190, 201, 168, 35, 65, 166, 242, 133, 142, 194, 148, 122, 91, 143, 59, 244] =
      [70, 174, 0, 177, 38, 176, 197, 150, 149, 62, 21, 118, 166, 201, 157, 45]"
    by (simp add: aesenc_bytes_def MixColumns_def mix_column_def SubBytes_def ShiftRows_def
        aes_sbox_def xtime_def upt16 upt4)
  have e31: "aesenc_bytes
      [87, 238, 100, 237, 131, 109, 188, 17, 205, 188, 0, 28, 46, 130, 171, 201]
      [86, 217, 200, 65, 43, 110, 60, 248, 241, 232, 125, 154, 212, 178, 24, 92] =
      [26, 130, 21, 82, 112, 187, 142, 122, 100, 52, 200, 9, 55, 224, 116, 97]"
    by (simp add: aesenc_bytes_def MixColumns_def mix_column_def SubBytes_def ShiftRows_def
        aes_sbox_def xtime_def upt16 upt4)
  have e32: "aesenc_bytes
      [114, 160, 100, 216, 102, 76, 45, 169, 30, 119, 51, 81, 235, 73, 173, 214]
      [194, 164, 225, 115, 41, 214, 248, 181, 95, 124, 74, 142, 172, 179, 157, 47] =
      [12, 30, 20, 174, 191, 209, 172, 66, 102, 110, 235, 221, 87, 35, 87, 142]"
    by (simp add: aesenc_bytes_def MixColumns_def mix_column_def SubBytes_def ShiftRows_def
        aes_sbox_def xtime_def upt16 upt4)
  have e33: "aesenc_bytes
      [43, 250, 233, 67, 67, 92, 71, 74, 173, 84, 216, 246, 1, 128, 109, 192]
      [199, 225, 185, 165, 38, 77, 140, 31, 59, 90, 209, 231, 148, 143, 44, 107] =
      [59, 157, 21, 233, 84, 73, 224, 25, 142, 186, 212, 39, 249, 16, 224, 230]"
    by (simp add: aesenc_bytes_def MixColumns_def mix_column_def SubBytes_def ShiftRows_def
        aes_sbox_def xtime_def upt16 upt4)
  have r3: "aes_round 3
      (HashState
        (load_si128 [1, 228, 18, 166, 47, 224, 172, 45, 234, 206, 19, 188, 21, 85, 97, 104] 0)
        (load_si128 [87, 238, 100, 237, 131, 109, 188, 17, 205, 188, 0, 28, 46, 130, 171, 201] 0)
        (load_si128 [114, 160, 100, 216, 102, 76, 45, 169, 30, 119, 51, 81, 235, 73, 173, 214] 0)
        (load_si128 [43, 250, 233, 67, 67, 92, 71, 74, 173, 84, 216, 246, 1, 128, 109, 192] 0)) =
      HashState
        (load_si128 [26, 130, 21, 82, 112, 187, 142, 122, 100, 52, 200, 9, 55, 224, 116, 97] 0)
        (load_si128 [12, 30, 20, 174, 191, 209, 172, 66, 102, 110, 235, 221, 87, 35, 87, 142] 0)
        (load_si128 [59, 157, 21, 233, 84, 73, 224, 25, 142, 186, 212, 39, 249, 16, 224, 230] 0)
        (load_si128 [70, 174, 0, 177, 38, 176, 197, 150, 149, 62, 21, 118, 166, 201, 157, 45] 0)"
    by (simp add: aes_round_bytes rc_lanes e30 e31 e32 e33 del: aes_round.simps)
  have e40: "aesenc_bytes
      [26, 130, 21, 82, 112, 187, 142, 122, 100, 52, 200, 9, 55, 224, 116, 97]
      [86, 217, 200, 65, 43, 110, 60, 248, 241, 232, 125, 154, 212, 178, 24, 92] =
      [43, 120, 97, 123, 51, 162, 74, 129, 204, 67, 24, 72, 214, 36, 160, 225]"
    by (simp add: aesenc_bytes_def MixColumns_def mix_column_def SubBytes_def ShiftRows_def
        aes_sbox_def xtime_def upt16 upt4)
  have e41: "aesenc_bytes
      [12, 30, 20, 174, 191, 209, 172, 66, 102, 110, 235, 221, 87, 35, 87, 142]
      [194, 164, 225, 115, 41, 214, 248, 181, 95, 124, 74, 142, 172, 179, 157, 47] =
      [151, 31, 195, 143, 60, 242, 238, 186, 133, 58, 196, 95, 220, 101, 213, 184]"
    by (simp add: aesenc_bytes_def MixColumns_def mix_column_def SubBytes_def ShiftRows_def
        aes_sbox_def xtime_def upt16 upt4)
  have e42: "aesenc_bytes
      [59, 157, 21, 233, 84, 73, 224, 25, 142, 186, 212, 39, 249, 16, 224, 230]
      [199, 225, 185, 165, 38, 77, 140, 31, 59, 90, 209, 231, 148, 143, 44, 107] =
      [147, 35, 121, 236, 158, 184, 163, 86, 193, 243, 215, 236, 114, 94, 125, 231]"
    by (simp add: aesenc_bytes_def MixColumns_def mix_column_def SubBytes_def ShiftRows_def
        aes_sbox_def xtime_def upt16 upt4)
  have e43: "aesenc_bytes
      [70, 174, 0, 177, 38, 176, 197, 150, 149, 62, 21, 118, 166, 201, 157, 45]
      [108, 117, 29, 142, 165, 201, 180, 242, 232, 97, 122, 61, 132, 43, 95, 156] =
      [107, 201, 97, 117, 11, 107, 14, 151, 51, 223, 224, 198, 101, 21, 128, 194]"
    by (simp add: aesenc_bytes_def MixColumns_def mix_column_def SubBytes_def ShiftRows_def
        aes_sbox_def xtime_def upt16 upt4)
  have r4: "aes_round 4
      (HashState
        (load_si128 [26, 130, 21, 82, 112, 187, 142, 122, 100, 52, 200, 9, 55, 224, 116, 97] 0)
        (load_si128 [12, 30, 20, 174, 191, 209, 172, 66, 102, 110, 235, 221, 87, 35, 87, 142] 0)
        (load_si128 [59, 157, 21, 233, 84, 73, 224, 25, 142, 186, 212, 39, 249, 16, 224, 230] 0)
        (load_si128 [70, 174, 0, 177, 38, 176, 197, 150, 149, 62, 21, 118, 166, 201, 157, 45] 0)) =
      HashState
        (load_si128 [43, 120, 97, 123, 51, 162, 74, 129, 204, 67, 24, 72, 214, 36, 160, 225] 0)
        (load_si128 [151, 31, 195, 143, 60, 242, 238, 186, 133, 58, 196, 95, 220, 101, 213, 184] 0)
        (load_si128 [147, 35, 121, 236, 158, 184, 163, 86, 193, 243, 215, 236, 114, 94, 125, 231] 0)
        (load_si128 [107, 201, 97, 117, 11, 107, 14, 151, 51, 223, 224, 198, 101, 21, 128, 194] 0)"
    by (simp add: aes_round_bytes rc_lanes e40 e41 e42 e43 del: aes_round.simps)
  have e50: "aesenc_bytes
      [43, 120, 97, 123, 51, 162, 74, 129, 204, 67, 24, 72, 214, 36, 160, 225]
      [194, 164, 225, 115, 41, 214, 248, 181, 95, 124, 74, 142, 172, 179, 157, 47] =
      [32, 53, 120, 7, 91, 59, 153, 83, 112, 125, 230, 146, 0, 21, 150, 224]"
    by (simp add: aesenc_bytes_def MixColumns_def mix_column_def SubBytes_def ShiftRows_def
        aes_sbox_def xtime_def upt16 upt4)
  have e51: "aesenc_bytes
      [151, 31, 195, 143, 60, 242, 238, 186, 133, 58, 196, 95, 220, 101, 213, 184]
      [199, 225, 185, 165, 38, 77, 140, 31, 59, 90, 209, 231, 148, 143, 44, 107] =
      [60, 40, 52, 107, 0, 203, 116, 92, 3, 209, 80, 213, 63, 37, 112, 151]"
    by (simp add: aesenc_bytes_def MixColumns_def mix_column_def SubBytes_def ShiftRows_def
        aes_sbox_def xtime_def upt16 upt4)
  have e52: "aesenc_bytes
      [147, 35, 121, 236, 158, 184, 163, 86, 193, 243, 215, 236, 114, 94, 125, 231]
      [108, 117, 29, 142, 165, 201, 180, 242, 232, 97, 122, 61, 132, 43, 95, 156] =
      [225, 247, 22, 160, 149, 12, 30, 154, 247, 217, 229, 34, 170, 247, 100, 247]"
    by (simp add: aesenc_bytes_def MixColumns_def mix_column_def SubBytes_def ShiftRows_def
        aes_sbox_def xtime_def upt16 upt4)
  have e53: "aesenc_bytes
      [107, 201, 97, 117, 11, 107, 14, 151, 51, 223, 224, 198, 101, 21, 128, 194]
      [120, 126, 112, 182, 7, 27, 127, 65, 105, 94, 52, 45, 140, 174, 5, 14] =
      [195, 226, 198, 227, 184, 198, 247, 78, 120, 141, 232, 206, 117, 16, 31, 220]"
    by (simp add: aesenc_bytes_def MixColumns_def mix_column_def SubBytes_def ShiftRows_def
        aes_sbox_def xtime_def upt16 upt4)
  have r5: "aes_round 5
      (HashState
        (load_si128 [43, 120, 97, 123, 51, 162, 74, 129, 204, 67, 24, 72, 214, 36, 160, 225] 0)
        (load_si128 [151, 31, 195, 143, 60, 242, 238, 186, 133, 58, 196, 95, 220, 101, 213, 184] 0)
        (load_si128 [147, 35, 121, 236, 158, 184, 163, 86, 193, 243, 215, 236, 114, 94, 125, 231] 0)
        (load_si128 [107, 201, 97, 117, 11, 107, 14, 151, 51, 223, 224, 198, 101, 21, 128, 194] 0)) =
      HashState
        (load_si128 [60, 40, 52, 107, 0, 203, 116, 92, 3, 209, 80, 213, 63, 37, 112, 151] 0)
        (load_si128 [225, 247, 22, 160, 149, 12, 30, 154, 247, 217, 229, 34, 170, 247, 100, 247] 0)
        (load_si128 [195, 226, 198, 227, 184, 198, 247, 78, 120, 141, 232, 206, 117, 16, 31, 220] 0)
        (load_si128 [32, 53, 120, 7, 91, 59, 153, 83, 112, 125, 230, 146, 0, 21, 150, 224] 0)"
    by (simp add: aes_round_bytes rc_lanes e50 e51 e52 e53 del: aes_round.simps)
  have e60: "aesenc_bytes
      [60, 40, 52, 107, 0, 203, 116, 92, 3, 209, 80, 213, 63, 37, 112, 151]
      [199, 225, 185, 165, 38, 77, 140, 31, 59, 90, 209, 231, 148, 143, 44, 107] =
      [240, 73, 104, 196, 140, 222, 242, 43, 222, 61, 123, 217, 179, 60, 87, 84]"
    by (simp add: aesenc_bytes_def MixColumns_def mix_column_def SubBytes_def ShiftRows_def
        aes_sbox_def xtime_def upt16 upt4)
  have e61: "aesenc_bytes
      [225, 247, 22, 160, 149, 12, 30, 154, 247, 217, 229, 34, 170, 247, 100, 247]
      [108, 117, 29, 142, 165, 201, 180, 242, 232, 97, 122, 61, 132, 43, 95, 156] =
      [47, 114, 10, 106, 13, 172, 22, 33, 127, 168, 39, 193, 158, 82, 209, 84]"
    by (simp add: aesenc_bytes_def MixColumns_def mix_column_def SubBytes_def ShiftRows_def
        aes_sbox_def xtime_def upt16 upt4)
  have e62: "aesenc_bytes
      [195, 226, 198, 227, 184, 198, 247, 78, 120, 141, 232, 206, 117, 16, 31, 220]
      [120, 126, 112, 182, 7, 27, 127, 65, 105, 94, 52, 45, 140, 174, 5, 14] =
      [254, 19, 86, 252, 233, 135, 230, 74, 212, 133, 64, 210, 253, 43, 86, 79]"
    by (simp add: aesenc_bytes_def MixColumns_def mix_column_def SubBytes_def ShiftRows_def
        aes_sbox_def xtime_def upt16 upt4)
  have e63: "aesenc_bytes
      [32, 53, 120, 7, 91, 59, 153, 83, 112, 125, 230, 146, 0, 21, 150, 224]
      [180, 58, 169, 120, 133, 139, 124, 253, 168, 164, 18, 92, 243, 226, 247, 198] =
      [147, 58, 195, 15, 184, 57, 213, 72, 176, 117, 85, 139, 53, 208, 20, 133]"
    by (simp add: aesenc_bytes_def MixColumns_def mix_column_def SubBytes_def ShiftRows_def
        aes_sbox_def xtime_def upt16 upt4)
  have r6: "aes_round 6
      (HashState
        (load_si128 [60, 40, 52, 107, 0, 203, 116, 92, 3, 209, 80, 213, 63, 37, 112, 151] 0)
        (load_si128 [225, 247, 22, 160, 149, 12, 30, 154, 247, 217, 229, 34, 170, 247, 100, 247] 0)
        (load_si128 [195, 226, 198, 227, 184, 198, 247, 78, 120, 141, 232, 206, 117, 16, 31, 220] 0)
        (load_si128 [32, 53, 120, 7, 91, 59, 153, 83, 112, 125, 230, 146, 0, 21, 150, 224] 0)) =
      HashState
        (load_si128 [240, 73, 104, 196, 140, 222, 242, 43, 222, 61, 123, 217, 179, 60, 87, 84] 0)
        (load_si128 [47, 114, 10, 106, 13, 172, 22, 33, 127, 168, 39, 193, 158, 82, 209, 84] 0)
        (load_si128 [254, 19, 86, 252, 233, 135, 230, 74, 212, 133, 64, 210, 253, 43, 86, 79] 0)
        (load_si128 [147, 58, 195, 15, 184, 57, 213, 72, 176, 117, 85, 139, 53, 208, 20, 133] 0)"
    by (simp add: aes_round_bytes rc_lanes e60 e61 e62 e63 del: aes_round.simps)
  have e70: "aesenc_bytes
      [240, 73, 104, 196, 140, 222, 242, 43, 222, 61, 123, 217, 179, 60, 87, 84]
      [108, 117, 29, 142, 165, 201, 180, 242, 232, 97, 122, 61, 132, 43, 95, 156] =
      [73, 128, 174, 125, 67, 18, 101, 26, 64, 143, 14, 77, 175, 133, 95, 243]"
    by (simp add: aesenc_bytes_def MixColumns_def mix_column_def SubBytes_def ShiftRows_def
        aes_sbox_def xtime_def upt16 upt4)
  have e71: "aesenc_bytes
      [47, 114, 10, 106, 13, 172, 22, 33, 127, 168, 39, 193, 158, 82, 209, 84]
      [120, 126, 112, 182, 7, 27, 127, 65, 105, 94, 52, 45, 140, 174, 5, 14] =
      [22, 61, 23, 148, 211, 19, 16, 219, 76, 216, 52, 198, 101, 148, 72, 228]"
    by (simp add: aesenc_bytes_def MixColumns_def mix_column_def SubBytes_def ShiftRows_def
        aes_sbox_def xtime_def upt16 upt4)
  have e72: "aesenc_bytes
      [254, 19, 86, 252, 233, 135, 230, 74, 212, 133, 64, 210, 253, 43, 86, 79]
      [180, 58, 169, 120, 133, 139, 124, 253, 168, 164, 18, 92, 243, 226, 247, 198] =
      [109, 48, 128, 163, 26, 216, 71, 130, 87, 11, 179, 115, 231, 112, 29, 184]"
    by (simp add: aesenc_bytes_def MixColumns_def mix_column_def SubBytes_def ShiftRows_def
        aes_sbox_def xtime_def upt16 upt4)
  have e73: "aesenc_bytes
      [147, 58, 195, 15, 184, 57, 213, 72, 176, 117, 85, 139, 53, 208, 20, 133]
      [209, 195, 167, 225, 178, 221, 79, 146, 94, 79, 154, 76, 173, 135, 95, 140] =
      [47, 179, 40, 69, 90, 243, 203, 173, 103, 104, 167, 132, 63, 50, 8, 212]"
    by (simp add: aesenc_bytes_def MixColumns_def mix_column_def SubBytes_def ShiftRows_def
        aes_sbox_def xtime_def upt16 upt4)
  have r7: "aes_round 7
      (HashState
        (load_si128 [240, 73, 104, 196, 140, 222, 242, 43, 222, 61, 123, 217, 179, 60, 87, 84] 0)
        (load_si128 [47, 114, 10, 106, 13, 172, 22, 33, 127, 168, 39, 193, 158, 82, 209, 84] 0)
        (load_si128 [254, 19, 86, 252, 233, 135, 230, 74, 212, 133, 64, 210, 253, 43, 86, 79] 0)
        (load_si128 [147, 58, 195, 15, 184, 57, 213, 72, 176, 117, 85, 139, 53, 208, 20, 133] 0)) =
      HashState
        (load_si128 [22, 61, 23, 148, 211, 19, 16, 219, 76, 216, 52, 198, 101, 148, 72, 228] 0)
        (load_si128 [109, 48, 128, 163, 26, 216, 71, 130, 87, 11, 179, 115, 231, 112, 29, 184] 0)
        (load_si128 [47, 179, 40, 69, 90, 243, 203, 173, 103, 104, 167, 132, 63, 50, 8, 212] 0)
        (load_si128 [73, 128, 174, 125, 67, 18, 101, 26, 64, 143, 14, 77, 175, 133, 95, 243] 0)"
    by (simp add: aes_round_bytes rc_lanes e70 e71 e72 e73 del: aes_round.simps)
  have o: "aes_ni_output
      [90, 198, 171, 229, 228, 207, 6, 218, 105, 168, 221, 146, 6, 135, 104, 11,
      144, 87, 124, 62, 91, 148, 46, 196, 74, 153, 245, 159, 19, 146, 15, 93,
      126, 13, 95, 74, 237, 9, 100, 250, 176, 227, 135, 204, 30, 51, 111, 48,
      24, 64, 31, 114, 120, 172, 129, 58, 171, 188, 65, 251, 171, 217, 131, 31]
      (HashState
        (load_si128 [22, 61, 23, 148, 211, 19, 16, 219, 76, 216, 52, 198, 101, 148, 72, 228] 0)
        (load_si128 [109, 48, 128, 163, 26, 216, 71, 130, 87, 11, 179, 115, 231, 112, 29, 184] 0)
        (load_si128 [47, 179, 40, 69, 90, 243, 203, 173, 103, 104, 167, 132, 63, 50, 8, 212] 0)
        (load_si128 [73, 128, 174, 125, 67, 18, 101, 26, 64, 143, 14, 77, 175, 133, 95, 243] 0)) =
      [29, 69, 203, 126, 128, 38, 185, 86, 242, 251, 201, 28, 66, 18, 71, 11,
      172, 167, 77, 146, 122, 242, 141, 102, 246, 161, 9, 90, 240, 190, 206, 9]"
    by (simp add: aes_ni_output_bytes del: aes_ni_output.simps)
  show ?thesis
    by (simp only: haraka512_aes_ni_def fold_aes_rounds i [OF refl] r0 r1 r2 r3 r4 r5 r6 r7 o)
qed

lemma hw_eval_msg56_first:
  "haraka512_aes_ni
     [90, 198, 171, 229, 228, 207, 6, 218, 105, 168, 221, 146, 6, 135, 104, 11,
     144, 87, 124, 62, 91, 148, 46, 196, 74, 153, 245, 159, 19, 146, 15, 93,
     126, 13, 95, 74, 237, 9, 100, 250, 176, 227, 135, 204, 30, 51, 111, 48,
     24, 64, 31, 114, 120, 172, 129, 58, 235, 189, 65, 251, 171, 217, 131, 31] =
     [29, 69, 203, 126, 128, 38, 185, 86, 242, 251, 201, 28, 66, 18, 71, 11,
     73, 95, 195, 114, 233, 6, 138, 187, 244, 177, 182, 148, 50, 215, 205, 4]"
proof -
  have i: "HashState (load_si128 X 0) (load_si128 X 16) (load_si128 X 32) (load_si128 X 48) =
      HashState
        (load_si128 [90, 198, 171, 229, 228, 207, 6, 218, 105, 168, 221, 146, 6, 135, 104, 11] 0)
        (load_si128 [144, 87, 124, 62, 91, 148, 46, 196, 74, 153, 245, 159, 19, 146, 15, 93] 0)
        (load_si128 [126, 13, 95, 74, 237, 9, 100, 250, 176, 227, 135, 204, 30, 51, 111, 48] 0)
        (load_si128 [24, 64, 31, 114, 120, 172, 129, 58, 235, 189, 65, 251, 171, 217, 131, 31] 0)"
    if "X = [90, 198, 171, 229, 228, 207, 6, 218, 105, 168, 221, 146, 6, 135, 104, 11,
         144, 87, 124, 62, 91, 148, 46, 196, 74, 153, 245, 159, 19, 146, 15, 93,
         126, 13, 95, 74, 237, 9, 100, 250, 176, 227, 135, 204, 30, 51, 111, 48,
         24, 64, 31, 114, 120, 172, 129, 58, 235, 189, 65, 251, 171, 217, 131, 31]" for X
    unfolding that by (simp add: load_si128_def)
  have e00: "aesenc_bytes
      [90, 198, 171, 229, 228, 207, 6, 218, 105, 168, 221, 146, 6, 135, 104, 11]
      [120, 126, 112, 182, 7, 27, 127, 65, 105, 94, 52, 45, 140, 174, 5, 14] =
      [112, 188, 160, 114, 20, 251, 46, 212, 140, 120, 231, 230, 181, 76, 209, 250]"
    by (simp add: aesenc_bytes_def MixColumns_def mix_column_def SubBytes_def ShiftRows_def
        aes_sbox_def xtime_def upt16 upt4)
  have e01: "aesenc_bytes
      [144, 87, 124, 62, 91, 148, 46, 196, 74, 153, 245, 159, 19, 146, 15, 93]
      [180, 58, 169, 120, 133, 139, 124, 253, 168, 164, 18, 92, 243, 226, 247, 198] =
      [184, 99, 232, 132, 26, 93, 138, 81, 194, 192, 143, 90, 14, 161, 197, 134]"
    by (simp add: aesenc_bytes_def MixColumns_def mix_column_def SubBytes_def ShiftRows_def
        aes_sbox_def xtime_def upt16 upt4)
  have e02: "aesenc_bytes
      [126, 13, 95, 74, 237, 9, 100, 250, 176, 227, 135, 204, 30, 51, 111, 48]
      [209, 195, 167, 225, 178, 221, 79, 146, 94, 79, 154, 76, 173, 135, 95, 140] =
      [60, 15, 119, 241, 85, 159, 33, 99, 55, 82, 76, 40, 35, 206, 161, 24]"
    by (simp add: aesenc_bytes_def MixColumns_def mix_column_def SubBytes_def ShiftRows_def
        aes_sbox_def xtime_def upt16 upt4)
  have e03: "aesenc_bytes
      [24, 64, 31, 114, 120, 172, 129, 58, 235, 189, 65, 251, 171, 217, 131, 31]
      [190, 201, 168, 35, 65, 166, 242, 133, 142, 194, 148, 122, 91, 143, 59, 244] =
      [20, 3, 210, 70, 0, 129, 55, 76, 88, 154, 72, 180, 135, 228, 89, 73]"
    by (simp add: aesenc_bytes_def MixColumns_def mix_column_def SubBytes_def ShiftRows_def
        aes_sbox_def xtime_def upt16 upt4)
  have r0: "aes_round 0
      (HashState
        (load_si128 [90, 198, 171, 229, 228, 207, 6, 218, 105, 168, 221, 146, 6, 135, 104, 11] 0)
        (load_si128 [144, 87, 124, 62, 91, 148, 46, 196, 74, 153, 245, 159, 19, 146, 15, 93] 0)
        (load_si128 [126, 13, 95, 74, 237, 9, 100, 250, 176, 227, 135, 204, 30, 51, 111, 48] 0)
        (load_si128 [24, 64, 31, 114, 120, 172, 129, 58, 235, 189, 65, 251, 171, 217, 131, 31] 0)) =
      HashState
        (load_si128 [112, 188, 160, 114, 20, 251, 46, 212, 140, 120, 231, 230, 181, 76, 209, 250] 0)
        (load_si128 [184, 99, 232, 132, 26, 93, 138, 81, 194, 192, 143, 90, 14, 161, 197, 134] 0)
        (load_si128 [60, 15, 119, 241, 85, 159, 33, 99, 55, 82, 76, 40, 35, 206, 161, 24] 0)
        (load_si128 [20, 3, 210, 70, 0, 129, 55, 76, 88, 154, 72, 180, 135, 228, 89, 73] 0)"
    by (simp add: aes_round_bytes rc_lanes e00 e01 e02 e03 del: aes_round.simps)
  have e10: "aesenc_bytes
      [112, 188, 160, 114, 20, 251, 46, 212, 140, 120, 231, 230, 181, 76, 209, 250]
      [180, 58, 169, 120, 133, 139, 124, 253, 168, 164, 18, 92, 243, 226, 247, 198] =
      [190, 255, 179, 74, 203, 16, 134, 234, 179, 225, 92, 169, 82, 32, 172, 241]"
    by (simp add: aesenc_bytes_def MixColumns_def mix_column_def SubBytes_def ShiftRows_def
        aes_sbox_def xtime_def upt16 upt4)
  have e11: "aesenc_bytes
      [184, 99, 232, 132, 26, 93, 138, 81, 194, 192, 143, 90, 14, 161, 197, 134]
      [209, 195, 167, 225, 178, 221, 79, 146, 94, 79, 154, 76, 173, 135, 95, 140] =
      [234, 230, 173, 226, 193, 190, 225, 205, 8, 105, 200, 51, 54, 253, 42, 136]"
    by (simp add: aesenc_bytes_def MixColumns_def mix_column_def SubBytes_def ShiftRows_def
        aes_sbox_def xtime_def upt16 upt4)
  have e12: "aesenc_bytes
      [60, 15, 119, 241, 85, 159, 33, 99, 55, 82, 76, 40, 35, 206, 161, 24]
      [190, 201, 168, 35, 65, 166, 242, 133, 142, 194, 148, 122, 91, 143, 59, 244] =
      [129, 89, 38, 182, 49, 173, 146, 241, 41, 170, 98, 92, 68, 109, 214, 125]"
    by (simp add: aesenc_bytes_def MixColumns_def mix_column_def SubBytes_def ShiftRows_def
        aes_sbox_def xtime_def upt16 upt4)
  have e13: "aesenc_bytes
      [20, 3, 210, 70, 0, 129, 55, 76, 88, 154, 72, 180, 135, 228, 89, 73]
      [86, 217, 200, 65, 43, 110, 60, 248, 241, 232, 125, 154, 212, 178, 24, 92] =
      [196, 246, 215, 124, 175, 122, 132, 154, 2, 189, 116, 170, 96, 107, 215, 133]"
    by (simp add: aesenc_bytes_def MixColumns_def mix_column_def SubBytes_def ShiftRows_def
        aes_sbox_def xtime_def upt16 upt4)
  have r1: "aes_round 1
      (HashState
        (load_si128 [112, 188, 160, 114, 20, 251, 46, 212, 140, 120, 231, 230, 181, 76, 209, 250] 0)
        (load_si128 [184, 99, 232, 132, 26, 93, 138, 81, 194, 192, 143, 90, 14, 161, 197, 134] 0)
        (load_si128 [60, 15, 119, 241, 85, 159, 33, 99, 55, 82, 76, 40, 35, 206, 161, 24] 0)
        (load_si128 [20, 3, 210, 70, 0, 129, 55, 76, 88, 154, 72, 180, 135, 228, 89, 73] 0)) =
      HashState
        (load_si128 [234, 230, 173, 226, 193, 190, 225, 205, 8, 105, 200, 51, 54, 253, 42, 136] 0)
        (load_si128 [129, 89, 38, 182, 49, 173, 146, 241, 41, 170, 98, 92, 68, 109, 214, 125] 0)
        (load_si128 [196, 246, 215, 124, 175, 122, 132, 154, 2, 189, 116, 170, 96, 107, 215, 133] 0)
        (load_si128 [190, 255, 179, 74, 203, 16, 134, 234, 179, 225, 92, 169, 82, 32, 172, 241] 0)"
    by (simp add: aes_round_bytes rc_lanes e10 e11 e12 e13 del: aes_round.simps)
  have e20: "aesenc_bytes
      [234, 230, 173, 226, 193, 190, 225, 205, 8, 105, 200, 51, 54, 253, 42, 136]
      [209, 195, 167, 225, 178, 221, 79, 146, 94, 79, 154, 76, 173, 135, 95, 140] =
      [1, 228, 18, 166, 47, 224, 172, 45, 234, 206, 19, 188, 21, 85, 97, 104]"
    by (simp add: aesenc_bytes_def MixColumns_def mix_column_def SubBytes_def ShiftRows_def
        aes_sbox_def xtime_def upt16 upt4)
  have e21: "aesenc_bytes
      [129, 89, 38, 182, 49, 173, 146, 241, 41, 170, 98, 92, 68, 109, 214, 125]
      [190, 201, 168, 35, 65, 166, 242, 133, 142, 194, 148, 122, 91, 143, 59, 244] =
      [87, 238, 100, 237, 131, 109, 188, 17, 205, 188, 0, 28, 46, 130, 171, 201]"
    by (simp add: aesenc_bytes_def MixColumns_def mix_column_def SubBytes_def ShiftRows_def
        aes_sbox_def xtime_def upt16 upt4)
  have e22: "aesenc_bytes
      [196, 246, 215, 124, 175, 122, 132, 154, 2, 189, 116, 170, 96, 107, 215, 133]
      [86, 217, 200, 65, 43, 110, 60, 248, 241, 232, 125, 154, 212, 178, 24, 92] =
      [30, 80, 147, 24, 73, 225, 19, 39, 40, 203, 186, 25, 90, 171, 219, 105]"
    by (simp add: aesenc_bytes_def MixColumns_def mix_column_def SubBytes_def ShiftRows_def
        aes_sbox_def xtime_def upt16 upt4)
  have e23: "aesenc_bytes
      [190, 255, 179, 74, 203, 16, 134, 234, 179, 225, 92, 169, 82, 32, 172, 241]
      [194, 164, 225, 115, 41, 214, 248, 181, 95, 124, 74, 142, 172, 179, 157, 47] =
      [43, 250, 233, 67, 67, 92, 71, 74, 173, 84, 216, 246, 1, 128, 109, 192]"
    by (simp add: aesenc_bytes_def MixColumns_def mix_column_def SubBytes_def ShiftRows_def
        aes_sbox_def xtime_def upt16 upt4)
  have r2: "aes_round 2
      (HashState
        (load_si128 [234, 230, 173, 226, 193, 190, 225, 205, 8, 105, 200, 51, 54, 253, 42, 136] 0)
        (load_si128 [129, 89, 38, 182, 49, 173, 146, 241, 41, 170, 98, 92, 68, 109, 214, 125] 0)
        (load_si128 [196, 246, 215, 124, 175, 122, 132, 154, 2, 189, 116, 170, 96, 107, 215, 133] 0)
        (load_si128 [190, 255, 179, 74, 203, 16, 134, 234, 179, 225, 92, 169, 82, 32, 172, 241] 0)) =
      HashState
        (load_si128 [1, 228, 18, 166, 47, 224, 172, 45, 234, 206, 19, 188, 21, 85, 97, 104] 0)
        (load_si128 [87, 238, 100, 237, 131, 109, 188, 17, 205, 188, 0, 28, 46, 130, 171, 201] 0)
        (load_si128 [30, 80, 147, 24, 73, 225, 19, 39, 40, 203, 186, 25, 90, 171, 219, 105] 0)
        (load_si128 [43, 250, 233, 67, 67, 92, 71, 74, 173, 84, 216, 246, 1, 128, 109, 192] 0)"
    by (simp add: aes_round_bytes rc_lanes e20 e21 e22 e23 del: aes_round.simps)
  have e30: "aesenc_bytes
      [1, 228, 18, 166, 47, 224, 172, 45, 234, 206, 19, 188, 21, 85, 97, 104]
      [190, 201, 168, 35, 65, 166, 242, 133, 142, 194, 148, 122, 91, 143, 59, 244] =
      [70, 174, 0, 177, 38, 176, 197, 150, 149, 62, 21, 118, 166, 201, 157, 45]"
    by (simp add: aesenc_bytes_def MixColumns_def mix_column_def SubBytes_def ShiftRows_def
        aes_sbox_def xtime_def upt16 upt4)
  have e31: "aesenc_bytes
      [87, 238, 100, 237, 131, 109, 188, 17, 205, 188, 0, 28, 46, 130, 171, 201]
      [86, 217, 200, 65, 43, 110, 60, 248, 241, 232, 125, 154, 212, 178, 24, 92] =
      [26, 130, 21, 82, 112, 187, 142, 122, 100, 52, 200, 9, 55, 224, 116, 97]"
    by (simp add: aesenc_bytes_def MixColumns_def mix_column_def SubBytes_def ShiftRows_def
        aes_sbox_def xtime_def upt16 upt4)
  have e32: "aesenc_bytes
      [30, 80, 147, 24, 73, 225, 19, 39, 40, 203, 186, 25, 90, 171, 219, 105]
      [194, 164, 225, 115, 41, 214, 248, 181, 95, 124, 74, 142, 172, 179, 157, 47] =
      [56, 195, 136, 0, 106, 174, 89, 31, 129, 63, 240, 239, 151, 248, 237, 107]"
    by (simp add: aesenc_bytes_def MixColumns_def mix_column_def SubBytes_def ShiftRows_def
        aes_sbox_def xtime_def upt16 upt4)
  have e33: "aesenc_bytes
      [43, 250, 233, 67, 67, 92, 71, 74, 173, 84, 216, 246, 1, 128, 109, 192]
      [199, 225, 185, 165, 38, 77, 140, 31, 59, 90, 209, 231, 148, 143, 44, 107] =
      [59, 157, 21, 233, 84, 73, 224, 25, 142, 186, 212, 39, 249, 16, 224, 230]"
    by (simp add: aesenc_bytes_def MixColumns_def mix_column_def SubBytes_def ShiftRows_def
        aes_sbox_def xtime_def upt16 upt4)
  have r3: "aes_round 3
      (HashState
        (load_si128 [1, 228, 18, 166, 47, 224, 172, 45, 234, 206, 19, 188, 21, 85, 97, 104] 0)
        (load_si128 [87, 238, 100, 237, 131, 109, 188, 17, 205, 188, 0, 28, 46, 130, 171, 201] 0)
        (load_si128 [30, 80, 147, 24, 73, 225, 19, 39, 40, 203, 186, 25, 90, 171, 219, 105] 0)
        (load_si128 [43, 250, 233, 67, 67, 92, 71, 74, 173, 84, 216, 246, 1, 128, 109, 192] 0)) =
      HashState
        (load_si128 [26, 130, 21, 82, 112, 187, 142, 122, 100, 52, 200, 9, 55, 224, 116, 97] 0)
        (load_si128 [56, 195, 136, 0, 106, 174, 89, 31, 129, 63, 240, 239, 151, 248, 237, 107] 0)
        (load_si128 [59, 157, 21, 233, 84, 73, 224, 25, 142, 186, 212, 39, 249, 16, 224, 230] 0)
        (load_si128 [70, 174, 0, 177, 38, 176, 197, 150, 149, 62, 21, 118, 166, 201, 157, 45] 0)"
    by (simp add: aes_round_bytes rc_lanes e30 e31 e32 e33 del: aes_round.simps)
  have e40: "aesenc_bytes
      [26, 130, 21, 82, 112, 187, 142, 122, 100, 52, 200, 9, 55, 224, 116, 97]
      [86, 217, 200, 65, 43, 110, 60, 248, 241, 232, 125, 154, 212, 178, 24, 92] =
      [43, 120, 97, 123, 51, 162, 74, 129, 204, 67, 24, 72, 214, 36, 160, 225]"
    by (simp add: aesenc_bytes_def MixColumns_def mix_column_def SubBytes_def ShiftRows_def
        aes_sbox_def xtime_def upt16 upt4)
  have e41: "aesenc_bytes
      [56, 195, 136, 0, 106, 174, 89, 31, 129, 63, 240, 239, 151, 248, 237, 107]
      [194, 164, 225, 115, 41, 214, 248, 181, 95, 124, 74, 142, 172, 179, 157, 47] =
      [8, 128, 128, 236, 132, 162, 128, 85, 128, 101, 207, 132, 193, 254, 204, 236]"
    by (simp add: aesenc_bytes_def MixColumns_def mix_column_def SubBytes_def ShiftRows_def
        aes_sbox_def xtime_def upt16 upt4)
  have e42: "aesenc_bytes
      [59, 157, 21, 233, 84, 73, 224, 25, 142, 186, 212, 39, 249, 16, 224, 230]
      [199, 225, 185, 165, 38, 77, 140, 31, 59, 90, 209, 231, 148, 143, 44, 107] =
      [147, 35, 121, 236, 158, 184, 163, 86, 193, 243, 215, 236, 114, 94, 125, 231]"
    by (simp add: aesenc_bytes_def MixColumns_def mix_column_def SubBytes_def ShiftRows_def
        aes_sbox_def xtime_def upt16 upt4)
  have e43: "aesenc_bytes
      [70, 174, 0, 177, 38, 176, 197, 150, 149, 62, 21, 118, 166, 201, 157, 45]
      [108, 117, 29, 142, 165, 201, 180, 242, 232, 97, 122, 61, 132, 43, 95, 156] =
      [107, 201, 97, 117, 11, 107, 14, 151, 51, 223, 224, 198, 101, 21, 128, 194]"
    by (simp add: aesenc_bytes_def MixColumns_def mix_column_def SubBytes_def ShiftRows_def
        aes_sbox_def xtime_def upt16 upt4)
  have r4: "aes_round 4
      (HashState
        (load_si128 [26, 130, 21, 82, 112, 187, 142, 122, 100, 52, 200, 9, 55, 224, 116, 97] 0)
        (load_si128 [56, 195, 136, 0, 106, 174, 89, 31, 129, 63, 240, 239, 151, 248, 237, 107] 0)
        (load_si128 [59, 157, 21, 233, 84, 73, 224, 25, 142, 186, 212, 39, 249, 16, 224, 230] 0)
        (load_si128 [70, 174, 0, 177, 38, 176, 197, 150, 149, 62, 21, 118, 166, 201, 157, 45] 0)) =
      HashState
        (load_si128 [43, 120, 97, 123, 51, 162, 74, 129, 204, 67, 24, 72, 214, 36, 160, 225] 0)
        (load_si128 [8, 128, 128, 236, 132, 162, 128, 85, 128, 101, 207, 132, 193, 254, 204, 236] 0)
        (load_si128 [147, 35, 121, 236, 158, 184, 163, 86, 193, 243, 215, 236, 114, 94, 125, 231] 0)
        (load_si128 [107, 201, 97, 117, 11, 107, 14, 151, 51, 223, 224, 198, 101, 21, 128, 194] 0)"
    by (simp add: aes_round_bytes rc_lanes e40 e41 e42 e43 del: aes_round.simps)
  have e50: "aesenc_bytes
      [43, 120, 97, 123, 51, 162, 74, 129, 204, 67, 24, 72, 214, 36, 160, 225]
      [194, 164, 225, 115, 41, 214, 248, 181, 95, 124, 74, 142, 172, 179, 157, 47] =
      [32, 53, 120, 7, 91, 59, 153, 83, 112, 125, 230, 146, 0, 21, 150, 224]"
    by (simp add: aesenc_bytes_def MixColumns_def mix_column_def SubBytes_def ShiftRows_def
        aes_sbox_def xtime_def upt16 upt4)
  have e51: "aesenc_bytes
      [8, 128, 128, 236, 132, 162, 128, 85, 128, 101, 207, 132, 193, 254, 204, 236]
      [199, 225, 185, 165, 38, 77, 140, 31, 59, 90, 209, 231, 148, 143, 44, 107] =
      [173, 238, 245, 194, 202, 155, 65, 127, 93, 74, 57, 62, 186, 101, 249, 93]"
    by (simp add: aesenc_bytes_def MixColumns_def mix_column_def SubBytes_def ShiftRows_def
        aes_sbox_def xtime_def upt16 upt4)
  have e52: "aesenc_bytes
      [147, 35, 121, 236, 158, 184, 163, 86, 193, 243, 215, 236, 114, 94, 125, 231]
      [108, 117, 29, 142, 165, 201, 180, 242, 232, 97, 122, 61, 132, 43, 95, 156] =
      [225, 247, 22, 160, 149, 12, 30, 154, 247, 217, 229, 34, 170, 247, 100, 247]"
    by (simp add: aesenc_bytes_def MixColumns_def mix_column_def SubBytes_def ShiftRows_def
        aes_sbox_def xtime_def upt16 upt4)
  have e53: "aesenc_bytes
      [107, 201, 97, 117, 11, 107, 14, 151, 51, 223, 224, 198, 101, 21, 128, 194]
      [120, 126, 112, 182, 7, 27, 127, 65, 105, 94, 52, 45, 140, 174, 5, 14] =
      [195, 226, 198, 227, 184, 198, 247, 78, 120, 141, 232, 206, 117, 16, 31, 220]"
    by (simp add: aesenc_bytes_def MixColumns_def mix_column_def SubBytes_def ShiftRows_def
        aes_sbox_def xtime_def upt16 upt4)
  have r5: "aes_round 5
      (HashState
        (load_si128 [43, 120, 97, 123, 51, 162, 74, 129, 204, 67, 24, 72, 214, 36, 160, 225] 0)
        (load_si128 [8, 128, 128, 236, 132, 162, 128, 85, 128, 101, 207, 132, 193, 254, 204, 236] 0)
        (load_si128 [147, 35, 121, 236, 158, 184, 163, 86, 193, 243, 215, 236, 114, 94, 125, 231] 0)
        (load_si128 [107, 201, 97, 117, 11, 107, 14, 151, 51, 223, 224, 198, 101, 21, 128, 194] 0)) =
      HashState
        (load_si128 [173, 238, 245, 194, 202, 155, 65, 127, 93, 74, 57, 62, 186, 101, 249, 93] 0)
        (load_si128 [225, 247, 22, 160, 149, 12, 30, 154, 247, 217, 229, 34, 170, 247, 100, 247] 0)
        (load_si128 [195, 226, 198, 227, 184, 198, 247, 78, 120, 141, 232, 206, 117, 16, 31, 220] 0)
        (load_si128 [32, 53, 120, 7, 91, 59, 153, 83, 112, 125, 230, 146, 0, 21, 150, 224] 0)"
    by (simp add: aes_round_bytes rc_lanes e50 e51 e52 e53 del: aes_round.simps)
  have e60: "aesenc_bytes
      [173, 238, 245, 194, 202, 155, 65, 127, 93, 74, 57, 62, 186, 101, 249, 93]
      [199, 225, 185, 165, 38, 77, 140, 31, 59, 90, 209, 231, 148, 143, 44, 107] =
      [148, 38, 200, 159, 19, 27, 104, 134, 64, 111, 106, 39, 46, 7, 32, 184]"
    by (simp add: aesenc_bytes_def MixColumns_def mix_column_def SubBytes_def ShiftRows_def
        aes_sbox_def xtime_def upt16 upt4)
  have e61: "aesenc_bytes
      [225, 247, 22, 160, 149, 12, 30, 154, 247, 217, 229, 34, 170, 247, 100, 247]
      [108, 117, 29, 142, 165, 201, 180, 242, 232, 97, 122, 61, 132, 43, 95, 156] =
      [47, 114, 10, 106, 13, 172, 22, 33, 127, 168, 39, 193, 158, 82, 209, 84]"
    by (simp add: aesenc_bytes_def MixColumns_def mix_column_def SubBytes_def ShiftRows_def
        aes_sbox_def xtime_def upt16 upt4)
  have e62: "aesenc_bytes
      [195, 226, 198, 227, 184, 198, 247, 78, 120, 141, 232, 206, 117, 16, 31, 220]
      [120, 126, 112, 182, 7, 27, 127, 65, 105, 94, 52, 45, 140, 174, 5, 14] =
      [254, 19, 86, 252, 233, 135, 230, 74, 212, 133, 64, 210, 253, 43, 86, 79]"
    by (simp add: aesenc_bytes_def MixColumns_def mix_column_def SubBytes_def ShiftRows_def
        aes_sbox_def xtime_def upt16 upt4)
  have e63: "aesenc_bytes
      [32, 53, 120, 7, 91, 59, 153, 83, 112, 125, 230, 146, 0, 21, 150, 224]
      [180, 58, 169, 120, 133, 139, 124, 253, 168, 164, 18, 92, 243, 226, 247, 198] =
      [147, 58, 195, 15, 184, 57, 213, 72, 176, 117, 85, 139, 53, 208, 20, 133]"
    by (simp add: aesenc_bytes_def MixColumns_def mix_column_def SubBytes_def ShiftRows_def
        aes_sbox_def xtime_def upt16 upt4)
  have r6: "aes_round 6
      (HashState
        (load_si128 [173, 238, 245, 194, 202, 155, 65, 127, 93, 74, 57, 62, 186, 101, 249, 93] 0)
        (load_si128 [225, 247, 22, 160, 149, 12, 30, 154, 247, 217, 229, 34, 170, 247, 100, 247] 0)
        (load_si128 [195, 226, 198, 227, 184, 198, 247, 78, 120, 141, 232, 206, 117, 16, 31, 220] 0)
        (load_si128 [32, 53, 120, 7, 91, 59, 153, 83, 112, 125, 230, 146, 0, 21, 150, 224] 0)) =
      HashState
        (load_si128 [148, 38, 200, 159, 19, 27, 104, 134, 64, 111, 106, 39, 46, 7, 32, 184] 0)
        (load_si128 [47, 114, 10, 106, 13, 172, 22, 33, 127, 168, 39, 193, 158, 82, 209, 84] 0)
        (load_si128 [254, 19, 86, 252, 233, 135, 230, 74, 212, 133, 64, 210, 253, 43, 86, 79] 0)
        (load_si128 [147, 58, 195, 15, 184, 57, 213, 72, 176, 117, 85, 139, 53, 208, 20, 133] 0)"
    by (simp add: aes_round_bytes rc_lanes e60 e61 e62 e63 del: aes_round.simps)
  have e70: "aesenc_bytes
      [148, 38, 200, 159, 19, 27, 104, 134, 64, 111, 106, 39, 46, 7, 32, 184]
      [108, 117, 29, 142, 165, 201, 180, 242, 232, 97, 122, 61, 132, 43, 95, 156] =
      [172, 120, 32, 157, 208, 230, 98, 199, 2, 158, 177, 131, 109, 236, 92, 254]"
    by (simp add: aesenc_bytes_def MixColumns_def mix_column_def SubBytes_def ShiftRows_def
        aes_sbox_def xtime_def upt16 upt4)
  have e71: "aesenc_bytes
      [47, 114, 10, 106, 13, 172, 22, 33, 127, 168, 39, 193, 158, 82, 209, 84]
      [120, 126, 112, 182, 7, 27, 127, 65, 105, 94, 52, 45, 140, 174, 5, 14] =
      [22, 61, 23, 148, 211, 19, 16, 219, 76, 216, 52, 198, 101, 148, 72, 228]"
    by (simp add: aesenc_bytes_def MixColumns_def mix_column_def SubBytes_def ShiftRows_def
        aes_sbox_def xtime_def upt16 upt4)
  have e72: "aesenc_bytes
      [254, 19, 86, 252, 233, 135, 230, 74, 212, 133, 64, 210, 253, 43, 86, 79]
      [180, 58, 169, 120, 133, 139, 124, 253, 168, 164, 18, 92, 243, 226, 247, 198] =
      [109, 48, 128, 163, 26, 216, 71, 130, 87, 11, 179, 115, 231, 112, 29, 184]"
    by (simp add: aesenc_bytes_def MixColumns_def mix_column_def SubBytes_def ShiftRows_def
        aes_sbox_def xtime_def upt16 upt4)
  have e73: "aesenc_bytes
      [147, 58, 195, 15, 184, 57, 213, 72, 176, 117, 85, 139, 53, 208, 20, 133]
      [209, 195, 167, 225, 178, 221, 79, 146, 94, 79, 154, 76, 173, 135, 95, 140] =
      [47, 179, 40, 69, 90, 243, 203, 173, 103, 104, 167, 132, 63, 50, 8, 212]"
    by (simp add: aesenc_bytes_def MixColumns_def mix_column_def SubBytes_def ShiftRows_def
        aes_sbox_def xtime_def upt16 upt4)
  have r7: "aes_round 7
      (HashState
        (load_si128 [148, 38, 200, 159, 19, 27, 104, 134, 64, 111, 106, 39, 46, 7, 32, 184] 0)
        (load_si128 [47, 114, 10, 106, 13, 172, 22, 33, 127, 168, 39, 193, 158, 82, 209, 84] 0)
        (load_si128 [254, 19, 86, 252, 233, 135, 230, 74, 212, 133, 64, 210, 253, 43, 86, 79] 0)
        (load_si128 [147, 58, 195, 15, 184, 57, 213, 72, 176, 117, 85, 139, 53, 208, 20, 133] 0)) =
      HashState
        (load_si128 [22, 61, 23, 148, 211, 19, 16, 219, 76, 216, 52, 198, 101, 148, 72, 228] 0)
        (load_si128 [109, 48, 128, 163, 26, 216, 71, 130, 87, 11, 179, 115, 231, 112, 29, 184] 0)
        (load_si128 [47, 179, 40, 69, 90, 243, 203, 173, 103, 104, 167, 132, 63, 50, 8, 212] 0)
        (load_si128 [172, 120, 32, 157, 208, 230, 98, 199, 2, 158, 177, 131, 109, 236, 92, 254] 0)"
    by (simp add: aes_round_bytes rc_lanes e70 e71 e72 e73 del: aes_round.simps)
  have o: "aes_ni_output
      [90, 198, 171, 229, 228, 207, 6, 218, 105, 168, 221, 146, 6, 135, 104, 11,
      144, 87, 124, 62, 91, 148, 46, 196, 74, 153, 245, 159, 19, 146, 15, 93,
      126, 13, 95, 74, 237, 9, 100, 250, 176, 227, 135, 204, 30, 51, 111, 48,
      24, 64, 31, 114, 120, 172, 129, 58, 235, 189, 65, 251, 171, 217, 131, 31]
      (HashState
        (load_si128 [22, 61, 23, 148, 211, 19, 16, 219, 76, 216, 52, 198, 101, 148, 72, 228] 0)
        (load_si128 [109, 48, 128, 163, 26, 216, 71, 130, 87, 11, 179, 115, 231, 112, 29, 184] 0)
        (load_si128 [47, 179, 40, 69, 90, 243, 203, 173, 103, 104, 167, 132, 63, 50, 8, 212] 0)
        (load_si128 [172, 120, 32, 157, 208, 230, 98, 199, 2, 158, 177, 131, 109, 236, 92, 254] 0)) =
      [29, 69, 203, 126, 128, 38, 185, 86, 242, 251, 201, 28, 66, 18, 71, 11,
      73, 95, 195, 114, 233, 6, 138, 187, 244, 177, 182, 148, 50, 215, 205, 4]"
    by (simp add: aes_ni_output_bytes del: aes_ni_output.simps)
  show ?thesis
    by (simp only: haraka512_aes_ni_def fold_aes_rounds i [OF refl] r0 r1 r2 r3 r4 r5 r6 r7 o)
qed

lemma hw_eval_msg56_final:
  "haraka512_aes_ni
     [29, 69, 203, 126, 128, 38, 185, 86, 242, 251, 201, 28, 66, 18, 71, 11,
     73, 95, 195, 114, 233, 6, 138, 187, 244, 177, 182, 148, 50, 215, 205, 4,
     126, 13, 95, 74, 237, 9, 100, 250, 176, 227, 135, 204, 30, 51, 111, 48,
     24, 64, 31, 114, 120, 172, 129, 58, 43, 188, 65, 251, 171, 217, 131, 31] =
     [138, 85, 8, 69, 118, 32, 40, 212, 93, 112, 223, 175, 70, 50, 224, 38,
     210, 150, 146, 0, 111, 80, 158, 164, 224, 197, 65, 215, 60, 13, 41, 217]"
proof -
  have i: "HashState (load_si128 X 0) (load_si128 X 16) (load_si128 X 32) (load_si128 X 48) =
      HashState
        (load_si128 [29, 69, 203, 126, 128, 38, 185, 86, 242, 251, 201, 28, 66, 18, 71, 11] 0)
        (load_si128 [73, 95, 195, 114, 233, 6, 138, 187, 244, 177, 182, 148, 50, 215, 205, 4] 0)
        (load_si128 [126, 13, 95, 74, 237, 9, 100, 250, 176, 227, 135, 204, 30, 51, 111, 48] 0)
        (load_si128 [24, 64, 31, 114, 120, 172, 129, 58, 43, 188, 65, 251, 171, 217, 131, 31] 0)"
    if "X = [29, 69, 203, 126, 128, 38, 185, 86, 242, 251, 201, 28, 66, 18, 71, 11,
         73, 95, 195, 114, 233, 6, 138, 187, 244, 177, 182, 148, 50, 215, 205, 4,
         126, 13, 95, 74, 237, 9, 100, 250, 176, 227, 135, 204, 30, 51, 111, 48,
         24, 64, 31, 114, 120, 172, 129, 58, 43, 188, 65, 251, 171, 217, 131, 31]" for X
    unfolding that by (simp add: load_si128_def)
  have e00: "aesenc_bytes
      [29, 69, 203, 126, 128, 38, 185, 86, 242, 251, 201, 28, 66, 18, 71, 11]
      [120, 126, 112, 182, 7, 27, 127, 65, 105, 94, 52, 45, 140, 174, 5, 14] =
      [223, 120, 255, 61, 196, 192, 232, 95, 142, 206, 130, 2, 172, 56, 84, 97]"
    by (simp add: aesenc_bytes_def MixColumns_def mix_column_def SubBytes_def ShiftRows_def
        aes_sbox_def xtime_def upt16 upt4)
  have e01: "aesenc_bytes
      [73, 95, 195, 114, 233, 6, 138, 187, 244, 177, 182, 148, 50, 215, 205, 4]
      [180, 58, 169, 120, 133, 139, 124, 253, 168, 164, 18, 92, 243, 226, 247, 198] =
      [207, 255, 108, 235, 7, 130, 11, 42, 27, 159, 218, 105, 163, 228, 129, 86]"
    by (simp add: aesenc_bytes_def MixColumns_def mix_column_def SubBytes_def ShiftRows_def
        aes_sbox_def xtime_def upt16 upt4)
  have e02: "aesenc_bytes
      [126, 13, 95, 74, 237, 9, 100, 250, 176, 227, 135, 204, 30, 51, 111, 48]
      [209, 195, 167, 225, 178, 221, 79, 146, 94, 79, 154, 76, 173, 135, 95, 140] =
      [60, 15, 119, 241, 85, 159, 33, 99, 55, 82, 76, 40, 35, 206, 161, 24]"
    by (simp add: aesenc_bytes_def MixColumns_def mix_column_def SubBytes_def ShiftRows_def
        aes_sbox_def xtime_def upt16 upt4)
  have e03: "aesenc_bytes
      [24, 64, 31, 114, 120, 172, 129, 58, 43, 188, 65, 251, 171, 217, 131, 31]
      [190, 201, 168, 35, 65, 166, 242, 133, 142, 194, 148, 122, 91, 143, 59, 244] =
      [20, 3, 210, 70, 33, 191, 40, 83, 104, 130, 80, 156, 135, 228, 89, 73]"
    by (simp add: aesenc_bytes_def MixColumns_def mix_column_def SubBytes_def ShiftRows_def
        aes_sbox_def xtime_def upt16 upt4)
  have r0: "aes_round 0
      (HashState
        (load_si128 [29, 69, 203, 126, 128, 38, 185, 86, 242, 251, 201, 28, 66, 18, 71, 11] 0)
        (load_si128 [73, 95, 195, 114, 233, 6, 138, 187, 244, 177, 182, 148, 50, 215, 205, 4] 0)
        (load_si128 [126, 13, 95, 74, 237, 9, 100, 250, 176, 227, 135, 204, 30, 51, 111, 48] 0)
        (load_si128 [24, 64, 31, 114, 120, 172, 129, 58, 43, 188, 65, 251, 171, 217, 131, 31] 0)) =
      HashState
        (load_si128 [223, 120, 255, 61, 196, 192, 232, 95, 142, 206, 130, 2, 172, 56, 84, 97] 0)
        (load_si128 [207, 255, 108, 235, 7, 130, 11, 42, 27, 159, 218, 105, 163, 228, 129, 86] 0)
        (load_si128 [60, 15, 119, 241, 85, 159, 33, 99, 55, 82, 76, 40, 35, 206, 161, 24] 0)
        (load_si128 [20, 3, 210, 70, 33, 191, 40, 83, 104, 130, 80, 156, 135, 228, 89, 73] 0)"
    by (simp add: aes_round_bytes rc_lanes e00 e01 e02 e03 del: aes_round.simps)
  have e10: "aesenc_bytes
      [223, 120, 255, 61, 196, 192, 232, 95, 142, 206, 130, 2, 172, 56, 84, 97]
      [180, 58, 169, 120, 133, 139, 124, 253, 168, 164, 18, 92, 243, 226, 247, 198] =
      [186, 17, 129, 173, 60, 221, 194, 60, 74, 70, 106, 227, 249, 209, 110, 167]"
    by (simp add: aesenc_bytes_def MixColumns_def mix_column_def SubBytes_def ShiftRows_def
        aes_sbox_def xtime_def upt16 upt4)
  have e11: "aesenc_bytes
      [207, 255, 108, 235, 7, 130, 11, 42, 27, 159, 218, 105, 163, 228, 129, 86]
      [209, 195, 167, 225, 178, 221, 79, 146, 94, 79, 154, 76, 173, 135, 95, 140] =
      [13, 39, 88, 89, 176, 72, 105, 216, 21, 39, 200, 78, 81, 37, 5, 70]"
    by (simp add: aesenc_bytes_def MixColumns_def mix_column_def SubBytes_def ShiftRows_def
        aes_sbox_def xtime_def upt16 upt4)
  have e12: "aesenc_bytes
      [60, 15, 119, 241, 85, 159, 33, 99, 55, 82, 76, 40, 35, 206, 161, 24]
      [190, 201, 168, 35, 65, 166, 242, 133, 142, 194, 148, 122, 91, 143, 59, 244] =
      [129, 89, 38, 182, 49, 173, 146, 241, 41, 170, 98, 92, 68, 109, 214, 125]"
    by (simp add: aesenc_bytes_def MixColumns_def mix_column_def SubBytes_def ShiftRows_def
        aes_sbox_def xtime_def upt16 upt4)
  have e13: "aesenc_bytes
      [20, 3, 210, 70, 33, 191, 40, 83, 104, 130, 80, 156, 135, 228, 89, 73]
      [86, 217, 200, 65, 43, 110, 60, 248, 241, 232, 125, 154, 212, 178, 24, 92] =
      [201, 253, 209, 121, 110, 169, 177, 136, 152, 86, 12, 72, 157, 209, 101, 141]"
    by (simp add: aesenc_bytes_def MixColumns_def mix_column_def SubBytes_def ShiftRows_def
        aes_sbox_def xtime_def upt16 upt4)
  have r1: "aes_round 1
      (HashState
        (load_si128 [223, 120, 255, 61, 196, 192, 232, 95, 142, 206, 130, 2, 172, 56, 84, 97] 0)
        (load_si128 [207, 255, 108, 235, 7, 130, 11, 42, 27, 159, 218, 105, 163, 228, 129, 86] 0)
        (load_si128 [60, 15, 119, 241, 85, 159, 33, 99, 55, 82, 76, 40, 35, 206, 161, 24] 0)
        (load_si128 [20, 3, 210, 70, 33, 191, 40, 83, 104, 130, 80, 156, 135, 228, 89, 73] 0)) =
      HashState
        (load_si128 [13, 39, 88, 89, 176, 72, 105, 216, 21, 39, 200, 78, 81, 37, 5, 70] 0)
        (load_si128 [129, 89, 38, 182, 49, 173, 146, 241, 41, 170, 98, 92, 68, 109, 214, 125] 0)
        (load_si128 [201, 253, 209, 121, 110, 169, 177, 136, 152, 86, 12, 72, 157, 209, 101, 141] 0)
        (load_si128 [186, 17, 129, 173, 60, 221, 194, 60, 74, 70, 106, 227, 249, 209, 110, 167] 0)"
    by (simp add: aes_round_bytes rc_lanes e10 e11 e12 e13 del: aes_round.simps)
  have e20: "aesenc_bytes
      [13, 39, 88, 89, 176, 72, 105, 216, 21, 39, 200, 78, 81, 37, 5, 70]
      [209, 195, 167, 225, 178, 221, 79, 146, 94, 79, 154, 76, 173, 135, 95, 140] =
      [32, 201, 7, 141, 136, 207, 244, 138, 166, 183, 139, 48, 141, 234, 218, 143]"
    by (simp add: aesenc_bytes_def MixColumns_def mix_column_def SubBytes_def ShiftRows_def
        aes_sbox_def xtime_def upt16 upt4)
  have e21: "aesenc_bytes
      [129, 89, 38, 182, 49, 173, 146, 241, 41, 170, 98, 92, 68, 109, 214, 125]
      [190, 201, 168, 35, 65, 166, 242, 133, 142, 194, 148, 122, 91, 143, 59, 244] =
      [87, 238, 100, 237, 131, 109, 188, 17, 205, 188, 0, 28, 46, 130, 171, 201]"
    by (simp add: aesenc_bytes_def MixColumns_def mix_column_def SubBytes_def ShiftRows_def
        aes_sbox_def xtime_def upt16 upt4)
  have e22: "aesenc_bytes
      [201, 253, 209, 121, 110, 169, 177, 136, 152, 86, 12, 72, 157, 209, 101, 141]
      [86, 217, 200, 65, 43, 110, 60, 248, 241, 232, 125, 154, 212, 178, 24, 92] =
      [58, 253, 198, 170, 61, 233, 73, 201, 197, 84, 46, 195, 14, 85, 111, 134]"
    by (simp add: aesenc_bytes_def MixColumns_def mix_column_def SubBytes_def ShiftRows_def
        aes_sbox_def xtime_def upt16 upt4)
  have e23: "aesenc_bytes
      [186, 17, 129, 173, 60, 221, 194, 60, 74, 70, 106, 227, 249, 209, 110, 167]
      [194, 164, 225, 115, 41, 214, 248, 181, 95, 124, 74, 142, 172, 179, 157, 47] =
      [55, 147, 52, 15, 0, 166, 200, 103, 77, 41, 156, 16, 44, 75, 255, 26]"
    by (simp add: aesenc_bytes_def MixColumns_def mix_column_def SubBytes_def ShiftRows_def
        aes_sbox_def xtime_def upt16 upt4)
  have r2: "aes_round 2
      (HashState
        (load_si128 [13, 39, 88, 89, 176, 72, 105, 216, 21, 39, 200, 78, 81, 37, 5, 70] 0)
        (load_si128 [129, 89, 38, 182, 49, 173, 146, 241, 41, 170, 98, 92, 68, 109, 214, 125] 0)
        (load_si128 [201, 253, 209, 121, 110, 169, 177, 136, 152, 86, 12, 72, 157, 209, 101, 141] 0)
        (load_si128 [186, 17, 129, 173, 60, 221, 194, 60, 74, 70, 106, 227, 249, 209, 110, 167] 0)) =
      HashState
        (load_si128 [32, 201, 7, 141, 136, 207, 244, 138, 166, 183, 139, 48, 141, 234, 218, 143] 0)
        (load_si128 [87, 238, 100, 237, 131, 109, 188, 17, 205, 188, 0, 28, 46, 130, 171, 201] 0)
        (load_si128 [58, 253, 198, 170, 61, 233, 73, 201, 197, 84, 46, 195, 14, 85, 111, 134] 0)
        (load_si128 [55, 147, 52, 15, 0, 166, 200, 103, 77, 41, 156, 16, 44, 75, 255, 26] 0)"
    by (simp add: aes_round_bytes rc_lanes e20 e21 e22 e23 del: aes_round.simps)
  have e30: "aesenc_bytes
      [32, 201, 7, 141, 136, 207, 244, 138, 166, 183, 139, 48, 141, 234, 218, 143]
      [190, 201, 168, 35, 65, 166, 242, 133, 142, 194, 148, 122, 91, 143, 59, 244] =
      [0, 69, 122, 176, 56, 143, 214, 150, 239, 217, 36, 168, 38, 173, 210, 121]"
    by (simp add: aesenc_bytes_def MixColumns_def mix_column_def SubBytes_def ShiftRows_def
        aes_sbox_def xtime_def upt16 upt4)
  have e31: "aesenc_bytes
      [87, 238, 100, 237, 131, 109, 188, 17, 205, 188, 0, 28, 46, 130, 171, 201]
      [86, 217, 200, 65, 43, 110, 60, 248, 241, 232, 125, 154, 212, 178, 24, 92] =
      [26, 130, 21, 82, 112, 187, 142, 122, 100, 52, 200, 9, 55, 224, 116, 97]"
    by (simp add: aesenc_bytes_def MixColumns_def mix_column_def SubBytes_def ShiftRows_def
        aes_sbox_def xtime_def upt16 upt4)
  have e32: "aesenc_bytes
      [58, 253, 198, 170, 61, 233, 73, 201, 197, 84, 46, 195, 14, 85, 111, 134]
      [194, 164, 225, 115, 41, 214, 248, 181, 95, 124, 74, 142, 172, 179, 157, 47] =
      [142, 15, 209, 79, 3, 254, 91, 23, 126, 35, 31, 150, 8, 211, 102, 250]"
    by (simp add: aesenc_bytes_def MixColumns_def mix_column_def SubBytes_def ShiftRows_def
        aes_sbox_def xtime_def upt16 upt4)
  have e33: "aesenc_bytes
      [55, 147, 52, 15, 0, 166, 200, 103, 77, 41, 156, 16, 44, 75, 255, 26]
      [199, 225, 185, 165, 38, 77, 140, 31, 59, 90, 209, 231, 148, 143, 44, 107] =
      [248, 232, 93, 181, 116, 51, 252, 229, 181, 105, 37, 99, 43, 180, 15, 67]"
    by (simp add: aesenc_bytes_def MixColumns_def mix_column_def SubBytes_def ShiftRows_def
        aes_sbox_def xtime_def upt16 upt4)
  have r3: "aes_round 3
      (HashState
        (load_si128 [32, 201, 7, 141, 136, 207, 244, 138, 166, 183, 139, 48, 141, 234, 218, 143] 0)
        (load_si128 [87, 238, 100, 237, 131, 109, 188, 17, 205, 188, 0, 28, 46, 130, 171, 201] 0)
        (load_si128 [58, 253, 198, 170, 61, 233, 73, 201, 197, 84, 46, 195, 14, 85, 111, 134] 0)
        (load_si128 [55, 147, 52, 15, 0, 166, 200, 103, 77, 41, 156, 16, 44, 75, 255, 26] 0)) =
      HashState
        (load_si128 [26, 130, 21, 82, 112, 187, 142, 122, 100, 52, 200, 9, 55, 224, 116, 97] 0)
        (load_si128 [142, 15, 209, 79, 3, 254, 91, 23, 126, 35, 31, 150, 8, 211, 102, 250] 0)
        (load_si128 [248, 232, 93, 181, 116, 51, 252, 229, 181, 105, 37, 99, 43, 180, 15, 67] 0)
        (load_si128 [0, 69, 122, 176, 56, 143, 214, 150, 239, 217, 36, 168, 38, 173, 210, 121] 0)"
    by (simp add: aes_round_bytes rc_lanes e30 e31 e32 e33 del: aes_round.simps)
  have e40: "aesenc_bytes
      [26, 130, 21, 82, 112, 187, 142, 122, 100, 52, 200, 9, 55, 224, 116, 97]
      [86, 217, 200, 65, 43, 110, 60, 248, 241, 232, 125, 154, 212, 178, 24, 92] =
      [43, 120, 97, 123, 51, 162, 74, 129, 204, 67, 24, 72, 214, 36, 160, 225]"
    by (simp add: aesenc_bytes_def MixColumns_def mix_column_def SubBytes_def ShiftRows_def
        aes_sbox_def xtime_def upt16 upt4)
  have e41: "aesenc_bytes
      [142, 15, 209, 79, 3, 254, 91, 23, 126, 35, 31, 150, 8, 211, 102, 250]
      [194, 164, 225, 115, 41, 214, 248, 181, 95, 124, 74, 142, 172, 179, 157, 47] =
      [203, 166, 175, 121, 2, 48, 84, 62, 198, 241, 168, 35, 255, 180, 2, 11]"
    by (simp add: aesenc_bytes_def MixColumns_def mix_column_def SubBytes_def ShiftRows_def
        aes_sbox_def xtime_def upt16 upt4)
  have e42: "aesenc_bytes
      [248, 232, 93, 181, 116, 51, 252, 229, 181, 105, 37, 99, 43, 180, 15, 67]
      [199, 225, 185, 165, 38, 77, 140, 31, 59, 90, 209, 231, 148, 143, 44, 107] =
      [62, 102, 107, 174, 170, 121, 111, 140, 147, 131, 97, 235, 144, 99, 43, 165]"
    by (simp add: aesenc_bytes_def MixColumns_def mix_column_def SubBytes_def ShiftRows_def
        aes_sbox_def xtime_def upt16 upt4)
  have e43: "aesenc_bytes
      [0, 69, 122, 176, 56, 143, 214, 150, 239, 217, 36, 168, 38, 173, 210, 121]
      [108, 117, 29, 142, 165, 201, 180, 242, 232, 97, 122, 61, 132, 43, 95, 156] =
      [191, 28, 160, 25, 166, 135, 197, 174, 163, 106, 52, 51, 247, 195, 108, 153]"
    by (simp add: aesenc_bytes_def MixColumns_def mix_column_def SubBytes_def ShiftRows_def
        aes_sbox_def xtime_def upt16 upt4)
  have r4: "aes_round 4
      (HashState
        (load_si128 [26, 130, 21, 82, 112, 187, 142, 122, 100, 52, 200, 9, 55, 224, 116, 97] 0)
        (load_si128 [142, 15, 209, 79, 3, 254, 91, 23, 126, 35, 31, 150, 8, 211, 102, 250] 0)
        (load_si128 [248, 232, 93, 181, 116, 51, 252, 229, 181, 105, 37, 99, 43, 180, 15, 67] 0)
        (load_si128 [0, 69, 122, 176, 56, 143, 214, 150, 239, 217, 36, 168, 38, 173, 210, 121] 0)) =
      HashState
        (load_si128 [43, 120, 97, 123, 51, 162, 74, 129, 204, 67, 24, 72, 214, 36, 160, 225] 0)
        (load_si128 [203, 166, 175, 121, 2, 48, 84, 62, 198, 241, 168, 35, 255, 180, 2, 11] 0)
        (load_si128 [62, 102, 107, 174, 170, 121, 111, 140, 147, 131, 97, 235, 144, 99, 43, 165] 0)
        (load_si128 [191, 28, 160, 25, 166, 135, 197, 174, 163, 106, 52, 51, 247, 195, 108, 153] 0)"
    by (simp add: aes_round_bytes rc_lanes e40 e41 e42 e43 del: aes_round.simps)
  have e50: "aesenc_bytes
      [43, 120, 97, 123, 51, 162, 74, 129, 204, 67, 24, 72, 214, 36, 160, 225]
      [194, 164, 225, 115, 41, 214, 248, 181, 95, 124, 74, 142, 172, 179, 157, 47] =
      [32, 53, 120, 7, 91, 59, 153, 83, 112, 125, 230, 146, 0, 21, 150, 224]"
    by (simp add: aesenc_bytes_def MixColumns_def mix_column_def SubBytes_def ShiftRows_def
        aes_sbox_def xtime_def upt16 upt4)
  have e51: "aesenc_bytes
      [203, 166, 175, 121, 2, 48, 84, 62, 198, 241, 168, 35, 255, 180, 2, 11]
      [199, 225, 185, 165, 38, 77, 140, 31, 59, 90, 209, 231, 148, 143, 44, 107] =
      [28, 128, 64, 20, 241, 76, 117, 39, 15, 214, 215, 171, 210, 151, 52, 25]"
    by (simp add: aesenc_bytes_def MixColumns_def mix_column_def SubBytes_def ShiftRows_def
        aes_sbox_def xtime_def upt16 upt4)
  have e52: "aesenc_bytes
      [62, 102, 107, 174, 170, 121, 111, 140, 147, 131, 97, 235, 144, 99, 43, 165]
      [108, 117, 29, 142, 165, 201, 180, 242, 232, 97, 122, 61, 132, 43, 95, 156] =
      [59, 156, 214, 22, 220, 74, 58, 211, 70, 181, 15, 14, 80, 39, 103, 110]"
    by (simp add: aesenc_bytes_def MixColumns_def mix_column_def SubBytes_def ShiftRows_def
        aes_sbox_def xtime_def upt16 upt4)
  have e53: "aesenc_bytes
      [191, 28, 160, 25, 166, 135, 197, 174, 163, 106, 52, 51, 247, 195, 108, 153]
      [120, 126, 112, 182, 7, 27, 127, 65, 105, 94, 52, 45, 140, 174, 5, 14] =
      [167, 158, 118, 102, 205, 31, 158, 204, 11, 215, 252, 46, 134, 215, 248, 17]"
    by (simp add: aesenc_bytes_def MixColumns_def mix_column_def SubBytes_def ShiftRows_def
        aes_sbox_def xtime_def upt16 upt4)
  have r5: "aes_round 5
      (HashState
        (load_si128 [43, 120, 97, 123, 51, 162, 74, 129, 204, 67, 24, 72, 214, 36, 160, 225] 0)
        (load_si128 [203, 166, 175, 121, 2, 48, 84, 62, 198, 241, 168, 35, 255, 180, 2, 11] 0)
        (load_si128 [62, 102, 107, 174, 170, 121, 111, 140, 147, 131, 97, 235, 144, 99, 43, 165] 0)
        (load_si128 [191, 28, 160, 25, 166, 135, 197, 174, 163, 106, 52, 51, 247, 195, 108, 153] 0)) =
      HashState
        (load_si128 [28, 128, 64, 20, 241, 76, 117, 39, 15, 214, 215, 171, 210, 151, 52, 25] 0)
        (load_si128 [59, 156, 214, 22, 220, 74, 58, 211, 70, 181, 15, 14, 80, 39, 103, 110] 0)
        (load_si128 [167, 158, 118, 102, 205, 31, 158, 204, 11, 215, 252, 46, 134, 215, 248, 17] 0)
        (load_si128 [32, 53, 120, 7, 91, 59, 153, 83, 112, 125, 230, 146, 0, 21, 150, 224] 0)"
    by (simp add: aes_round_bytes rc_lanes e50 e51 e52 e53 del: aes_round.simps)
  have e60: "aesenc_bytes
      [28, 128, 64, 20, 241, 76, 117, 39, 15, 214, 215, 171, 210, 151, 52, 25]
      [199, 225, 185, 165, 38, 77, 140, 31, 59, 90, 209, 231, 148, 143, 44, 107] =
      [69, 233, 119, 142, 156, 201, 254, 230, 145, 240, 114, 127, 86, 101, 211, 59]"
    by (simp add: aesenc_bytes_def MixColumns_def mix_column_def SubBytes_def ShiftRows_def
        aes_sbox_def xtime_def upt16 upt4)
  have e61: "aesenc_bytes
      [59, 156, 214, 22, 220, 74, 58, 211, 70, 181, 15, 14, 80, 39, 103, 110]
      [108, 117, 29, 142, 165, 201, 180, 242, 232, 97, 122, 61, 132, 43, 95, 156] =
      [59, 37, 127, 54, 20, 45, 63, 189, 131, 223, 177, 37, 112, 239, 47, 122]"
    by (simp add: aesenc_bytes_def MixColumns_def mix_column_def SubBytes_def ShiftRows_def
        aes_sbox_def xtime_def upt16 upt4)
  have e62: "aesenc_bytes
      [167, 158, 118, 102, 205, 31, 158, 204, 11, 215, 252, 46, 134, 215, 248, 17]
      [120, 126, 112, 182, 7, 27, 127, 65, 105, 94, 52, 45, 140, 174, 5, 14] =
      [169, 240, 10, 61, 6, 74, 27, 180, 94, 106, 188, 240, 35, 208, 15, 160]"
    by (simp add: aesenc_bytes_def MixColumns_def mix_column_def SubBytes_def ShiftRows_def
        aes_sbox_def xtime_def upt16 upt4)
  have e63: "aesenc_bytes
      [32, 53, 120, 7, 91, 59, 153, 83, 112, 125, 230, 146, 0, 21, 150, 224]
      [180, 58, 169, 120, 133, 139, 124, 253, 168, 164, 18, 92, 243, 226, 247, 198] =
      [147, 58, 195, 15, 184, 57, 213, 72, 176, 117, 85, 139, 53, 208, 20, 133]"
    by (simp add: aesenc_bytes_def MixColumns_def mix_column_def SubBytes_def ShiftRows_def
        aes_sbox_def xtime_def upt16 upt4)
  have r6: "aes_round 6
      (HashState
        (load_si128 [28, 128, 64, 20, 241, 76, 117, 39, 15, 214, 215, 171, 210, 151, 52, 25] 0)
        (load_si128 [59, 156, 214, 22, 220, 74, 58, 211, 70, 181, 15, 14, 80, 39, 103, 110] 0)
        (load_si128 [167, 158, 118, 102, 205, 31, 158, 204, 11, 215, 252, 46, 134, 215, 248, 17] 0)
        (load_si128 [32, 53, 120, 7, 91, 59, 153, 83, 112, 125, 230, 146, 0, 21, 150, 224] 0)) =
      HashState
        (load_si128 [69, 233, 119, 142, 156, 201, 254, 230, 145, 240, 114, 127, 86, 101, 211, 59] 0)
        (load_si128 [59, 37, 127, 54, 20, 45, 63, 189, 131, 223, 177, 37, 112, 239, 47, 122] 0)
        (load_si128 [169, 240, 10, 61, 6, 74, 27, 180, 94, 106, 188, 240, 35, 208, 15, 160] 0)
        (load_si128 [147, 58, 195, 15, 184, 57, 213, 72, 176, 117, 85, 139, 53, 208, 20, 133] 0)"
    by (simp add: aes_round_bytes rc_lanes e60 e61 e62 e63 del: aes_round.simps)
  have e70: "aesenc_bytes
      [69, 233, 119, 142, 156, 201, 254, 230, 145, 240, 114, 127, 86, 101, 211, 59]
      [108, 117, 29, 142, 165, 201, 180, 242, 232, 97, 122, 61, 132, 43, 95, 156] =
      [110, 152, 19, 126, 242, 167, 1, 83, 93, 240, 206, 26, 182, 162, 240, 78]"
    by (simp add: aesenc_bytes_def MixColumns_def mix_column_def SubBytes_def ShiftRows_def
        aes_sbox_def xtime_def upt16 upt4)
  have e71: "aesenc_bytes
      [59, 37, 127, 54, 20, 45, 63, 189, 131, 223, 177, 37, 112, 239, 47, 122]
      [120, 126, 112, 182, 7, 27, 127, 65, 105, 94, 52, 45, 140, 174, 5, 14] =
      [198, 174, 180, 52, 65, 252, 62, 213, 120, 0, 54, 251, 37, 33, 192, 201]"
    by (simp add: aesenc_bytes_def MixColumns_def mix_column_def SubBytes_def ShiftRows_def
        aes_sbox_def xtime_def upt16 upt4)
  have e72: "aesenc_bytes
      [169, 240, 10, 61, 6, 74, 27, 180, 94, 106, 188, 240, 35, 208, 15, 160]
      [180, 58, 169, 120, 133, 139, 124, 253, 168, 164, 18, 92, 243, 226, 247, 198] =
      [237, 17, 93, 126, 12, 93, 148, 118, 98, 56, 120, 162, 19, 161, 151, 140]"
    by (simp add: aesenc_bytes_def MixColumns_def mix_column_def SubBytes_def ShiftRows_def
        aes_sbox_def xtime_def upt16 upt4)
  have e73: "aesenc_bytes
      [147, 58, 195, 15, 184, 57, 213, 72, 176, 117, 85, 139, 53, 208, 20, 133]
      [209, 195, 167, 225, 178, 221, 79, 146, 94, 79, 154, 76, 173, 135, 95, 140] =
      [47, 179, 40, 69, 90, 243, 203, 173, 103, 104, 167, 132, 63, 50, 8, 212]"
    by (simp add: aesenc_bytes_def MixColumns_def mix_column_def SubBytes_def ShiftRows_def
        aes_sbox_def xtime_def upt16 upt4)
  have r7: "aes_round 7
      (HashState
        (load_si128 [69, 233, 119, 142, 156, 201, 254, 230, 145, 240, 114, 127, 86, 101, 211, 59] 0)
        (load_si128 [59, 37, 127, 54, 20, 45, 63, 189, 131, 223, 177, 37, 112, 239, 47, 122] 0)
        (load_si128 [169, 240, 10, 61, 6, 74, 27, 180, 94, 106, 188, 240, 35, 208, 15, 160] 0)
        (load_si128 [147, 58, 195, 15, 184, 57, 213, 72, 176, 117, 85, 139, 53, 208, 20, 133] 0)) =
      HashState
        (load_si128 [198, 174, 180, 52, 65, 252, 62, 213, 120, 0, 54, 251, 37, 33, 192, 201] 0)
        (load_si128 [237, 17, 93, 126, 12, 93, 148, 118, 98, 56, 120, 162, 19, 161, 151, 140] 0)
        (load_si128 [47, 179, 40, 69, 90, 243, 203, 173, 103, 104, 167, 132, 63, 50, 8, 212] 0)
        (load_si128 [110, 152, 19, 126, 242, 167, 1, 83, 93, 240, 206, 26, 182, 162, 240, 78] 0)"
    by (simp add: aes_round_bytes rc_lanes e70 e71 e72 e73 del: aes_round.simps)
  have o: "aes_ni_output
      [29, 69, 203, 126, 128, 38, 185, 86, 242, 251, 201, 28, 66, 18, 71, 11,
      73, 95, 195, 114, 233, 6, 138, 187, 244, 177, 182, 148, 50, 215, 205, 4,
      126, 13, 95, 74, 237, 9, 100, 250, 176, 227, 135, 204, 30, 51, 111, 48,
      24, 64, 31, 114, 120, 172, 129, 58, 43, 188, 65, 251, 171, 217, 131, 31]
      (HashState
        (load_si128 [198, 174, 180, 52, 65, 252, 62, 213, 120, 0, 54, 251, 37, 33, 192, 201] 0)
        (load_si128 [237, 17, 93, 126, 12, 93, 148, 118, 98, 56, 120, 162, 19, 161, 151, 140] 0)
        (load_si128 [47, 179, 40, 69, 90, 243, 203, 173, 103, 104, 167, 132, 63, 50, 8, 212] 0)
        (load_si128 [110, 152, 19, 126, 242, 167, 1, 83, 93, 240, 206, 26, 182, 162, 240, 78] 0)) =
      [138, 85, 8, 69, 118, 32, 40, 212, 93, 112, 223, 175, 70, 50, 224, 38,
      210, 150, 146, 0, 111, 80, 158, 164, 224, 197, 65, 215, 60, 13, 41, 217]"
    by (simp add: aes_ni_output_bytes del: aes_ni_output.simps)
  show ?thesis
    by (simp only: haraka512_aes_ni_def fold_aes_rounds i [OF refl] r0 r1 r2 r3 r4 r5 r6 r7 o)
qed

lemma sw_eval_zero:
  "haraka512_software
     [0, 0, 0, 0, 0, 0, 0, 0, 0, 0, 0, 0, 0, 0, 0, 0,
     0, 0, 0, 0, 0, 0, 0, 0, 0, 0, 0, 0, 0, 0, 0, 0,
     0, 0, 0, 0, 0, 0, 0, 0, 0, 0, 0, 0, 0, 0, 0, 0,
     0, 0, 0, 0, 0, 0, 0, 0, 0, 0, 0, 0, 0, 0, 0, 0] =
     [0, 0, 0, 0, 0, 0, 0, 0, 0, 0, 0, 0, 0, 0, 0, 0,
     0, 0, 0, 0, 0, 0, 0, 0, 0, 0, 0, 0, 0, 0, 0, 0]"
proof -
  have w: "map (\<lambda>i. load_u32
      [0, 0, 0, 0, 0, 0, 0, 0, 0, 0, 0, 0, 0, 0, 0, 0,
      0, 0, 0, 0, 0, 0, 0, 0, 0, 0, 0, 0, 0, 0, 0, 0,
      0, 0, 0, 0, 0, 0, 0, 0, 0, 0, 0, 0, 0, 0, 0, 0,
      0, 0, 0, 0, 0, 0, 0, 0, 0, 0, 0, 0, 0, 0, 0, 0] i) [0..<16] =
      [0, 0, 0, 0, 0, 0,
      0, 0, 0, 0, 0, 0,
      0, 0, 0, 0]"
    by (simp add: load_u32_def upt16)
  have r0: "sw_round 0
      [0, 0, 0, 0, 0, 0,
      0, 0, 0, 0, 0, 0,
      0, 0, 0, 0] =
      [3060825720, 1098849031, 758406761, 235253388, 2024356532, 4252797829,
      1544725672, 3338134259, 3060825720, 1098849031, 758406761, 235253388,
      2024356532, 4252797829, 1544725672, 3338134259]"
    by (simp add: sw_round_list sw_word_def Let_def rc_words)
  have r1: "sw_round 1
      [3060825720, 1098849031, 758406761, 235253388, 2024356532, 4252797829,
      1544725672, 3338134259, 3060825720, 1098849031, 758406761, 235253388,
      2024356532, 4252797829, 1544725672, 3338134259] =
      [2634726702, 1213400860, 3128434994, 4258813202, 1939180977, 992301073,
      3199658604, 3293885153, 2634726702, 1213400860, 3128434994, 4258813202,
      1939180977, 992301073, 3199658604, 3293885153]"
    by (simp add: sw_round_list sw_word_def Let_def rc_words)
  have r2: "sw_round 2
      [2634726702, 1213400860, 3128434994, 4258813202, 1939180977, 992301073,
      3199658604, 3293885153, 2634726702, 1213400860, 3128434994, 4258813202,
      1939180977, 992301073, 3199658604, 3293885153] =
      [878250576, 2973414741, 2996111291, 3448736, 2355854726, 672811883,
      960033007, 3728016994, 878250576, 2973414741, 2996111291, 3448736,
      2355854726, 672811883, 960033007, 3728016994]"
    by (simp add: sw_round_list sw_word_def Let_def rc_words)
  have r3: "sw_round 3
      [878250576, 2973414741, 2996111291, 3448736, 2355854726, 672811883,
      960033007, 3728016994, 878250576, 2973414741, 2996111291, 3448736,
      2355854726, 672811883, 960033007, 3728016994] =
      [665357249, 1472943937, 3927540946, 2928122010, 4089424472, 148089090,
      2535671243, 1240401098, 665357249, 1472943937, 3927540946, 2928122010,
      4089424472, 148089090, 2535671243, 1240401098]"
    by (simp add: sw_round_list sw_word_def Let_def rc_words)
  have r4: "sw_round 4
      [665357249, 1472943937, 3927540946, 2928122010, 4089424472, 148089090,
      2535671243, 1240401098, 665357249, 1472943937, 3927540946, 2928122010,
      4089424472, 148089090, 2535671243, 1240401098] =
      [398144212, 3313401392, 1669305145, 1228378636, 3582751241, 2273075814,
      1075867018, 1451588671, 398144212, 3313401392, 1669305145, 1228378636,
      3582751241, 2273075814, 1075867018, 1451588671]"
    by (simp add: sw_round_list sw_word_def Let_def rc_words)
  have r5: "sw_round 5
      [398144212, 3313401392, 1669305145, 1228378636, 3582751241, 2273075814,
      1075867018, 1451588671, 398144212, 3313401392, 1669305145, 1228378636,
      3582751241, 2273075814, 1075867018, 1451588671] =
      [2071396042, 4226307651, 3303601437, 2017107986, 1341178518, 996714478,
      2037206369, 1616938827, 2071396042, 4226307651, 3303601437, 2017107986,
      1341178518, 996714478, 2037206369, 1616938827]"
    by (simp add: sw_round_list sw_word_def Let_def rc_words)
  have r6: "sw_round 6
      [2071396042, 4226307651, 3303601437, 2017107986, 1341178518, 996714478,
      2037206369, 1616938827, 2071396042, 4226307651, 3303601437, 2017107986,
      1341178518, 996714478, 2037206369, 1616938827] =
      [854483563, 658402485, 2847899406, 1773676437, 3401538413, 2639364814,
      3187257044, 1277310454, 854483563, 658402485, 2847899406, 1773676437,
      3401538413, 2639364814, 3187257044, 1277310454]"
    by (simp add: sw_round_list sw_word_def Let_def rc_words)
  have r7: "sw_round 7
      [854483563, 658402485, 2847899406, 1773676437, 3401538413, 2639364814,
      3187257044, 1277310454, 854483563, 658402485, 2847899406, 1773676437,
      3401538413, 2639364814, 3187257044, 1277310454] =
      [3489716237, 1081501567, 908159635, 3380161927, 2201391973, 1890165282,
      1000201263, 858323423, 3489716237, 1081501567, 908159635, 3380161927,
      2201391973, 1890165282, 1000201263, 858323423]"
    by (simp add: sw_round_list sw_word_def Let_def rc_words)
  have f: "map (\<lambda>i.
      [3489716237, 1081501567, 908159635, 3380161927, 2201391973, 1890165282,
      1000201263, 858323423, 3489716237, 1081501567, 908159635, 3380161927,
      2201391973, 1890165282, 1000201263, 858323423] ! i XOR
      load_u32
      [0, 0, 0, 0, 0, 0, 0, 0, 0, 0, 0, 0, 0, 0, 0, 0,
      0, 0, 0, 0, 0, 0, 0, 0, 0, 0, 0, 0, 0, 0, 0, 0,
      0, 0, 0, 0, 0, 0, 0, 0, 0, 0, 0, 0, 0, 0, 0, 0,
      0, 0, 0, 0, 0, 0, 0, 0, 0, 0, 0, 0, 0, 0, 0, 0] i) [0..<16] =
      [3489716237, 1081501567, 908159635, 3380161927, 2201391973, 1890165282,
      1000201263, 858323423, 3489716237, 1081501567, 908159635, 3380161927,
      2201391973, 1890165282, 1000201263, 858323423]"
    by (simp add: load_u32_def upt16)
  have c: "concat (map (\<lambda>i. store_u32
      ([3489716237, 1081501567, 908159635, 3380161927, 2201391973, 1890165282,
      1000201263, 858323423, 3489716237, 1081501567, 908159635, 3380161927,
      2201391973, 1890165282, 1000201263, 858323423] ! i XOR
       [3489716237, 1081501567, 908159635, 3380161927, 2201391973, 1890165282,
       1000201263, 858323423, 3489716237, 1081501567, 908159635, 3380161927,
       2201391973, 1890165282, 1000201263, 858323423] ! (i + 8))) [0..<8]) =
      [0, 0, 0, 0, 0, 0, 0, 0, 0, 0, 0, 0, 0, 0, 0, 0,
      0, 0, 0, 0, 0, 0, 0, 0, 0, 0, 0, 0, 0, 0, 0, 0]"
    by (simp add: store_u32_def upt8 le_of_word_numeral)
  show ?thesis
    by (simp only: haraka512_software_def Let_def w fold_rounds r0 r1 r2 r3 r4 r5 r6 r7 f c)
qed

lemma hw_eval_zero:
  "haraka512_aes_ni
     [0, 0, 0, 0, 0, 0, 0, 0, 0, 0, 0, 0, 0, 0, 0, 0,
     0, 0, 0, 0, 0, 0, 0, 0, 0, 0, 0, 0, 0, 0, 0, 0,
     0, 0, 0, 0, 0, 0, 0, 0, 0, 0, 0, 0, 0, 0, 0, 0,
     0, 0, 0, 0, 0, 0, 0, 0, 0, 0, 0, 0, 0, 0, 0, 0] =
     [251, 212, 90, 131, 94, 156, 152, 179, 129, 159, 234, 6, 82, 58, 176, 122,
     225, 92, 229, 165, 205, 55, 233, 66, 15, 187, 182, 193, 40, 136, 223, 28]"
proof -
  have i: "HashState (load_si128 X 0) (load_si128 X 16) (load_si128 X 32) (load_si128 X 48) =
      HashState
        (load_si128 [0, 0, 0, 0, 0, 0, 0, 0, 0, 0, 0, 0, 0, 0, 0, 0] 0)
        (load_si128 [0, 0, 0, 0, 0, 0, 0, 0, 0, 0, 0, 0, 0, 0, 0, 0] 0)
        (load_si128 [0, 0, 0, 0, 0, 0, 0, 0, 0, 0, 0, 0, 0, 0, 0, 0] 0)
        (load_si128 [0, 0, 0, 0, 0, 0, 0, 0, 0, 0, 0, 0, 0, 0, 0, 0] 0)"
    if "X = [0, 0, 0, 0, 0, 0, 0, 0, 0, 0, 0, 0, 0, 0, 0, 0,
         0, 0, 0, 0, 0, 0, 0, 0, 0, 0, 0, 0, 0, 0, 0, 0,
         0, 0, 0, 0, 0, 0, 0, 0, 0, 0, 0, 0, 0, 0, 0, 0,
         0, 0, 0, 0, 0, 0, 0, 0, 0, 0, 0, 0, 0, 0, 0, 0]" for X
    unfolding that by (simp add: load_si128_def)
  have e00: "aesenc_bytes
      [0, 0, 0, 0, 0, 0, 0, 0, 0, 0, 0, 0, 0, 0, 0, 0]
      [120, 126, 112, 182, 7, 27, 127, 65, 105, 94, 52, 45, 140, 174, 5, 14] =
      [27, 29, 19, 213, 100, 120, 28, 34, 10, 61, 87, 78, 239, 205, 102, 109]"
    by (simp add: aesenc_bytes_def MixColumns_def mix_column_def SubBytes_def ShiftRows_def
        aes_sbox_def xtime_def upt16 upt4)
  have e01: "aesenc_bytes
      [0, 0, 0, 0, 0, 0, 0, 0, 0, 0, 0, 0, 0, 0, 0, 0]
      [180, 58, 169, 120, 133, 139, 124, 253, 168, 164, 18, 92, 243, 226, 247, 198] =
      [215, 89, 202, 27, 230, 232, 31, 158, 203, 199, 113, 63, 144, 129, 148, 165]"
    by (simp add: aesenc_bytes_def MixColumns_def mix_column_def SubBytes_def ShiftRows_def
        aes_sbox_def xtime_def upt16 upt4)
  have e02: "aesenc_bytes
      [0, 0, 0, 0, 0, 0, 0, 0, 0, 0, 0, 0, 0, 0, 0, 0]
      [209, 195, 167, 225, 178, 221, 79, 146, 94, 79, 154, 76, 173, 135, 95, 140] =
      [178, 160, 196, 130, 209, 190, 44, 241, 61, 44, 249, 47, 206, 228, 60, 239]"
    by (simp add: aesenc_bytes_def MixColumns_def mix_column_def SubBytes_def ShiftRows_def
        aes_sbox_def xtime_def upt16 upt4)
  have e03: "aesenc_bytes
      [0, 0, 0, 0, 0, 0, 0, 0, 0, 0, 0, 0, 0, 0, 0, 0]
      [190, 201, 168, 35, 65, 166, 242, 133, 142, 194, 148, 122, 91, 143, 59, 244] =
      [221, 170, 203, 64, 34, 197, 145, 230, 237, 161, 247, 25, 56, 236, 88, 151]"
    by (simp add: aesenc_bytes_def MixColumns_def mix_column_def SubBytes_def ShiftRows_def
        aes_sbox_def xtime_def upt16 upt4)
  have r0: "aes_round 0
      (HashState
        (load_si128 [0, 0, 0, 0, 0, 0, 0, 0, 0, 0, 0, 0, 0, 0, 0, 0] 0)
        (load_si128 [0, 0, 0, 0, 0, 0, 0, 0, 0, 0, 0, 0, 0, 0, 0, 0] 0)
        (load_si128 [0, 0, 0, 0, 0, 0, 0, 0, 0, 0, 0, 0, 0, 0, 0, 0] 0)
        (load_si128 [0, 0, 0, 0, 0, 0, 0, 0, 0, 0, 0, 0, 0, 0, 0, 0] 0)) =
      HashState
        (load_si128 [27, 29, 19, 213, 100, 120, 28, 34, 10, 61, 87, 78, 239, 205, 102, 109] 0)
        (load_si128 [215, 89, 202, 27, 230, 232, 31, 158, 203, 199, 113, 63, 144, 129, 148, 165] 0)
        (load_si128 [178, 160, 196, 130, 209, 190, 44, 241, 61, 44, 249, 47, 206, 228, 60, 239] 0)
        (load_si128 [221, 170, 203, 64, 34, 197, 145, 230, 237, 161, 247, 25, 56, 236, 88, 151] 0)"
    by (simp add: aes_round_bytes rc_lanes e00 e01 e02 e03 del: aes_round.simps)
  have e10: "aesenc_bytes
      [27, 29, 19, 213, 100, 120, 28, 34, 10, 61, 87, 78, 239, 205, 102, 109]
      [180, 58, 169, 120, 133, 139, 124, 253, 168, 164, 18, 92, 243, 226, 247, 198] =
      [73, 39, 72, 13, 90, 208, 123, 42, 84, 182, 156, 8, 18, 254, 222, 218]"
    by (simp add: aesenc_bytes_def MixColumns_def mix_column_def SubBytes_def ShiftRows_def
        aes_sbox_def xtime_def upt16 upt4)
  have e11: "aesenc_bytes
      [215, 89, 202, 27, 230, 232, 31, 158, 203, 199, 113, 63, 144, 129, 148, 165]
      [209, 195, 167, 225, 178, 221, 79, 146, 94, 79, 154, 76, 173, 135, 95, 140] =
      [222, 24, 101, 199, 105, 13, 169, 186, 11, 223, 124, 3, 158, 68, 240, 205]"
    by (simp add: aesenc_bytes_def MixColumns_def mix_column_def SubBytes_def ShiftRows_def
        aes_sbox_def xtime_def upt16 upt4)
  have e12: "aesenc_bytes
      [178, 160, 196, 130, 209, 190, 44, 241, 61, 44, 249, 47, 206, 228, 60, 239]
      [190, 201, 168, 35, 65, 166, 242, 133, 142, 194, 148, 122, 91, 143, 59, 244] =
      [127, 214, 98, 232, 86, 79, 69, 123, 198, 178, 26, 63, 9, 89, 141, 201]"
    by (simp add: aesenc_bytes_def MixColumns_def mix_column_def SubBytes_def ShiftRows_def
        aes_sbox_def xtime_def upt16 upt4)
  have e13: "aesenc_bytes
      [221, 170, 203, 64, 34, 197, 145, 230, 237, 161, 247, 25, 56, 236, 88, 151]
      [86, 217, 200, 65, 43, 110, 60, 248, 241, 232, 125, 154, 212, 178, 24, 92] =
      [222, 127, 252, 220, 35, 46, 82, 28, 131, 149, 81, 179, 96, 186, 205, 203]"
    by (simp add: aesenc_bytes_def MixColumns_def mix_column_def SubBytes_def ShiftRows_def
        aes_sbox_def xtime_def upt16 upt4)
  have r1: "aes_round 1
      (HashState
        (load_si128 [27, 29, 19, 213, 100, 120, 28, 34, 10, 61, 87, 78, 239, 205, 102, 109] 0)
        (load_si128 [215, 89, 202, 27, 230, 232, 31, 158, 203, 199, 113, 63, 144, 129, 148, 165] 0)
        (load_si128 [178, 160, 196, 130, 209, 190, 44, 241, 61, 44, 249, 47, 206, 228, 60, 239] 0)
        (load_si128 [221, 170, 203, 64, 34, 197, 145, 230, 237, 161, 247, 25, 56, 236, 88, 151] 0)) =
      HashState
        (load_si128 [222, 24, 101, 199, 105, 13, 169, 186, 11, 223, 124, 3, 158, 68, 240, 205] 0)
        (load_si128 [127, 214, 98, 232, 86, 79, 69, 123, 198, 178, 26, 63, 9, 89, 141, 201] 0)
        (load_si128 [222, 127, 252, 220, 35, 46, 82, 28, 131, 149, 81, 179, 96, 186, 205, 203] 0)
        (load_si128 [73, 39, 72, 13, 90, 208, 123, 42, 84, 182, 156, 8, 18, 254, 222, 218] 0)"
    by (simp add: aes_round_bytes rc_lanes e10 e11 e12 e13 del: aes_round.simps)
  have e20: "aesenc_bytes
      [222, 24, 101, 199, 105, 13, 169, 186, 11, 223, 124, 3, 158, 68, 240, 205]
      [209, 195, 167, 225, 178, 221, 79, 146, 94, 79, 154, 76, 173, 135, 95, 140] =
      [36, 230, 145, 96, 168, 74, 122, 7, 156, 113, 55, 148, 255, 216, 201, 25]"
    by (simp add: aesenc_bytes_def MixColumns_def mix_column_def SubBytes_def ShiftRows_def
        aes_sbox_def xtime_def upt16 upt4)
  have e21: "aesenc_bytes
      [127, 214, 98, 232, 86, 79, 69, 123, 198, 178, 26, 63, 9, 89, 141, 201]
      [190, 201, 168, 35, 65, 166, 242, 133, 142, 194, 148, 122, 91, 143, 59, 244] =
      [233, 40, 221, 201, 167, 5, 120, 10, 48, 63, 199, 158, 67, 190, 143, 133]"
    by (simp add: aesenc_bytes_def MixColumns_def mix_column_def SubBytes_def ShiftRows_def
        aes_sbox_def xtime_def upt16 upt4)
  have e22: "aesenc_bytes
      [222, 127, 252, 220, 35, 46, 82, 28, 131, 149, 81, 179, 96, 186, 205, 203]
      [86, 217, 200, 65, 43, 110, 60, 248, 241, 232, 125, 154, 212, 178, 24, 92] =
      [241, 209, 124, 184, 34, 70, 192, 18, 25, 160, 161, 210, 111, 176, 173, 63]"
    by (simp add: aesenc_bytes_def MixColumns_def mix_column_def SubBytes_def ShiftRows_def
        aes_sbox_def xtime_def upt16 upt4)
  have e23: "aesenc_bytes
      [73, 39, 72, 13, 90, 208, 123, 42, 84, 182, 156, 8, 18, 254, 222, 218]
      [194, 164, 225, 115, 41, 214, 248, 181, 95, 124, 74, 142, 172, 179, 157, 47] =
      [173, 81, 244, 62, 86, 4, 80, 138, 126, 34, 65, 214, 123, 170, 138, 226]"
    by (simp add: aesenc_bytes_def MixColumns_def mix_column_def SubBytes_def ShiftRows_def
        aes_sbox_def xtime_def upt16 upt4)
  have r2: "aes_round 2
      (HashState
        (load_si128 [222, 24, 101, 199, 105, 13, 169, 186, 11, 223, 124, 3, 158, 68, 240, 205] 0)
        (load_si128 [127, 214, 98, 232, 86, 79, 69, 123, 198, 178, 26, 63, 9, 89, 141, 201] 0)
        (load_si128 [222, 127, 252, 220, 35, 46, 82, 28, 131, 149, 81, 179, 96, 186, 205, 203] 0)
        (load_si128 [73, 39, 72, 13, 90, 208, 123, 42, 84, 182, 156, 8, 18, 254, 222, 218] 0)) =
      HashState
        (load_si128 [36, 230, 145, 96, 168, 74, 122, 7, 156, 113, 55, 148, 255, 216, 201, 25] 0)
        (load_si128 [233, 40, 221, 201, 167, 5, 120, 10, 48, 63, 199, 158, 67, 190, 143, 133] 0)
        (load_si128 [241, 209, 124, 184, 34, 70, 192, 18, 25, 160, 161, 210, 111, 176, 173, 63] 0)
        (load_si128 [173, 81, 244, 62, 86, 4, 80, 138, 126, 34, 65, 214, 123, 170, 138, 226] 0)"
    by (simp add: aes_round_bytes rc_lanes e20 e21 e22 e23 del: aes_round.simps)
  have e30: "aesenc_bytes
      [36, 230, 145, 96, 168, 74, 122, 7, 156, 113, 55, 148, 255, 216, 201, 25]
      [190, 201, 168, 35, 65, 166, 242, 133, 142, 194, 148, 122, 91, 143, 59, 244] =
      [253, 41, 0, 134, 45, 149, 89, 29, 206, 131, 102, 114, 6, 201, 106, 222]"
    by (simp add: aesenc_bytes_def MixColumns_def mix_column_def SubBytes_def ShiftRows_def
        aes_sbox_def xtime_def upt16 upt4)
  have e31: "aesenc_bytes
      [233, 40, 221, 201, 167, 5, 120, 10, 48, 63, 199, 158, 67, 190, 143, 133]
      [86, 217, 200, 65, 43, 110, 60, 248, 241, 232, 125, 154, 212, 178, 24, 92] =
      [134, 215, 136, 251, 162, 144, 143, 187, 182, 148, 231, 55, 11, 20, 72, 236]"
    by (simp add: aesenc_bytes_def MixColumns_def mix_column_def SubBytes_def ShiftRows_def
        aes_sbox_def xtime_def upt16 upt4)
  have e32: "aesenc_bytes
      [241, 209, 124, 184, 34, 70, 192, 18, 25, 160, 161, 210, 111, 176, 173, 63]
      [194, 164, 225, 115, 41, 214, 248, 181, 95, 124, 74, 142, 172, 179, 157, 47] =
      [50, 146, 225, 9, 214, 86, 14, 182, 7, 132, 25, 151, 170, 7, 160, 57]"
    by (simp add: aesenc_bytes_def MixColumns_def mix_column_def SubBytes_def ShiftRows_def
        aes_sbox_def xtime_def upt16 upt4)
  have e33: "aesenc_bytes
      [173, 81, 244, 62, 86, 4, 80, 138, 126, 34, 65, 214, 123, 170, 138, 226]
      [199, 225, 185, 165, 38, 77, 140, 31, 59, 90, 209, 231, 148, 143, 44, 107] =
      [224, 141, 112, 91, 61, 241, 159, 69, 232, 78, 105, 6, 27, 20, 123, 125]"
    by (simp add: aesenc_bytes_def MixColumns_def mix_column_def SubBytes_def ShiftRows_def
        aes_sbox_def xtime_def upt16 upt4)
  have r3: "aes_round 3
      (HashState
        (load_si128 [36, 230, 145, 96, 168, 74, 122, 7, 156, 113, 55, 148, 255, 216, 201, 25] 0)
        (load_si128 [233, 40, 221, 201, 167, 5, 120, 10, 48, 63, 199, 158, 67, 190, 143, 133] 0)
        (load_si128 [241, 209, 124, 184, 34, 70, 192, 18, 25, 160, 161, 210, 111, 176, 173, 63] 0)
        (load_si128 [173, 81, 244, 62, 86, 4, 80, 138, 126, 34, 65, 214, 123, 170, 138, 226] 0)) =
      HashState
        (load_si128 [134, 215, 136, 251, 162, 144, 143, 187, 182, 148, 231, 55, 11, 20, 72, 236] 0)
        (load_si128 [50, 146, 225, 9, 214, 86, 14, 182, 7, 132, 25, 151, 170, 7, 160, 57] 0)
        (load_si128 [224, 141, 112, 91, 61, 241, 159, 69, 232, 78, 105, 6, 27, 20, 123, 125] 0)
        (load_si128 [253, 41, 0, 134, 45, 149, 89, 29, 206, 131, 102, 114, 6, 201, 106, 222] 0)"
    by (simp add: aes_round_bytes rc_lanes e30 e31 e32 e33 del: aes_round.simps)
  have e40: "aesenc_bytes
      [134, 215, 136, 251, 162, 144, 143, 187, 182, 148, 231, 55, 11, 20, 72, 236]
      [86, 217, 200, 65, 43, 110, 60, 248, 241, 232, 125, 154, 212, 178, 24, 92] =
      [36, 52, 150, 254, 100, 233, 145, 216, 86, 244, 127, 185, 121, 138, 110, 115]"
    by (simp add: aesenc_bytes_def MixColumns_def mix_column_def SubBytes_def ShiftRows_def
        aes_sbox_def xtime_def upt16 upt4)
  have e41: "aesenc_bytes
      [50, 146, 225, 9, 214, 86, 14, 182, 7, 132, 25, 151, 170, 7, 160, 57]
      [194, 164, 225, 115, 41, 214, 248, 181, 95, 124, 74, 142, 172, 179, 157, 47] =
      [138, 139, 246, 87, 222, 164, 137, 9, 44, 117, 115, 123, 29, 239, 176, 47]"
    by (simp add: aesenc_bytes_def MixColumns_def mix_column_def SubBytes_def ShiftRows_def
        aes_sbox_def xtime_def upt16 upt4)
  have e42: "aesenc_bytes
      [224, 141, 112, 91, 61, 241, 159, 69, 232, 78, 105, 6, 27, 20, 123, 125]
      [199, 225, 185, 165, 38, 77, 140, 31, 59, 90, 209, 231, 148, 143, 44, 107] =
      [224, 182, 10, 32, 1, 110, 141, 10, 60, 179, 160, 38, 130, 131, 194, 217]"
    by (simp add: aesenc_bytes_def MixColumns_def mix_column_def SubBytes_def ShiftRows_def
        aes_sbox_def xtime_def upt16 upt4)
  have e43: "aesenc_bytes
      [253, 41, 0, 134, 45, 149, 89, 29, 206, 131, 102, 114, 6, 201, 106, 222]
      [108, 117, 29, 142, 165, 201, 180, 242, 232, 97, 122, 61, 132, 43, 95, 156] =
      [148, 61, 34, 81, 103, 144, 72, 231, 94, 74, 29, 86, 37, 19, 216, 195]"
    by (simp add: aesenc_bytes_def MixColumns_def mix_column_def SubBytes_def ShiftRows_def
        aes_sbox_def xtime_def upt16 upt4)
  have r4: "aes_round 4
      (HashState
        (load_si128 [134, 215, 136, 251, 162, 144, 143, 187, 182, 148, 231, 55, 11, 20, 72, 236] 0)
        (load_si128 [50, 146, 225, 9, 214, 86, 14, 182, 7, 132, 25, 151, 170, 7, 160, 57] 0)
        (load_si128 [224, 141, 112, 91, 61, 241, 159, 69, 232, 78, 105, 6, 27, 20, 123, 125] 0)
        (load_si128 [253, 41, 0, 134, 45, 149, 89, 29, 206, 131, 102, 114, 6, 201, 106, 222] 0)) =
      HashState
        (load_si128 [36, 52, 150, 254, 100, 233, 145, 216, 86, 244, 127, 185, 121, 138, 110, 115] 0)
        (load_si128 [138, 139, 246, 87, 222, 164, 137, 9, 44, 117, 115, 123, 29, 239, 176, 47] 0)
        (load_si128 [224, 182, 10, 32, 1, 110, 141, 10, 60, 179, 160, 38, 130, 131, 194, 217] 0)
        (load_si128 [148, 61, 34, 81, 103, 144, 72, 231, 94, 74, 29, 86, 37, 19, 216, 195] 0)"
    by (simp add: aes_round_bytes rc_lanes e40 e41 e42 e43 del: aes_round.simps)
  have e50: "aesenc_bytes
      [36, 52, 150, 254, 100, 233, 145, 216, 86, 244, 127, 185, 121, 138, 110, 115]
      [194, 164, 225, 115, 41, 214, 248, 181, 95, 124, 74, 142, 172, 179, 157, 47] =
      [209, 76, 252, 224, 81, 241, 247, 61, 85, 251, 29, 106, 36, 251, 208, 219]"
    by (simp add: aesenc_bytes_def MixColumns_def mix_column_def SubBytes_def ShiftRows_def
        aes_sbox_def xtime_def upt16 upt4)
  have e51: "aesenc_bytes
      [138, 139, 246, 87, 222, 164, 137, 9, 44, 117, 115, 123, 29, 239, 176, 47]
      [199, 225, 185, 165, 38, 77, 140, 31, 59, 90, 209, 231, 148, 143, 44, 107] =
      [122, 146, 180, 203, 28, 24, 52, 244, 224, 73, 248, 235, 6, 130, 131, 68]"
    by (simp add: aesenc_bytes_def MixColumns_def mix_column_def SubBytes_def ShiftRows_def
        aes_sbox_def xtime_def upt16 upt4)
  have e52: "aesenc_bytes
      [224, 182, 10, 32, 1, 110, 141, 10, 60, 179, 160, 38, 130, 131, 194, 217]
      [108, 117, 29, 142, 165, 201, 180, 242, 232, 97, 122, 61, 132, 43, 95, 156] =
      [218, 191, 231, 163, 120, 183, 45, 75, 10, 135, 26, 94, 218, 180, 186, 79]"
    by (simp add: aesenc_bytes_def MixColumns_def mix_column_def SubBytes_def ShiftRows_def
        aes_sbox_def xtime_def upt16 upt4)
  have e53: "aesenc_bytes
      [148, 61, 34, 81, 103, 144, 72, 231, 94, 74, 29, 86, 37, 19, 216, 195]
      [120, 126, 112, 182, 7, 27, 127, 65, 105, 94, 52, 45, 140, 174, 5, 14] =
      [22, 69, 19, 72, 199, 91, 134, 219, 89, 198, 139, 24, 120, 152, 113, 67]"
    by (simp add: aesenc_bytes_def MixColumns_def mix_column_def SubBytes_def ShiftRows_def
        aes_sbox_def xtime_def upt16 upt4)
  have r5: "aes_round 5
      (HashState
        (load_si128 [36, 52, 150, 254, 100, 233, 145, 216, 86, 244, 127, 185, 121, 138, 110, 115] 0)
        (load_si128 [138, 139, 246, 87, 222, 164, 137, 9, 44, 117, 115, 123, 29, 239, 176, 47] 0)
        (load_si128 [224, 182, 10, 32, 1, 110, 141, 10, 60, 179, 160, 38, 130, 131, 194, 217] 0)
        (load_si128 [148, 61, 34, 81, 103, 144, 72, 231, 94, 74, 29, 86, 37, 19, 216, 195] 0)) =
      HashState
        (load_si128 [122, 146, 180, 203, 28, 24, 52, 244, 224, 73, 248, 235, 6, 130, 131, 68] 0)
        (load_si128 [218, 191, 231, 163, 120, 183, 45, 75, 10, 135, 26, 94, 218, 180, 186, 79] 0)
        (load_si128 [22, 69, 19, 72, 199, 91, 134, 219, 89, 198, 139, 24, 120, 152, 113, 67] 0)
        (load_si128 [209, 76, 252, 224, 81, 241, 247, 61, 85, 251, 29, 106, 36, 251, 208, 219] 0)"
    by (simp add: aes_round_bytes rc_lanes e50 e51 e52 e53 del: aes_round.simps)
  have e60: "aesenc_bytes
      [122, 146, 180, 203, 28, 24, 52, 244, 224, 73, 248, 235, 6, 130, 131, 68]
      [199, 225, 185, 165, 38, 77, 140, 31, 59, 90, 209, 231, 148, 143, 44, 107] =
      [222, 162, 97, 10, 187, 151, 201, 73, 229, 174, 248, 36, 106, 191, 28, 68]"
    by (simp add: aesenc_bytes_def MixColumns_def mix_column_def SubBytes_def ShiftRows_def
        aes_sbox_def xtime_def upt16 upt4)
  have e61: "aesenc_bytes
      [218, 191, 231, 163, 120, 183, 45, 75, 10, 135, 26, 94, 218, 180, 186, 79]
      [108, 117, 29, 142, 165, 201, 180, 242, 232, 97, 122, 61, 132, 43, 95, 156] =
      [4, 18, 43, 111, 1, 86, 242, 218, 141, 19, 109, 240, 178, 71, 67, 5]"
    by (simp add: aesenc_bytes_def MixColumns_def mix_column_def SubBytes_def ShiftRows_def
        aes_sbox_def xtime_def upt16 upt4)
  have e62: "aesenc_bytes
      [22, 69, 19, 72, 199, 91, 134, 219, 89, 198, 139, 24, 120, 152, 113, 67]
      [120, 126, 112, 182, 7, 27, 127, 65, 105, 94, 52, 45, 140, 174, 5, 14] =
      [154, 22, 90, 79, 166, 2, 166, 163, 234, 39, 147, 57, 180, 175, 179, 186]"
    by (simp add: aesenc_bytes_def MixColumns_def mix_column_def SubBytes_def ShiftRows_def
        aes_sbox_def xtime_def upt16 upt4)
  have e63: "aesenc_bytes
      [209, 76, 252, 224, 81, 241, 247, 61, 85, 251, 29, 106, 36, 251, 208, 219]
      [180, 58, 169, 120, 133, 139, 124, 253, 168, 164, 18, 92, 243, 226, 247, 198] =
      [45, 19, 181, 86, 188, 53, 122, 51, 205, 170, 243, 178, 142, 60, 62, 217]"
    by (simp add: aesenc_bytes_def MixColumns_def mix_column_def SubBytes_def ShiftRows_def
        aes_sbox_def xtime_def upt16 upt4)
  have r6: "aes_round 6
      (HashState
        (load_si128 [122, 146, 180, 203, 28, 24, 52, 244, 224, 73, 248, 235, 6, 130, 131, 68] 0)
        (load_si128 [218, 191, 231, 163, 120, 183, 45, 75, 10, 135, 26, 94, 218, 180, 186, 79] 0)
        (load_si128 [22, 69, 19, 72, 199, 91, 134, 219, 89, 198, 139, 24, 120, 152, 113, 67] 0)
        (load_si128 [209, 76, 252, 224, 81, 241, 247, 61, 85, 251, 29, 106, 36, 251, 208, 219] 0)) =
      HashState
        (load_si128 [222, 162, 97, 10, 187, 151, 201, 73, 229, 174, 248, 36, 106, 191, 28, 68] 0)
        (load_si128 [4, 18, 43, 111, 1, 86, 242, 218, 141, 19, 109, 240, 178, 71, 67, 5] 0)
        (load_si128 [154, 22, 90, 79, 166, 2, 166, 163, 234, 39, 147, 57, 180, 175, 179, 186] 0)
        (load_si128 [45, 19, 181, 86, 188, 53, 122, 51, 205, 170, 243, 178, 142, 60, 62, 217] 0)"
    by (simp add: aes_round_bytes rc_lanes e60 e61 e62 e63 del: aes_round.simps)
  have e70: "aesenc_bytes
      [222, 162, 97, 10, 187, 151, 201, 73, 229, 174, 248, 36, 106, 191, 28, 68]
      [108, 117, 29, 142, 165, 201, 180, 242, 232, 97, 122, 61, 132, 43, 95, 156] =
      [143, 187, 39, 86, 166, 40, 48, 97, 141, 185, 35, 220, 37, 23, 156, 17]"
    by (simp add: aesenc_bytes_def MixColumns_def mix_column_def SubBytes_def ShiftRows_def
        aes_sbox_def xtime_def upt16 upt4)
  have e71: "aesenc_bytes
      [4, 18, 43, 111, 1, 86, 242, 218, 141, 19, 109, 240, 178, 71, 67, 5]
      [120, 126, 112, 182, 7, 27, 127, 65, 105, 94, 52, 45, 140, 174, 5, 14] =
      [24, 218, 246, 224, 202, 27, 169, 233, 142, 7, 201, 53, 167, 28, 125, 20]"
    by (simp add: aesenc_bytes_def MixColumns_def mix_column_def SubBytes_def ShiftRows_def
        aes_sbox_def xtime_def upt16 upt4)
  have e72: "aesenc_bytes
      [154, 22, 90, 79, 166, 2, 166, 163, 234, 39, 147, 57, 180, 175, 179, 186]
      [180, 58, 169, 120, 133, 139, 124, 253, 168, 164, 18, 92, 243, 226, 247, 198] =
      [110, 231, 194, 243, 107, 31, 217, 35, 130, 2, 149, 29, 13, 159, 67, 13]"
    by (simp add: aesenc_bytes_def MixColumns_def mix_column_def SubBytes_def ShiftRows_def
        aes_sbox_def xtime_def upt16 upt4)
  have e73: "aesenc_bytes
      [45, 19, 181, 86, 188, 53, 122, 51, 205, 170, 243, 178, 142, 60, 62, 217]
      [209, 195, 167, 225, 178, 221, 79, 146, 94, 79, 154, 76, 173, 135, 95, 140] =
      [227, 14, 172, 99, 148, 135, 49, 90, 15, 152, 35, 51, 245, 38, 205, 110]"
    by (simp add: aesenc_bytes_def MixColumns_def mix_column_def SubBytes_def ShiftRows_def
        aes_sbox_def xtime_def upt16 upt4)
  have r7: "aes_round 7
      (HashState
        (load_si128 [222, 162, 97, 10, 187, 151, 201, 73, 229, 174, 248, 36, 106, 191, 28, 68] 0)
        (load_si128 [4, 18, 43, 111, 1, 86, 242, 218, 141, 19, 109, 240, 178, 71, 67, 5] 0)
        (load_si128 [154, 22, 90, 79, 166, 2, 166, 163, 234, 39, 147, 57, 180, 175, 179, 186] 0)
        (load_si128 [45, 19, 181, 86, 188, 53, 122, 51, 205, 170, 243, 178, 142, 60, 62, 217] 0)) =
      HashState
        (load_si128 [24, 218, 246, 224, 202, 27, 169, 233, 142, 7, 201, 53, 167, 28, 125, 20] 0)
        (load_si128 [110, 231, 194, 243, 107, 31, 217, 35, 130, 2, 149, 29, 13, 159, 67, 13] 0)
        (load_si128 [227, 14, 172, 99, 148, 135, 49, 90, 15, 152, 35, 51, 245, 38, 205, 110] 0)
        (load_si128 [143, 187, 39, 86, 166, 40, 48, 97, 141, 185, 35, 220, 37, 23, 156, 17] 0)"
    by (simp add: aes_round_bytes rc_lanes e70 e71 e72 e73 del: aes_round.simps)
  have o: "aes_ni_output
      [0, 0, 0, 0, 0, 0, 0, 0, 0, 0, 0, 0, 0, 0, 0, 0,
      0, 0, 0, 0, 0, 0, 0, 0, 0, 0, 0, 0, 0, 0, 0, 0,
      0, 0, 0, 0, 0, 0, 0, 0, 0, 0, 0, 0, 0, 0, 0, 0,
      0, 0, 0, 0, 0, 0, 0, 0, 0, 0, 0, 0, 0, 0, 0, 0]
      (HashState
        (load_si128 [24, 218, 246, 224, 202, 27, 169, 233, 142, 7, 201, 53, 167, 28, 125, 20] 0)
        (load_si128 [110, 231, 194, 243, 107, 31, 217, 35, 130, 2, 149, 29, 13, 159, 67, 13] 0)
        (load_si128 [227, 14, 172, 99, 148, 135, 49, 90, 15, 152, 35, 51, 245, 38, 205, 110] 0)
        (load_si128 [143, 187, 39, 86, 166, 40, 48, 97, 141, 185, 35, 220, 37, 23, 156, 17] 0)) =
      [251, 212, 90, 131, 94, 156, 152, 179, 129, 159, 234, 6, 82, 58, 176, 122,
      225, 92, 229, 165, 205, 55, 233, 66, 15, 187, 182, 193, 40, 136, 223, 28]"
    by (simp add: aes_ni_output_bytes del: aes_ni_output.simps)
  show ?thesis
    by (simp only: haraka512_aes_ni_def fold_aes_rounds i [OF refl] r0 r1 r2 r3 r4 r5 r6 r7 o)
qed

section \<open>The two entry points on concrete messages\<close>

text \<open>
  C6 at the empty message, on the software and on the hardware path:
  \<^verbatim>\<open>verushash_hash\<close> permutes the initial state as it is, while
  \<^verbatim>\<open>verushash_finalize\<close> on a fresh context first XORs the padded block (marker and
  zero length) into it. The two digests differ.
\<close>

theorem empty_message_paths_differ:
  "verushash_hash False [] =
     [152, 42, 163, 142, 197, 167, 96, 76, 62, 171, 246, 13, 27, 40, 37, 246,
     17, 160, 127, 14, 33, 155, 10, 156, 117, 116, 230, 5, 160, 147, 104, 68] \<and>
   streaming False mem0 out0 [] =
     Some [24, 42, 163, 142, 197, 167, 96, 76, 62, 171, 246, 13, 27, 40, 37, 246,
          9, 154, 68, 36, 33, 155, 10, 156, 117, 116, 230, 5, 160, 147, 104, 68] \<and>
   Some (verushash_hash False []) \<noteq> streaming False mem0 out0 [] \<and>
   verushash_hash True [] =
     [188, 117, 179, 152, 130, 9, 4, 248, 173, 100, 218, 198, 171, 100, 9, 84,
     22, 153, 215, 73, 217, 81, 112, 192, 70, 184, 39, 88, 229, 215, 204, 227] \<and>
   streaming True mem0 out0 [] =
     Some [28, 58, 97, 159, 223, 114, 74, 160, 155, 220, 59, 128, 189, 200, 202, 88,
          22, 153, 215, 73, 217, 81, 112, 192, 70, 184, 39, 88, 229, 215, 204, 227] \<and>
   Some (verushash_hash True []) \<noteq> streaming True mem0 out0 []"
  by (simp add: hash_empty streaming_empty final_block_empty iv_bytes haraka512_def
      sw_eval_iv sw_eval_iv_pad hw_eval_iv hw_eval_iv_pad)

text \<open>
  C3 at the empty message, whose length is a multiple of 64, and at two messages of 57
  bytes, on the software and on the hardware path. For the empty message
  \<^verbatim>\<open>verushash_hash\<close> does not return the digest that the final padded block of the
  specification gives, while the streaming path does return it. The two messages of 57
  bytes differ in their last byte and have the same single-shot digest: the last trailing
  byte is not in the final block.
\<close>

theorem single_shot_padding_differs:
  "verushash_hash False [] \<noteq> spec_single_shot False [] \<and>
   streaming False mem0 out0 [] = Some (spec_single_shot False []) \<and>
   verushash_hash True [] \<noteq> spec_single_shot True [] \<and>
   streaming True mem0 out0 [] = Some (spec_single_shot True []) \<and>
   verushash_hash False (msg56 @ [0x00]) = verushash_hash False (msg56 @ [0xFF]) \<and>
   verushash_hash True (msg56 @ [0x00]) = verushash_hash True (msg56 @ [0xFF])"
proof -
  have s: "spec_single_shot hw [] =
      haraka512 hw (map2 (XOR) (store_state initial_state) (spec_final_block [] 0))" for hw
    by (simp add: spec_single_shot_def hash_loop_short store_state_xor_block spec_final_block_def)
  show ?thesis
    by (simp add: s hash_empty streaming_empty single_shot_tail_ignored)
      (simp add: final_block_empty iv_bytes haraka512_def sw_eval_iv sw_eval_iv_pad
        hw_eval_iv hw_eval_iv_pad)
qed

text \<open>
  C1 at a message of 56 bytes fed in chunks of 30 and 26 bytes, on the software and on the
  hardware path: the single-shot path writes the length over the marker and absorbs one
  block, the streaming path absorbs the marker block and then a length block. The two
  digests differ.
\<close>

theorem msg56_paths_differ:
  "verushash_hash False msg56 =
     [112, 135, 132, 226, 15, 48, 131, 8, 15, 141, 116, 210, 218, 106, 89, 177,
     220, 77, 128, 140, 98, 161, 1, 167, 200, 9, 173, 147, 161, 121, 34, 69] \<and>
   streaming False mem0 out0 msg56_chunks =
     Some [110, 174, 84, 172, 102, 178, 48, 119, 243, 7, 207, 118, 225, 63, 234, 214,
          19, 202, 201, 54, 9, 170, 227, 27, 143, 58, 153, 144, 148, 11, 14, 40] \<and>
   Some (verushash_hash False msg56) \<noteq> streaming False mem0 out0 msg56_chunks \<and>
   verushash_hash True msg56 =
     [29, 69, 203, 126, 128, 38, 185, 86, 242, 251, 201, 28, 66, 18, 71, 11,
     172, 167, 77, 146, 122, 242, 141, 102, 246, 161, 9, 90, 240, 190, 206, 9] \<and>
   streaming True mem0 out0 msg56_chunks =
     Some [138, 85, 8, 69, 118, 32, 40, 212, 93, 112, 223, 175, 70, 50, 224, 38,
          210, 150, 146, 0, 111, 80, 158, 164, 224, 197, 65, 215, 60, 13, 41, 217] \<and>
   Some (verushash_hash True msg56) \<noteq> streaming True mem0 out0 msg56_chunks"
  by (simp add: msg56_single msg56_stream msg56_padded iv_bytes haraka512_def
      sw_eval_msg56_single sw_eval_msg56_first sw_eval_msg56_final
      hw_eval_msg56_single hw_eval_msg56_first hw_eval_msg56_final)

section \<open>The two permutation paths\<close>

text \<open>
  C2 at the all-zero block: the hardware path and the software path return different
  outputs (the software path returns 32 zero bytes).
\<close>

theorem permutation_paths_differ:
  "haraka512_aes_ni zero_block =
     [251, 212, 90, 131, 94, 156, 152, 179, 129, 159, 234, 6, 82, 58, 176, 122,
     225, 92, 229, 165, 205, 55, 233, 66, 15, 187, 182, 193, 40, 136, 223, 28] \<and>
   haraka512_software zero_block =
     [0, 0, 0, 0, 0, 0, 0, 0, 0, 0, 0, 0, 0, 0, 0, 0,
     0, 0, 0, 0, 0, 0, 0, 0, 0, 0, 0, 0, 0, 0, 0, 0] \<and>
   haraka512 True zero_block \<noteq> haraka512 False zero_block"
  by (simp add: zero_block_def replicate_numeral haraka512_def hw_eval_zero sw_eval_zero)

text \<open>The shifts of the source are rotations.\<close>

lemma rotl13: "push_bit 13 x OR drop_bit 19 x = word_rotl 13 (x :: u32)"
proof (rule bit_eqI)
  fix n
  assume "possible_bit TYPE(u32) n"
  then have n: "n < 32" by (simp add: possible_bit_word)
  show "bit (push_bit 13 x OR drop_bit 19 x) n \<longleftrightarrow> bit (word_rotl 13 x) n"
  proof (cases "n < 13")
    case True
    then show ?thesis
      by (simp add: bit_or_iff bit_push_bit_iff bit_drop_bit_eq bit_word_rotl_iff add.commute)
  next
    case False
    then have "(n + 19) mod 32 = n - 13"
      using n by (simp add: mod_if)
    moreover have "\<not> bit x (19 + n)"
      using False by (auto dest: bit_imp_le_length)
    ultimately show ?thesis
      using False n
      by (simp add: bit_or_iff bit_push_bit_iff bit_drop_bit_eq bit_word_rotl_iff)
  qed
qed

lemma rotr17: "drop_bit 17 x OR push_bit 15 x = word_rotr 17 (x :: u32)"
proof (rule bit_eqI)
  fix n
  assume "possible_bit TYPE(u32) n"
  then have n: "n < 32" by (simp add: possible_bit_word)
  show "bit (drop_bit 17 x OR push_bit 15 x) n \<longleftrightarrow> bit (word_rotr 17 x) n"
  proof (cases "n < 15")
    case True
    then show ?thesis
      by (simp add: bit_or_iff bit_push_bit_iff bit_drop_bit_eq bit_word_rotr_iff add.commute)
  next
    case False
    then have "(n + 17) mod 32 = n - 15"
      using n by (simp add: mod_if)
    moreover have "\<not> bit x (17 + n)"
      using False by (auto dest: bit_imp_le_length)
    ultimately show ?thesis
      using False n
      by (simp add: bit_or_iff bit_push_bit_iff bit_drop_bit_eq bit_word_rotr_iff)
  qed
qed

lemma sw_word_rot:
  "sw_word j x =
     ((x XOR word_rotl 13 x) XOR word_rotr 17 (x XOR word_rotl 13 x)) + HARAKA_RC_u32 (j mod 8)"
  by (simp add: sw_word_def Let_def rotl13 rotr17)

text \<open>
  C8, as the code has it: in each of the 8 rounds of the software path every word \<open>x\<close> at
  index \<open>j\<close> becomes \<open>y XOR rotr 17 y\<close> plus a constant, where \<open>y = x XOR rotl 13 x\<close>
  and the constant is the 32-bit word \<open>j mod 8\<close> of the constant table (the same eight
  words in every round); on odd rounds the sixteen words are then rotated by one word
  position (word \<open>i\<close> takes the value of word \<open>i + 1\<close>, word 15 that of word 0), not
  by a lane of four words.
\<close>

theorem sw_round_words:
  assumes "length words = 16" and "i < 16"
  shows "sw_round r words ! i =
     (let j = (if odd r then (i + 1) mod 16 else i);
          x = words ! j;
          y = x XOR word_rotl 13 x
      in (y XOR word_rotr 17 y) + HARAKA_RC_u32 (j mod 8)) \<and>
     map HARAKA_RC_u32 [0..<8] =
       [0xb6707e78, 0x417f1b07, 0x2d345e69, 0x0e05ae8c,
        0x78a93ab4, 0xfd7c8b85, 0x5c12a4a8, 0xc6f7e2f3]"
proof -
  have w: "map (\<lambda>k. sw_word k (words ! k)) [0..<16] ! k = sw_word k (words ! k)" if "k < 16" for k
    using that by simp
  have "sw_round r words ! i =
      sw_word (if odd r then (i + 1) mod 16 else i) (words ! (if odd r then (i + 1) mod 16 else i))"
  proof (cases "odd r")
    case False
    with assms(2) show ?thesis by (simp add: sw_round_def Let_def)
  next
    case True
    show ?thesis
    proof (cases "i < 15")
      case True
      with \<open>odd r\<close> show ?thesis
        by (simp add: sw_round_def Let_def nth_append)
    next
      case False
      with assms(2) have "i = 15" by simp
      with \<open>odd r\<close> show ?thesis
        by (simp add: sw_round_def Let_def nth_append)
    qed
  qed
  then show ?thesis
    by (simp add: sw_word_rot Let_def upt8 rc_words)
qed

theorem sw_round_words_witness:
  "length (replicate 16 (0::u32)) = 16 \<and> (15::nat) < 16 \<and>
   sw_round 1 (replicate 16 0) ! 15 =
     (let j = (if odd (1::nat) then (15 + 1) mod 16 else 15);
          x = replicate 16 (0::u32) ! j;
          y = x XOR word_rotl 13 x
      in (y XOR word_rotr 17 y) + HARAKA_RC_u32 (j mod 8)) \<and>
   map HARAKA_RC_u32 [0..<8] =
       [0xb6707e78, 0x417f1b07, 0x2d345e69, 0x0e05ae8c,
        0x78a93ab4, 0xfd7c8b85, 0x5c12a4a8, 0xc6f7e2f3]"
proof -
  have h: "length (replicate 16 (0::u32)) = 16" "(15::nat) < 16" by simp_all
  from sw_round_words [OF h, of 1] h show ?thesis
    by (simp only: simp_thms)
qed

text \<open>On an odd round the result is not the rotation by whole lanes.\<close>

theorem sw_round_lane_rotation_counterexample:
  "sw_round 1 (replicate 16 0) \<noteq> spec_sw_round 1 (replicate 16 0)"
proof
  assume "sw_round 1 (replicate 16 0) = spec_sw_round 1 (replicate 16 0)"
  then have "sw_round 1 (replicate 16 0) ! 0 = spec_sw_round 1 (replicate 16 0) ! 0"
    by simp
  then show False
    by (simp add: replicate_numeral sw_round_list spec_sw_round_def upt16 sw_word_def Let_def
        rc_words)
qed

end
